theory Spec2Isabelle
  imports Complex_Main
begin

section \<open>Resistance and voltage checker: the measurement session\<close>

text \<open>
  The repository holds two variants of one Tk application: \<^verbatim>\<open>Code/UI_2.py\<close> keeps the
  limits as explicit minima and maxima and only simulates the meter, \<^verbatim>\<open>Code/UI_test.py\<close>
  keeps them as a set point with a tolerance and queries a meter over a serial line.
  Functions of the first carry the suffix \<open>_ui2\<close>, functions of the second \<open>_uitest\<close>;
  code that is the same in both files is modelled once.

  Python floats are modelled by the real number they denote together with the three
  non-numbers a float can be. The rounding of float arithmetic is modelled where the
  limits are derived from set point and tolerance, since it decides what happens to a
  reading on a limit; the arithmetic of the simulated reading and the conversion to
  milliohm are exact, and overflow to infinity is not modelled. The Tk variables are modelled by
  the value they hold, so a variable whose entry text does not parse is outside the model.
  Calls that only repaint widgets (the big result box, the combo box, scrolling, button
  states, the text of the row entries) are left out; every call that writes a field of the
  session or raises a message box is kept.
\<close>

subsection \<open>Values\<close>

datatype pyfloat = FVal real | FPosInf | FNegInf | FNaN

text \<open>Python's \<open>a <= b\<close> on floats: false as soon as one side is not a number.\<close>

fun le_f :: "pyfloat \<Rightarrow> pyfloat \<Rightarrow> bool" where
  "le_f FNaN _ = False"
| "le_f _ FNaN = False"
| "le_f FNegInf _ = True"
| "le_f _ FPosInf = True"
| "le_f (FVal a) (FVal b) = (a \<le> b)"
| "le_f _ _ = False"

datatype error =
    IndexError
  | ValueError string
  | RuntimeError string
  | TimeoutError string
  | OSError string
  | AssertionError
  | TclError

text \<open>
  An exception does not undo the assignments made before it: a step that raises still
  hands back the state it reached.
\<close>

datatype 's outcome = Done 's | Raised error 's

fun state_of :: "'s outcome \<Rightarrow> 's" where
  "state_of (Done s) = s"
| "state_of (Raised e s) = s"

fun raised :: "'s outcome \<Rightarrow> error option" where
  "raised (Done s) = None"
| "raised (Raised e s) = Some e"

fun and_then :: "'s outcome \<Rightarrow> ('s \<Rightarrow> 's outcome) \<Rightarrow> 's outcome" where
  "and_then (Done s) f = f s"
| "and_then (Raised e s) f = Raised e s"

subsection \<open>Constants of the two modules\<close>

definition COLOR_TEXT :: string where "COLOR_TEXT = ''#1E2A35''"
definition COLOR_GREEN :: string where "COLOR_GREEN = ''#2ECC71''"
definition COLOR_RED :: string where "COLOR_RED = ''#E74C3C''"
definition COLOR_NEUTRAL :: string where "COLOR_NEUTRAL = ''#D6EAF8''"
definition LABEL_OK :: string where "LABEL_OK = ''PASS''"
definition LABEL_NG :: string where "LABEL_NG = ''NOT PASS''"

subsection \<open>The application object\<close>

text \<open>The limit variables of \<^verbatim>\<open>UI_2.py\<close> and of \<^verbatim>\<open>UI_test.py\<close>.\<close>

record minmax =
  r_min :: real
  r_max :: real
  v_min :: real
  v_max :: real

record settol =
  r_set :: real
  r_tol :: real
  v_set :: real
  v_tol :: real

text \<open>One entry of \<open>row_widgets\<close>: the colour of the lamp and of the two entry texts.\<close>

record row =
  lamp :: string
  r_fg :: string
  v_fg :: string

text \<open>What the application shows or schedules, in the order of the calls.\<close>

datatype event =
    ShowInfo string string
  | ShowError string string
  | ShowWarning string string
  | NextCellPopup
  | AfterTick nat
  | AfterCancel nat
  | AfterInfo nat string string
  | NotConnected

text \<open>
  The file system the export writes to. A path is the list of its components from the
  root; the root itself is always a directory. \<open>locked\<close> lists the directories that
  refuse a new entry and the files that refuse to be rewritten.
\<close>

type_synonym path = "string list"

record filesys =
  cwd :: path
  dirs :: "path list"
  files :: "(path \<times> string) list"
  locked :: "path list"

text \<open>
  The fields of \<open>App\<close> that the session uses. \<open>ser\<close> is the serial handle (port and baud
  rate) or \<open>None\<close>; \<open>auto_job\<close> is the pending timer of the Auto loop, held as its delay;
  \<open>gui\<close> collects the message boxes and timer calls made so far; \<open>disk\<close> is the file
  system the process sees.
\<close>

record 'l app =
  model_name :: string
  num_points :: int
  auto_interval :: int
  mode :: string
  save_folder :: string
  auto_export :: bool
  limits :: 'l
  ser :: "(string \<times> int) option"
  r_values :: "pyfloat option list"
  v_values :: "pyfloat option list"
  flags :: "bool list"
  current_idx :: nat
  row_widgets :: "row list"
  auto_running :: bool
  auto_job :: "nat option"
  gui :: "event list"
  disk :: filesys

subsection \<open>Float arithmetic\<close>

text \<open>The nearest natural number, a tie going to the even one.\<close>

definition round_half_even :: "real \<Rightarrow> nat" where
  "round_half_even y =
     (let f = nat \<lfloor>y\<rfloor>; d = y - real_of_int \<lfloor>y\<rfloor>
      in if d < 1 / 2 then f else if 1 / 2 < d then f + 1 else if even f then f else f + 1)"

text \<open>For \<open>y \<ge> 1\<close>, the exponent \<open>k\<close> with \<open>2 ^ k \<le> y < 2 ^ (k + 1)\<close>.\<close>

function ilog2 :: "real \<Rightarrow> nat" where
  "ilog2 y = (if y < 2 then 0 else Suc (ilog2 (y / 2)))"
  by pat_completeness auto
termination
proof (relation "measure (\<lambda>y. nat \<lfloor>y\<rfloor>)")
  show "wf (measure (\<lambda>y. nat \<lfloor>y\<rfloor>))" by simp
next
  fix y :: real
  assume big: "\<not> y < 2"
  then have "y / 2 \<le> y - 1" by simp
  then have "\<lfloor>y / 2\<rfloor> \<le> \<lfloor>y - 1\<rfloor>" by (rule floor_mono)
  also have "\<dots> = \<lfloor>y\<rfloor> - 1" by simp
  finally have "\<lfloor>y / 2\<rfloor> < \<lfloor>y\<rfloor>" by simp
  moreover from big have "0 < \<lfloor>y\<rfloor>" by simp
  ultimately show "(y / 2, y) \<in> measure (\<lambda>y. nat \<lfloor>y\<rfloor>)" by simp
qed

declare ilog2.simps [simp del]

text \<open>For \<open>x > 0\<close>, the exponent \<open>e\<close> with \<open>2 ^ e \<le> x < 2 ^ (e + 1)\<close>.\<close>

definition binade :: "real \<Rightarrow> int" where
  "binade x =
     (if 1 \<le> x then int (ilog2 x)
      else (let k = ilog2 (1 / x) in if 2 ^ k * x = 1 then - int k else - int k - 1))"

definition pow2 :: "int \<Rightarrow> real" where
  "pow2 e = (if 0 \<le> e then 2 ^ nat e else 1 / 2 ^ nat (- e))"

text \<open>
  The float nearest to a real number, a tie going to the even mantissa: an IEEE double
  has 53 bits, so in the binade of exponent \<open>e\<close> the floats are the multiples of
  \<open>2 ^ (e - 52)\<close>, and below \<open>2 ^ (- 1022)\<close> the multiples of \<open>2 ^ (- 1074)\<close>. This is what
  \<open>float(text)\<close> gives for a decimal and what \<open>a + b\<close> and \<open>a - b\<close> give for the exact sum
  and difference of two floats.
\<close>

definition to_double :: "real \<Rightarrow> real" where
  "to_double x =
     (if x = 0 then 0
      else (let q = pow2 (max (binade \<bar>x\<bar>) (- 1022) - 52);
                n = real (round_half_even (\<bar>x\<bar> / q))
            in if x < 0 then - (n * q) else n * q))"

subsection \<open>Limits\<close>

text \<open>
  \<open>_r_bounds\<close> and \<open>_v_bounds\<close> of \<^verbatim>\<open>UI_test.py\<close>: \<open>float(set) - float(tol)\<close> and
  \<open>float(set) + float(tol)\<close>, in float arithmetic.
\<close>

definition r_bounds :: "settol \<Rightarrow> real \<times> real" where
  "r_bounds l =
     (to_double (to_double (r_set l) - to_double (r_tol l)),
      to_double (to_double (r_set l) + to_double (r_tol l)))"

definition v_bounds :: "settol \<Rightarrow> real \<times> real" where
  "v_bounds l =
     (to_double (to_double (v_set l) - to_double (v_tol l)),
      to_double (to_double (v_set l) + to_double (v_tol l)))"

subsection \<open>Evaluating the rows\<close>

text \<open>
  The body of the loop of \<open>_refresh_rows\<close> is the same in both files once the bounds are
  read. \<open>ok_r = (r is not None) and (rmin <= r <= rmax)\<close>, and \<open>ok_v\<close> alike:
\<close>

definition ok_in :: "real \<times> real \<Rightarrow> pyfloat option \<Rightarrow> bool" where
  "ok_in b x = (x \<noteq> None \<and> le_f (FVal (fst b)) (the x) \<and> le_f (the x) (FVal (snd b)))"

text \<open>
  \<open>self.flags[i] = (r is not None) and (v is not None) and is_pass\<close>, with
  \<open>is_pass = ok_r and ok_v\<close>.
\<close>

definition row_flag ::
  "real \<times> real \<Rightarrow> real \<times> real \<Rightarrow> pyfloat option \<Rightarrow> pyfloat option \<Rightarrow> bool" where
  "row_flag rb vb r v =
     (let ok_r = ok_in rb r; ok_v = ok_in vb v; is_pass = (ok_r \<and> ok_v)
      in r \<noteq> None \<and> v \<noteq> None \<and> is_pass)"

text \<open>The three \<open>configure\<close> calls on the lamp and on the two entries.\<close>

definition row_paint ::
  "real \<times> real \<Rightarrow> real \<times> real \<Rightarrow> pyfloat option \<Rightarrow> pyfloat option \<Rightarrow> row" where
  "row_paint rb vb r v =
     (let ok_r = ok_in rb r; ok_v = ok_in vb v; is_pass = (ok_r \<and> ok_v)
      in \<lparr>lamp = (if is_pass then COLOR_GREEN
                  else if r \<noteq> None \<or> v \<noteq> None then COLOR_RED else COLOR_NEUTRAL),
          r_fg = (if r \<noteq> None \<and> \<not> ok_r then ''red'' else COLOR_TEXT),
          v_fg = (if v \<noteq> None \<and> \<not> ok_v then ''red'' else COLOR_TEXT)\<rparr>)"

text \<open>
  One turn of the loop. Reading \<open>r_values[i]\<close> or \<open>v_values[i]\<close> and writing
  \<open>flags[i]\<close> raise \<open>IndexError\<close> past the end of the list.
\<close>

definition refresh_row ::
  "real \<times> real \<Rightarrow> real \<times> real \<Rightarrow> nat \<Rightarrow> 'l app \<Rightarrow> 'l app outcome" where
  "refresh_row rb vb i s =
    (if length (r_values s) \<le> i then Raised IndexError s
     else if length (v_values s) \<le> i then Raised IndexError s
     else if length (flags s) \<le> i then Raised IndexError s
     else Done (s\<lparr>
       flags := (flags s)[i := row_flag rb vb (r_values s ! i) (v_values s ! i)],
       row_widgets := (row_widgets s)[i := row_paint rb vb (r_values s ! i) (v_values s ! i)]\<rparr>))"

fun refresh_loop ::
  "real \<times> real \<Rightarrow> real \<times> real \<Rightarrow> nat list \<Rightarrow> 'l app \<Rightarrow> 'l app outcome" where
  "refresh_loop rb vb [] s = Done s"
| "refresh_loop rb vb (i # js) s =
     (case refresh_row rb vb i s of
        Done s' \<Rightarrow> refresh_loop rb vb js s'
      | Raised e s' \<Rightarrow> Raised e s')"

text \<open>\<open>_refresh_rows\<close> of \<^verbatim>\<open>UI_2.py\<close>: the bounds are the four limit variables.\<close>

definition refresh_rows_ui2 :: "minmax app \<Rightarrow> minmax app outcome" where
  "refresh_rows_ui2 s =
     refresh_loop (r_min (limits s), r_max (limits s)) (v_min (limits s), v_max (limits s))
       [0 ..< length (row_widgets s)] s"

text \<open>\<open>_refresh_rows\<close> of \<^verbatim>\<open>UI_test.py\<close>: the bounds are derived from set and tolerance.\<close>

definition refresh_rows_uitest :: "settol app \<Rightarrow> settol app outcome" where
  "refresh_rows_uitest s =
     refresh_loop (r_bounds (limits s)) (v_bounds (limits s))
       [0 ..< length (row_widgets s)] s"

text \<open>
  The shape of a session as \<open>_init_arrays\<close> and \<open>_build_main\<close> leave it: one reading,
  one flag and one row per point, \<open>num_points\<close> of them, and the cursor on one of them.
\<close>

definition well_formed :: "'l app \<Rightarrow> bool" where
  "well_formed s =
     (0 < num_points s \<and>
      length (r_values s) = nat (num_points s) \<and>
      length (v_values s) = nat (num_points s) \<and>
      length (flags s) = nat (num_points s) \<and>
      length (row_widgets s) = nat (num_points s) \<and>
      current_idx s < nat (num_points s))"

text \<open>The part of the application that \<open>_refresh_rows\<close> reads and writes.\<close>

definition rows_view ::
  "'l app \<Rightarrow> pyfloat option list \<times> pyfloat option list \<times> bool list \<times> row list" where
  "rows_view s = (r_values s, v_values s, flags s, row_widgets s)"

subsection \<open>Python strings and numbers\<close>

text \<open>
  What \<open>str.strip()\<close> removes from an ASCII string: tab, line feed, vertical tab, form
  feed, carriage return, the four separators \<open>0x1c..0x1f\<close> and the space.
\<close>

definition is_space :: "char \<Rightarrow> bool" where
  "is_space c = (of_char c \<in> {9, 10, 11, 12, 13, 28, 29, 30, 31, 32 :: nat})"

definition strip :: "string \<Rightarrow> string" where
  "strip s = rev (dropWhile is_space (rev (dropWhile is_space s)))"

text \<open>\<open>s.split(c)\<close>: always at least one part.\<close>

fun split_on :: "char \<Rightarrow> string \<Rightarrow> string list" where
  "split_on c [] = [[]]"
| "split_on c (x # xs) =
     (if x = c then [] # split_on c xs
      else (case split_on c xs of p # ps \<Rightarrow> (x # p) # ps | [] \<Rightarrow> [[x]]))"

definition is_digit :: "char \<Rightarrow> bool" where
  "is_digit c = (c \<in> set ''0123456789'')"

definition digit_val :: "char \<Rightarrow> nat" where
  "digit_val c = of_char c - 48"

text \<open>A run of digits with single underscores between them: \<open>digit (["_"] digit)*\<close>.\<close>

fun digitpart :: "string \<Rightarrow> bool" where
  "digitpart [] = False"
| "digitpart [c] = is_digit c"
| "digitpart (c # d # cs) =
     (is_digit c \<and> (if d = CHR ''_'' then digitpart cs else digitpart (d # cs)))"

definition digits_val :: "string \<Rightarrow> nat" where
  "digits_val s = foldl (\<lambda>n c. 10 * n + digit_val c) 0 (filter is_digit s)"

text \<open>An optional sign in front; the flag says it was a minus.\<close>

definition take_sign :: "string \<Rightarrow> bool \<times> string" where
  "take_sign s = (case s of
       c # cs \<Rightarrow> (if c = CHR ''-'' then (True, cs) else if c = CHR ''+'' then (False, cs) else (False, s))
     | [] \<Rightarrow> (False, s))"

text \<open>\<open>spelled w s\<close>: \<open>s\<close> is the lower-case word \<open>w\<close> in any mix of cases.\<close>

definition upper_of :: "char \<Rightarrow> char" where
  "upper_of c = (case map_of (zip ''abcdefghijklmnopqrstuvwxyz'' ''ABCDEFGHIJKLMNOPQRSTUVWXYZ'') c of
       Some u \<Rightarrow> u | None \<Rightarrow> c)"

definition spelled :: "string \<Rightarrow> string \<Rightarrow> bool" where
  "spelled w s = list_all2 (\<lambda>l c. c = l \<or> c = upper_of l) w s"

text \<open>
  \<open>cut p s\<close> splits \<open>s\<close> at its first character that satisfies \<open>p\<close>, which is dropped;
  the second part is \<open>None\<close> when there is none.
\<close>

definition cut :: "(char \<Rightarrow> bool) \<Rightarrow> string \<Rightarrow> string \<times> string option" where
  "cut p s = (case dropWhile (\<lambda>c. \<not> p c) s of
       [] \<Rightarrow> (s, None) | _ # rest \<Rightarrow> (takeWhile (\<lambda>c. \<not> p c) s, Some rest))"

text \<open>
  The literals \<open>float()\<close> accepts, after the sign: \<open>[digitpart] "." digitpart\<close> or
  \<open>digitpart ["."]\<close>, then an optional exponent \<open>("e" | "E") [sign] digitpart\<close>. The value is
  the exact decimal value.
\<close>

definition mantissa_ok :: "string \<Rightarrow> bool" where
  "mantissa_ok m = (case cut (\<lambda>c. c = CHR ''.'') m of
       (ip, None) \<Rightarrow> digitpart ip
     | (ip, Some fp) \<Rightarrow> (ip = [] \<or> digitpart ip) \<and> (fp = [] \<or> digitpart fp) \<and> \<not> (ip = [] \<and> fp = []))"

definition mantissa_val :: "string \<Rightarrow> real" where
  "mantissa_val m = (case cut (\<lambda>c. c = CHR ''.'') m of
       (ip, None) \<Rightarrow> real (digits_val ip)
     | (ip, Some fp) \<Rightarrow> real (digits_val ip) + real (digits_val fp) / 10 ^ length (filter is_digit fp))"

definition exponent_ok :: "string \<Rightarrow> bool" where
  "exponent_ok e = digitpart (snd (take_sign e))"

definition exponent_val :: "string \<Rightarrow> int" where
  "exponent_val e = (let (neg, ds) = take_sign e in if neg then - int (digits_val ds) else int (digits_val ds))"

definition number_ok :: "string \<Rightarrow> bool" where
  "number_ok t = (case cut (\<lambda>c. c = CHR ''e'' \<or> c = CHR ''E'') t of
       (m, None) \<Rightarrow> mantissa_ok m
     | (m, Some e) \<Rightarrow> mantissa_ok m \<and> exponent_ok e)"

definition number_val :: "string \<Rightarrow> real" where
  "number_val t = (case cut (\<lambda>c. c = CHR ''e'' \<or> c = CHR ''E'') t of
       (m, None) \<Rightarrow> mantissa_val m
     | (m, Some e) \<Rightarrow>
         (if 0 \<le> exponent_val e then mantissa_val m * 10 ^ nat (exponent_val e)
          else mantissa_val m / 10 ^ nat (- exponent_val e)))"

text \<open>
  \<open>float(s)\<close>: surrounding white space and a sign are allowed, then \<open>inf\<close>,
  \<open>infinity\<close> or \<open>nan\<close> in any case, or a number. Anything else is a \<open>ValueError\<close>.
\<close>

definition float_syntax :: "string \<Rightarrow> bool" where
  "float_syntax s = (let t = snd (take_sign (strip s))
     in spelled ''inf'' t \<or> spelled ''infinity'' t \<or> spelled ''nan'' t \<or> number_ok t)"

definition py_float :: "string \<Rightarrow> error + pyfloat" where
  "py_float s =
     (let (neg, t) = take_sign (strip s)
      in if spelled ''inf'' t \<or> spelled ''infinity'' t then Inr (if neg then FNegInf else FPosInf)
         else if spelled ''nan'' t then Inr FNaN
         else if number_ok t then Inr (FVal (if neg then - number_val t else number_val t))
         else Inl (ValueError ''could not convert string to float''))"

text \<open>\<open>int(s)\<close> in base ten: white space, a sign, digits with single underscores.\<close>

definition py_int :: "string \<Rightarrow> error + int" where
  "py_int s =
     (let (neg, t) = take_sign (strip s)
      in if digitpart t then Inr (if neg then - int (digits_val t) else int (digits_val t))
         else Inl (ValueError ''invalid literal for int() with base 10''))"

text \<open>\<open>r_ohm * 1000.0\<close>.\<close>

fun to_milliohm :: "pyfloat \<Rightarrow> pyfloat" where
  "to_milliohm (FVal x) = FVal (x * 1000)"
| "to_milliohm y = y"

subsection \<open>The meter\<close>

text \<open>
  \<open>_parse_meter_line\<close>. The status is read inside a \<open>try\<close> whose handler sets it to
  \<open>None\<close>; \<open>replace("+", "")\<close> removes every plus sign of the field.
\<close>

definition status_of :: "string \<Rightarrow> int option" where
  "status_of p =
     (case py_int (filter (\<lambda>c. c \<noteq> CHR ''+'') p) of Inl e \<Rightarrow> None | Inr n \<Rightarrow> Some n)"

definition parse_meter_line :: "string \<Rightarrow> error + (pyfloat \<times> pyfloat \<times> int option)" where
  "parse_meter_line line =
     (let s = strip line;
          parts = map strip (split_on CHR '','' s)
      in if length parts < 2 then Inl (ValueError (''bad format: '' @ s))
         else case py_float (parts ! 0) of Inl e \<Rightarrow> Inl e | Inr r_ohm \<Rightarrow>
              (case py_float (parts ! 1) of Inl e \<Rightarrow> Inl e | Inr v_volt \<Rightarrow>
                 Inr (r_ohm, v_volt, if 3 \<le> length parts then status_of (parts ! 2) else None)))"

text \<open>
  What the serial port does during one exchange: the write fails, or the read returns the
  bytes of a line, none at all when the timeout runs out.
\<close>

datatype wire = WriteFails | Line string

text \<open>
  \<open>_query_fetc_once\<close>: refuses without a handle, sends \<open>FETC?\<close>, reads one line and decodes
  it as ASCII, dropping every other byte.
\<close>

definition query_fetc_once :: "'l app \<Rightarrow> wire \<Rightarrow> error + string" where
  "query_fetc_once s w =
     (if ser s = None then Inl (RuntimeError ''serial not connected'')
      else case w of
             WriteFails \<Rightarrow> Inl (OSError ''write failed'')
           | Line raw \<Rightarrow>
               if raw = [] then Inl (TimeoutError ''serial timeout'')
               else Inr (filter (\<lambda>c. of_char c < (128 :: nat)) raw))"

text \<open>
  The random numbers one simulated reading uses: the result of \<open>random.random()\<close> that
  chooses the branch, the two results of \<open>random()\<close> inside the calls of
  \<open>random.uniform\<close>, and the two elements \<open>random.choice([-1, 1])\<close> picks (the second one
  when the flag is set).
\<close>

record draws =
  coin :: real
  r_unit :: real
  v_unit :: real
  r_side :: bool
  v_side :: bool

text \<open>\<open>random.uniform(a, b)\<close> is \<open>a + (b - a) * random()\<close>.\<close>

definition uniform :: "real \<Rightarrow> real \<Rightarrow> real \<Rightarrow> real" where
  "uniform a b u = a + (b - a) * u"

definition choice :: "bool \<Rightarrow> real" where
  "choice second = (if second then 1 else - 1)"

text \<open>
  The simulated reading: the body of \<open>_read_meter\<close> of \<^verbatim>\<open>UI_2.py\<close> and the handler of
  \<open>_read_meter\<close> of \<^verbatim>\<open>UI_test.py\<close>, which differ in where the bounds come from. The test
  \<open>random.random() < 0.8\<close> chooses between a reading near the centre and one away from it.
\<close>

definition near_center :: "draws \<Rightarrow> bool" where
  "near_center d = (coin d < 0.8)"

definition simulated :: "real \<times> real \<Rightarrow> real \<times> real \<Rightarrow> draws \<Rightarrow> pyfloat \<times> pyfloat" where
  "simulated rb vb d =
     (let r_center = (fst rb + snd rb) / 2;
          v_center = (fst vb + snd vb) / 2;
          r_span = (snd rb - fst rb) / 2;
          v_span = (snd vb - fst vb) / 2
      in if near_center d
         then (FVal (uniform (r_center - 0.6 * r_span) (r_center + 0.6 * r_span) (r_unit d)),
               FVal (uniform (v_center - 0.6 * v_span) (v_center + 0.6 * v_span) (v_unit d)))
         else (FVal (r_center + choice (r_side d) * uniform (0.7 * r_span) (1.6 * r_span) (r_unit d)),
               FVal (v_center + choice (v_side d) * uniform (0.7 * v_span) (1.6 * v_span) (v_unit d))))"

definition read_meter_ui2 :: "minmax app \<Rightarrow> draws \<Rightarrow> pyfloat \<times> pyfloat" where
  "read_meter_ui2 s d =
     simulated (r_min (limits s), r_max (limits s)) (v_min (limits s), v_max (limits s)) d"

text \<open>
  \<open>_read_meter\<close> of \<^verbatim>\<open>UI_test.py\<close>: one exchange with the meter, the resistance turned into
  milliohm; on any exception the simulated reading.
\<close>

definition read_meter_uitest :: "settol app \<Rightarrow> wire \<Rightarrow> draws \<Rightarrow> pyfloat \<times> pyfloat" where
  "read_meter_uitest s w d =
     (case query_fetc_once s w of
        Inl e \<Rightarrow> simulated (r_bounds (limits s)) (v_bounds (limits s)) d
      | Inr line \<Rightarrow>
          (case parse_meter_line line of
             Inl e \<Rightarrow> simulated (r_bounds (limits s)) (v_bounds (limits s)) d
           | Inr (r_ohm, v_volt, status) \<Rightarrow> (to_milliohm r_ohm, v_volt)))"

subsection \<open>Formatting\<close>

definition TAB :: string where "TAB = [CHR 0x09]"
definition NL :: string where "NL = [CHR 0x0A]"

text \<open>The UTF-8 bytes of the ohm sign and of the plus-minus sign.\<close>

definition OHM :: string where "OHM = [CHR 0xCE, CHR 0xA9]"
definition PLUS_MINUS :: string where "PLUS_MINUS = [CHR 0xC2, CHR 0xB1]"

definition digit_char :: "nat \<Rightarrow> char" where
  "digit_char d = ''0123456789'' ! (d mod 10)"

text \<open>\<open>str(n)\<close> for a natural number.\<close>

fun str_nat :: "nat \<Rightarrow> string" where
  "str_nat n = (if n < 10 then [digit_char n] else str_nat (n div 10) @ [digit_char (n mod 10)])"

declare str_nat.simps [simp del]

definition six_digits :: "nat \<Rightarrow> string" where
  "six_digits k = map (\<lambda>j. digit_char (k div 10 ^ j)) [5, 4, 3, 2, 1, 0]"

text \<open>
  \<open>f"{x:.6f}"\<close>: the sign, the integer part, a point and six decimals of the value
  rounded to the nearest millionth.
\<close>

fun fmt6 :: "pyfloat \<Rightarrow> string" where
  "fmt6 (FVal x) =
     (let n = round_half_even (\<bar>x\<bar> * 10 ^ 6)
      in (if x < 0 then ''-'' else []) @ str_nat (n div 10 ^ 6) @ ''.'' @ six_digits (n mod 10 ^ 6))"
| "fmt6 FPosInf = ''inf''"
| "fmt6 FNegInf = ''-inf''"
| "fmt6 FNaN = ''nan''"

text \<open>\<open>"\n".join(lines)\<close>.\<close>

fun join_lines :: "string list \<Rightarrow> string" where
  "join_lines [] = []"
| "join_lines [l] = l"
| "join_lines (l # m # ls) = l @ NL @ join_lines (m # ls)"

subsection \<open>The file system\<close>

text \<open>
  Paths are read the POSIX way, and \<open>..\<close> is resolved on the text of the path.
\<close>

definition getcwd :: "filesys \<Rightarrow> string" where
  "getcwd d = (if cwd d = [] then ''/'' else concat (map (\<lambda>c. ''/'' @ c) (cwd d)))"

definition walk :: "path \<Rightarrow> string \<Rightarrow> path" where
  "walk acc c = (if c = [] \<or> c = ''.'' then acc else if c = ''..'' then butlast acc else acc @ [c])"

definition resolve :: "filesys \<Rightarrow> string \<Rightarrow> path" where
  "resolve d p =
     foldl walk (if p \<noteq> [] \<and> hd p = CHR ''/'' then [] else cwd d) (split_on CHR ''/'' p)"

text \<open>\<open>os.path.join(a, b)\<close>.\<close>

definition path_join :: "string \<Rightarrow> string \<Rightarrow> string" where
  "path_join a b =
     (if b \<noteq> [] \<and> hd b = CHR ''/'' then b
      else if a = [] \<or> last a = CHR ''/'' then a @ b
      else a @ ''/'' @ b)"

definition is_dir :: "filesys \<Rightarrow> path \<Rightarrow> bool" where
  "is_dir d p = (p = [] \<or> p \<in> set (dirs d))"

definition is_file :: "filesys \<Rightarrow> path \<Rightarrow> bool" where
  "is_file d p = (map_of (files d) p \<noteq> None)"

text \<open>
  \<open>os.mkdir\<close>: refused when the name is taken, when the parent is not a directory, and
  when the parent takes no new entry.
\<close>

definition mkdir :: "filesys \<Rightarrow> path \<Rightarrow> error + filesys" where
  "mkdir d p =
     (if is_dir d p \<or> is_file d p then Inl (OSError ''FileExistsError'')
      else if \<not> is_dir d (butlast p) then Inl (OSError ''FileNotFoundError'')
      else if butlast p \<in> set (locked d) then Inl (OSError ''PermissionError'')
      else Inr (d\<lparr>dirs := dirs d @ [p]\<rparr>))"

text \<open>
  \<open>os.makedirs(name, exist_ok=True)\<close>, on the reversed path: when the parent does not exist
  it is made first, a \<open>FileExistsError\<close> from that being passed over; then the directory
  itself is made, and a failure is passed over when the directory is there.
\<close>

fun makedirs_rev :: "string list \<Rightarrow> filesys \<Rightarrow> error + filesys" where
  "makedirs_rev [] d = Inr d"
| "makedirs_rev (c # up) d =
     (case (if is_dir d (rev up) \<or> is_file d (rev up) then Inr d
            else (case makedirs_rev up d of
                    Inl e \<Rightarrow> (if e = OSError ''FileExistsError'' then Inr d else Inl e)
                  | Inr d1 \<Rightarrow> Inr d1)) of
        Inl e \<Rightarrow> Inl e
      | Inr d1 \<Rightarrow>
          (case mkdir d1 (rev (c # up)) of
             Inl e \<Rightarrow> (if is_dir d1 (rev (c # up)) then Inr d1 else Inl e)
           | Inr d2 \<Rightarrow> Inr d2))"

definition makedirs :: "filesys \<Rightarrow> string \<Rightarrow> error + filesys" where
  "makedirs d name = makedirs_rev (rev (resolve d name)) d"

text \<open>
  \<open>open(path, "w")\<close> creates the file or empties it: refused on a directory, in a missing
  directory, on a file that refuses to be rewritten and in a directory that takes no new
  entry. \<open>f.write(text)\<close> then sets the content.
\<close>

definition open_w :: "filesys \<Rightarrow> string \<Rightarrow> error + filesys" where
  "open_w d name =
     (let p = resolve d name
      in if is_dir d p then Inl (OSError ''IsADirectoryError'')
         else if \<not> is_dir d (butlast p) then Inl (OSError ''FileNotFoundError'')
         else if (if is_file d p then p \<in> set (locked d) else butlast p \<in> set (locked d))
           then Inl (OSError ''PermissionError'')
         else Inr (d\<lparr>files := (p, []) # filter (\<lambda>e. fst e \<noteq> p) (files d)\<rparr>))"

definition write_text :: "filesys \<Rightarrow> string \<Rightarrow> string \<Rightarrow> filesys" where
  "write_text d name text =
     (let p = resolve d name
      in d\<lparr>files := (p, text) # filter (\<lambda>e. fst e \<noteq> p) (files d)\<rparr>)"

subsection \<open>The report\<close>

text \<open>
  What an export takes from outside: the two results of \<open>time.strftime\<close>, the text Python
  prints for a float in an f-string, and the path the save dialog returns (empty when it
  is cancelled).
\<close>

record export_env =
  stamp :: string
  time_line :: string
  float_repr :: "real \<Rightarrow> string"
  chosen :: string

text \<open>
  One turn of the loop of \<open>_result_lines\<close>, the same in both files: the row of point
  \<open>i\<close>.
\<close>

definition result_row :: "'l app \<Rightarrow> nat \<Rightarrow> error + string" where
  "result_row s i =
     (if length (r_values s) \<le> i then Inl IndexError
      else if length (v_values s) \<le> i then Inl IndexError
      else case (r_values s ! i, v_values s ! i) of
             (Some r, Some v) \<Rightarrow>
               if length (flags s) \<le> i then Inl IndexError
               else Inr (str_nat (i + 1) @ TAB @ fmt6 r @ TAB @ fmt6 v @ TAB @
                         (if flags s ! i then LABEL_OK else LABEL_NG))
           | _ \<Rightarrow> Inr (str_nat (i + 1) @ TAB @ TAB @ TAB @ ''N/A''))"

fun result_rows :: "'l app \<Rightarrow> nat list \<Rightarrow> error + string list" where
  "result_rows s [] = Inr []"
| "result_rows s (i # js) =
     (case result_row s i of
        Inl e \<Rightarrow> Inl e
      | Inr l \<Rightarrow> (case result_rows s js of Inl e \<Rightarrow> Inl e | Inr ls \<Rightarrow> Inr (l # ls)))"

definition model_or :: "string \<Rightarrow> 'l app \<Rightarrow> string" where
  "model_or dflt s = (if strip (model_name s) = [] then dflt else strip (model_name s))"

text \<open>\<open>_result_lines\<close> of \<^verbatim>\<open>UI_2.py\<close>.\<close>

definition result_lines_ui2 :: "export_env \<Rightarrow> minmax app \<Rightarrow> error + string list" where
  "result_lines_ui2 env s =
     (case result_rows s [0 ..< nat (num_points s)] of
        Inl e \<Rightarrow> Inl e
      | Inr rows \<Rightarrow>
          Inr ([''Model'' @ TAB @ model_or ''-'' s,
                ''Time'' @ TAB @ time_line env,
                [],
                ''Limits R'' @ TAB @ ''min='' @ float_repr env (r_min (limits s)) @ TAB @
                  ''max='' @ float_repr env (r_max (limits s)) @ ''  (Ohm)'',
                ''Limits V'' @ TAB @ ''min='' @ float_repr env (v_min (limits s)) @ TAB @
                  ''max='' @ float_repr env (v_max (limits s)) @ ''  (Volt)'',
                [],
                ''Point'' @ TAB @ ''R('' @ OHM @ '')'' @ TAB @ ''V(V)'' @ TAB @ ''Result'']
               @ rows @
               [[],
                ''Overall'' @ TAB @
                  (if list_all (\<lambda>rv. rv \<noteq> None) (r_values s) \<and> list_all (\<lambda>f. f) (flags s)
                   then LABEL_OK else LABEL_NG)]))"

text \<open>\<open>_result_lines\<close> of \<^verbatim>\<open>UI_test.py\<close>: the list ends with the last row.\<close>

definition result_lines_uitest :: "export_env \<Rightarrow> settol app \<Rightarrow> error + string list" where
  "result_lines_uitest env s =
     (case result_rows s [0 ..< nat (num_points s)] of
        Inl e \<Rightarrow> Inl e
      | Inr rows \<Rightarrow>
          Inr ([''Model'' @ TAB @ model_or ''-'' s,
                ''Time'' @ TAB @ time_line env,
                [],
                ''R Set'' @ TAB @ float_repr env (r_set (limits s)) @ '' m'' @ OHM @ TAB @
                  ''Tol '' @ PLUS_MINUS @ float_repr env (r_tol (limits s)) @ '' m'' @ OHM @ TAB @
                  ''(min='' @ float_repr env (fst (r_bounds (limits s))) @
                  '', max='' @ float_repr env (snd (r_bounds (limits s))) @ '')'',
                ''V Set'' @ TAB @ float_repr env (v_set (limits s)) @ '' V'' @ TAB @
                  ''Tol '' @ PLUS_MINUS @ float_repr env (v_tol (limits s)) @ '' V'' @ TAB @
                  ''(min='' @ float_repr env (fst (v_bounds (limits s))) @
                  '', max='' @ float_repr env (snd (v_bounds (limits s))) @ '')'',
                [],
                ''Cell'' @ TAB @ ''R(m'' @ OHM @ '')'' @ TAB @ ''V(V)'' @ TAB @ ''Result'']
               @ rows))"

subsection \<open>Exporting\<close>

definition export_folder :: "'l app \<Rightarrow> string" where
  "export_folder s = (if strip (save_folder s) = [] then getcwd (disk s) else strip (save_folder s))"

definition export_name :: "export_env \<Rightarrow> 'l app \<Rightarrow> string" where
  "export_name env s = model_or ''model'' s @ ''_'' @ stamp env @ ''.txt''"

text \<open>
  The \<open>try\<close> block of the three export functions: the file is opened, the lines are
  computed and written, and the success is shown; any exception in it is shown as an
  error, with the words the function uses. The text of the exception is left out of the
  message.
\<close>

definition write_report ::
  "string \<Rightarrow> error + string list \<Rightarrow> event list \<Rightarrow> string \<Rightarrow> 'l app \<Rightarrow> 'l app" where
  "write_report name lines saved failed s =
     (case open_w (disk s) name of
        Inl e \<Rightarrow> s\<lparr>gui := gui s @ [ShowError ''Export'' failed]\<rparr>
      | Inr d1 \<Rightarrow>
          (case lines of
             Inl e \<Rightarrow> s\<lparr>disk := d1, gui := gui s @ [ShowError ''Export'' failed]\<rparr>
           | Inr ls \<Rightarrow> s\<lparr>disk := write_text d1 name (join_lines ls), gui := gui s @ saved\<rparr>))"

text \<open>
  \<open>_export_snapshot\<close> of \<^verbatim>\<open>UI_2.py\<close>. \<open>os.makedirs\<close> stands before the \<open>try\<close>, so its
  exception leaves the function.
\<close>

definition export_snapshot_ui2 :: "export_env \<Rightarrow> minmax app \<Rightarrow> minmax app outcome" where
  "export_snapshot_ui2 env s =
     (case makedirs (disk s) (export_folder s) of
        Inl e \<Rightarrow> Raised e s
      | Inr d1 \<Rightarrow>
          (let name = path_join (export_folder s) (export_name env s)
           in Done (write_report name (result_lines_ui2 env s)
                      [ShowInfo ''Export'' (''Saved:'' @ NL @ name)] ''Auto export failed''
                      (s\<lparr>disk := d1\<rparr>))))"

text \<open>\<open>_export_snapshot\<close> of \<^verbatim>\<open>UI_test.py\<close>: a success is not shown.\<close>

definition export_snapshot_uitest :: "export_env \<Rightarrow> settol app \<Rightarrow> settol app outcome" where
  "export_snapshot_uitest env s =
     (case makedirs (disk s) (export_folder s) of
        Inl e \<Rightarrow> Raised e s
      | Inr d1 \<Rightarrow>
          (let name = path_join (export_folder s) (export_name env s)
           in Done (write_report name (result_lines_uitest env s) [] ''Auto export failed''
                      (s\<lparr>disk := d1\<rparr>))))"


subsection \<open>Building the session\<close>

text \<open>\<open>_init_arrays\<close>: \<open>[None]*n\<close> is empty for \<open>n \<le> 0\<close>.\<close>

definition init_arrays :: "'l app \<Rightarrow> 'l app" where
  "init_arrays s =
     (let n = nat (num_points s)
      in s\<lparr>r_values := replicate n None,
           v_values := replicate n None,
           flags := replicate n False,
           current_idx := 0\<rparr>)"

text \<open>
  \<open>_draw_big_box\<close> and \<open>_update_big_box\<close> read \<open>r_values[current_idx]\<close> and
  \<open>v_values[current_idx]\<close>; what they paint is left out.
\<close>

definition update_big_box :: "'l app \<Rightarrow> 'l app outcome" where
  "update_big_box s =
     (if length (r_values s) \<le> current_idx s then Raised IndexError s
      else if length (v_values s) \<le> current_idx s then Raised IndexError s
      else Done s)"

text \<open>
  \<open>point_combo.current(i)\<close>: the combo box holds one value per row built, and Tk raises
  on an index that is not among them.
\<close>

definition point_combo_current :: "'l app \<Rightarrow> 'l app outcome" where
  "point_combo_current s =
     (if length (row_widgets s) \<le> current_idx s then Raised TclError s else Done s)"

text \<open>A row as \<open>_build_main\<close> creates it, before the first refresh.\<close>

definition blank_row :: row where
  "blank_row = \<lparr>lamp = COLOR_NEUTRAL, r_fg = [], v_fg = []\<rparr>"

text \<open>
  \<open>_build_main\<close>: the combo box gets \<open>num_points\<close> values and is set to the cursor, the
  big box is drawn, \<open>num_points\<close> rows are created, and the rows and the big box are
  refreshed.
\<close>

definition build_main_ui2 :: "minmax app \<Rightarrow> minmax app outcome" where
  "build_main_ui2 s =
     (if nat (num_points s) \<le> current_idx s then Raised TclError s
      else and_then (update_big_box s) (\<lambda>s.
           and_then (refresh_rows_ui2 (s\<lparr>row_widgets := replicate (nat (num_points s)) blank_row\<rparr>))
             update_big_box))"

definition build_main_uitest :: "settol app \<Rightarrow> settol app outcome" where
  "build_main_uitest s =
     (if nat (num_points s) \<le> current_idx s then Raised TclError s
      else and_then (update_big_box s) (\<lambda>s.
           and_then (refresh_rows_uitest (s\<lparr>row_widgets := replicate (nat (num_points s)) blank_row\<rparr>))
             update_big_box))"

text \<open>
  \<open>App.__init__\<close>: the variables with their defaults, the arrays, the Auto state, then
  the main tab. The file system is the one the process starts in.
\<close>

definition new_ui2 :: "filesys \<Rightarrow> minmax app" where
  "new_ui2 d = init_arrays \<lparr>
     model_name = [], num_points = 20, auto_interval = 500, mode = ''manual'',
     save_folder = [], auto_export = False,
     limits = \<lparr>r_min = 9.5, r_max = 10.5, v_min = 4.9, v_max = 5.1\<rparr>,
     ser = None, r_values = [], v_values = [], flags = [], current_idx = 0,
     row_widgets = [], auto_running = False, auto_job = None, gui = [], disk = d\<rparr>"

definition new_uitest :: "filesys \<Rightarrow> settol app" where
  "new_uitest d = init_arrays \<lparr>
     model_name = [], num_points = 20, auto_interval = 500, mode = ''manual'',
     save_folder = [], auto_export = False,
     limits = \<lparr>r_set = 10.0, r_tol = 0.5, v_set = 5.0, v_tol = 0.1\<rparr>,
     ser = None, r_values = [], v_values = [], flags = [], current_idx = 0,
     row_widgets = [], auto_running = False, auto_job = None, gui = [], disk = d\<rparr>"

definition App_ui2 :: "filesys \<Rightarrow> minmax app outcome" where
  "App_ui2 d = build_main_ui2 (new_ui2 d)"

definition App_uitest :: "filesys \<Rightarrow> settol app outcome" where
  "App_uitest d = build_main_uitest (new_uitest d)"

subsection \<open>Measuring\<close>

text \<open>What one measurement takes from outside.\<close>

record inputs =
  rnd :: draws
  port :: wire
  exp :: export_env

text \<open>\<open>_auto_stop\<close>.\<close>

definition auto_stop :: "'l app \<Rightarrow> 'l app" where
  "auto_stop s =
     (case auto_job s of
        None \<Rightarrow> s\<lparr>auto_running := False\<rparr>
      | Some j \<Rightarrow> s\<lparr>auto_running := False, auto_job := None, gui := gui s @ [AfterCancel j]\<rparr>)"

text \<open>Writing the reading at the cursor: \<open>self.r_values[idx] = r\<close>, \<open>self.v_values[idx] = v\<close>.\<close>

definition store_reading :: "pyfloat \<times> pyfloat \<Rightarrow> 'l app \<Rightarrow> 'l app outcome" where
  "store_reading rv s =
     (let idx = current_idx s
      in if length (r_values s) \<le> idx then Raised IndexError s
         else if length (v_values s) \<le> idx
           then Raised IndexError (s\<lparr>r_values := (r_values s)[idx := Some (fst rv)]\<rparr>)
         else Done (s\<lparr>r_values := (r_values s)[idx := Some (fst rv)],
                      v_values := (v_values s)[idx := Some (snd rv)]\<rparr>))"

text \<open>\<open>_measure_one\<close> of \<^verbatim>\<open>UI_2.py\<close>.\<close>

definition measure_one_ui2 :: "bool \<Rightarrow> inputs \<Rightarrow> minmax app \<Rightarrow> minmax app outcome" where
  "measure_one_ui2 from_auto inp s =
     and_then (store_reading (read_meter_ui2 s (rnd inp)) s) (\<lambda>s.
     and_then (refresh_rows_ui2 s) (\<lambda>s.
     and_then (update_big_box s) (\<lambda>s.
       if int (current_idx s) < num_points s - 1
       then point_combo_current (s\<lparr>current_idx := current_idx s + 1\<rparr>)
       else if from_auto
         then and_then
                (if auto_export s then export_snapshot_ui2 (exp inp) (auto_stop s)
                 else Done (auto_stop s))
                (\<lambda>s. Done (s\<lparr>gui := gui s @ [AfterInfo 0 ''Auto'' ''Auto measurement finished.'']\<rparr>))
       else Done (s\<lparr>gui := gui s @ [ShowInfo ''Done'' ''Measured all points.'']\<rparr>))))"

text \<open>
  Modelled from the spec: \<open>_ensure_connected\<close>, which \<open>_measure_one\<close> of \<^verbatim>\<open>UI_test.py\<close> calls
  and which no file of the repository defines. The specification says of the
  measurement: if the instrument reader is in use and no connection exists, the operation
  is refused, no state is mutated, and a "not connected" signal is raised. So the helper
  answers whether a serial handle is there, and raises the signal when it is not.
\<close>

definition ensure_connected :: "'l app \<Rightarrow> bool \<times> 'l app" where
  "ensure_connected s =
     (if ser s = None then (False, s\<lparr>gui := gui s @ [NotConnected]\<rparr>) else (True, s))"

text \<open>
  \<open>_measure_one\<close> of \<^verbatim>\<open>UI_test.py\<close>. Its handler around \<open>_read_meter\<close> is never entered,
  since \<open>_read_meter\<close> catches every exception itself.
\<close>

definition measure_one_uitest :: "bool \<Rightarrow> inputs \<Rightarrow> settol app \<Rightarrow> settol app outcome" where
  "measure_one_uitest from_auto inp s =
     (case ensure_connected s of
        (False, s) \<Rightarrow> Done (if from_auto then auto_stop s else s)
      | (True, s) \<Rightarrow>
          and_then (store_reading (read_meter_uitest s (port inp) (rnd inp)) s) (\<lambda>s.
          and_then (refresh_rows_uitest s) (\<lambda>s.
          and_then (update_big_box s) (\<lambda>s.
            if \<not> (num_points s - 1 \<le> int (current_idx s))
            then point_combo_current
                   (s\<lparr>current_idx := current_idx s + 1,
                      gui := gui s @ (if \<not> from_auto \<and> mode s = ''manual'' then [NextCellPopup] else [])\<rparr>)
            else and_then
                   (if from_auto \<and> auto_export s then export_snapshot_uitest (exp inp) s else Done s)
                   (\<lambda>s. if from_auto
                        then Done ((auto_stop s)\<lparr>gui := gui (auto_stop s) @
                               [AfterInfo 0 ''Auto'' ''Auto measurement finished.'']\<rparr>)
                        else Done (s\<lparr>gui := gui s @ [ShowInfo ''Done'' ''Measured all cells.'']\<rparr>))))))"

text \<open>
  \<open>_tick_auto\<close> and \<open>_auto_start\<close>, the same in both files. The timer that \<open>after\<close> returns
  is kept in \<open>auto_job\<close>; the delay is \<open>max(50, auto_interval)\<close>.
\<close>

definition schedule_tick :: "'l app \<Rightarrow> 'l app outcome" where
  "schedule_tick s =
     (if auto_running s
      then (let interval = nat (max 50 (auto_interval s))
            in Done (s\<lparr>auto_job := Some interval, gui := gui s @ [AfterTick interval]\<rparr>))
      else Done s)"

text \<open>The delays of the ticks that \<open>after\<close> was asked for, in the order of the calls.\<close>

fun tick_delay :: "event \<Rightarrow> nat option" where
  "tick_delay (AfterTick n) = Some n"
| "tick_delay e = None"

definition ticks_scheduled :: "'l app \<Rightarrow> nat list" where
  "ticks_scheduled s = List.map_filter tick_delay (gui s)"

definition tick_auto_ui2 :: "inputs \<Rightarrow> minmax app \<Rightarrow> minmax app outcome" where
  "tick_auto_ui2 inp s =
     (if \<not> auto_running s then Done s
      else and_then (measure_one_ui2 True inp s) schedule_tick)"

definition tick_auto_uitest :: "inputs \<Rightarrow> settol app \<Rightarrow> settol app outcome" where
  "tick_auto_uitest inp s =
     (if \<not> auto_running s then Done s
      else and_then (measure_one_uitest True inp s) schedule_tick)"

definition auto_start_ui2 :: "inputs \<Rightarrow> minmax app \<Rightarrow> minmax app outcome" where
  "auto_start_ui2 inp s =
     (if auto_running s then Done s else tick_auto_ui2 inp (s\<lparr>auto_running := True\<rparr>))"

definition auto_start_uitest :: "inputs \<Rightarrow> settol app \<Rightarrow> settol app outcome" where
  "auto_start_uitest inp s =
     (if auto_running s then Done s else tick_auto_uitest inp (s\<lparr>auto_running := True\<rparr>))"

text \<open>Manual measurements one after the other, each with its own inputs.\<close>

definition measure_many_ui2 :: "inputs list \<Rightarrow> minmax app \<Rightarrow> minmax app outcome" where
  "measure_many_ui2 inps s = foldl (\<lambda>out inp. and_then out (measure_one_ui2 False inp)) (Done s) inps"

definition measure_many_uitest :: "inputs list \<Rightarrow> settol app \<Rightarrow> settol app outcome" where
  "measure_many_uitest inps s =
     foldl (\<lambda>out inp. and_then out (measure_one_uitest False inp)) (Done s) inps"

subsection \<open>Settings and reset\<close>

text \<open>\<open>_reset\<close>, the same in both files but for the \<open>_build_main\<close> it calls.\<close>

definition reset_ui2 :: "minmax app \<Rightarrow> minmax app outcome" where
  "reset_ui2 s = build_main_ui2 (init_arrays (auto_stop s))"

definition reset_uitest :: "settol app \<Rightarrow> settol app outcome" where
  "reset_uitest s = build_main_uitest (init_arrays (auto_stop s))"

text \<open>
  \<open>_apply_settings\<close> of \<^verbatim>\<open>UI_2.py\<close>. The \<open>try\<close> block asserts a positive point count, reads
  the four limits, and sets the interval to \<open>max(10, iv)\<close>; a failed assertion is shown
  and ends the call.
\<close>

definition apply_settings_ui2 :: "minmax app \<Rightarrow> minmax app outcome" where
  "apply_settings_ui2 s =
     (if \<not> 0 < num_points s
      then Done (s\<lparr>gui := gui s @ [ShowError ''Invalid'' ''Settings error'']\<rparr>)
      else
        and_then
          (let s = s\<lparr>auto_interval := max 10 (auto_interval s)\<rparr>
           in if num_points s \<noteq> int (length (r_values s))
              then build_main_ui2 (init_arrays (auto_stop s))
              else and_then (refresh_rows_ui2 s) update_big_box)
          (\<lambda>s. Done (s\<lparr>gui := gui s @ [ShowInfo ''Apply'' ''Settings applied.'']\<rparr>)))"

text \<open>
  \<open>_apply_settings\<close> of \<^verbatim>\<open>UI_test.py\<close>. The \<open>try\<close> block asserts a positive point count,
  an interval of at least ten and two tolerances that are not negative.
\<close>

definition apply_settings_uitest :: "settol app \<Rightarrow> settol app outcome" where
  "apply_settings_uitest s =
     (if \<not> 0 < num_points s \<or> \<not> 10 \<le> auto_interval s \<or>
         \<not> 0 \<le> r_tol (limits s) \<or> \<not> 0 \<le> v_tol (limits s)
      then Done (s\<lparr>gui := gui s @ [ShowError ''Invalid'' ''Settings error'']\<rparr>)
      else
        and_then
          (if num_points s \<noteq> int (length (r_values s))
           then build_main_uitest (init_arrays (auto_stop s))
           else and_then (refresh_rows_uitest s) update_big_box)
          (\<lambda>s. Done (s\<lparr>gui := gui s @ [ShowInfo ''Apply'' ''Settings applied.'']\<rparr>)))"

subsection \<open>Sample sessions\<close>

definition sample_disk :: filesys where
  "sample_disk = \<lparr>cwd = [''home'', ''user''],
     dirs = [[''home''], [''home'', ''user'']], files = [], locked = []\<rparr>"

text \<open>
  Four points under the default limits: a resistance on the lower end, one on the upper
  end, one above it, and a point with the voltage alone; the first two voltages are on
  the two ends as well, which in \<^verbatim>\<open>UI_test.py\<close> are the floats nearest to \<open>4.9\<close> and \<open>5.1\<close>.
\<close>

definition sample_readings_ui2 :: "minmax app" where
  "sample_readings_ui2 = (new_ui2 sample_disk)\<lparr>
     num_points := 4,
     r_values := [Some (FVal 9.5), Some (FVal 10.5), Some (FVal 10.6), None],
     v_values := [Some (FVal 4.9), Some (FVal 5.1), Some (FVal 5.0), Some (FVal 5.0)],
     flags := replicate 4 False,
     row_widgets := replicate 4 blank_row\<rparr>"

definition sample_readings_uitest :: "settol app" where
  "sample_readings_uitest = (new_uitest sample_disk)\<lparr>
     num_points := 4,
     r_values := [Some (FVal 9.5), Some (FVal 10.5), Some (FVal 10.6), None],
     v_values := [Some (FVal (to_double 4.9)), Some (FVal (to_double 5.1)), Some (FVal 5.0),
                  Some (FVal 5.0)],
     flags := replicate 4 False,
     row_widgets := replicate 4 blank_row\<rparr>"

text \<open>
  A reading is within a closed interval when it is present, is a number, and lies between
  the two ends, either end included.
\<close>

definition in_range :: "real \<Rightarrow> real \<Rightarrow> pyfloat option \<Rightarrow> bool" where
  "in_range lo hi x = (case x of Some (FVal y) \<Rightarrow> lo \<le> y \<and> y \<le> hi | _ \<Rightarrow> False)"

text \<open>
  The session of \<^verbatim>\<open>UI_2.py\<close> whose explicit limits are the floats that \<open>_r_bounds\<close> and
  \<open>_v_bounds\<close> derive from the default set points and tolerances, with the readings of the
  \<^verbatim>\<open>UI_test.py\<close> sample.
\<close>

definition sample_float_limits_ui2 :: "minmax app" where
  "sample_float_limits_ui2 = sample_readings_ui2\<lparr>
     limits := \<lparr>r_min = 9.5, r_max = 10.5, v_min = to_double 4.9, v_max = to_double 5.1\<rparr>,
     v_values := [Some (FVal (to_double 4.9)), Some (FVal (to_double 5.1)), Some (FVal 5.0),
                  Some (FVal 5.0)]\<rparr>"

text \<open>
  One point with a resistance of \<open>10.3\<close> and a voltage of \<open>5\<close>: in \<^verbatim>\<open>UI_test.py\<close> under the
  set point \<open>10.1\<close> with tolerance \<open>0.2\<close>, in \<^verbatim>\<open>UI_2.py\<close> under the limits \<open>9.9\<close> and
  \<open>10.3\<close>.
\<close>

definition sample_tight_uitest :: "settol app" where
  "sample_tight_uitest = (new_uitest sample_disk)\<lparr>
     num_points := 1,
     limits := \<lparr>r_set = 10.1, r_tol = 0.2, v_set = 5, v_tol = 0.1\<rparr>,
     r_values := [Some (FVal 10.3)],
     v_values := [Some (FVal 5)],
     flags := [False],
     row_widgets := [blank_row]\<rparr>"

definition sample_tight_ui2 :: "minmax app" where
  "sample_tight_ui2 = (new_ui2 sample_disk)\<lparr>
     num_points := 1,
     limits := \<lparr>r_min = 9.9, r_max = 10.3, v_min = 4.9, v_max = 5.1\<rparr>,
     r_values := [Some (FVal 10.3)],
     v_values := [Some (FVal 5)],
     flags := [False],
     row_widgets := [blank_row]\<rparr>"

text \<open>Two sets of draws: one takes the near branch, one the far branch.\<close>

definition sample_draws_near :: draws where
  "sample_draws_near = \<lparr>coin = 0.3, r_unit = 0.25, v_unit = 0.5, r_side = True, v_side = False\<rparr>"

definition sample_draws_far :: draws where
  "sample_draws_far = \<lparr>coin = 0.9, r_unit = 0.25, v_unit = 0.5, r_side = True, v_side = False\<rparr>"

text \<open>
  Settings as typed into the entries before Apply is pressed: in \<^verbatim>\<open>UI_2.py\<close> a resistance
  minimum above the maximum and an interval of five milliseconds, in \<^verbatim>\<open>UI_test.py\<close> an
  interval of five milliseconds, and a point count of zero.
\<close>

definition sample_settings_ui2 :: "minmax app" where
  "sample_settings_ui2 = sample_readings_ui2\<lparr>
     auto_interval := 5,
     limits := \<lparr>r_min = 11, r_max = 10, v_min = 4.9, v_max = 5.1\<rparr>\<rparr>"

definition sample_settings_uitest :: "settol app" where
  "sample_settings_uitest = sample_readings_uitest\<lparr>auto_interval := 5\<rparr>"

definition sample_no_points_ui2 :: "minmax app" where
  "sample_no_points_ui2 = sample_readings_ui2\<lparr>num_points := 0\<rparr>"

text \<open>
  A session of \<^verbatim>\<open>UI_2.py\<close> with a single point, not yet measured, and an interval of ten
  milliseconds.
\<close>

definition sample_single_ui2 :: "minmax app" where
  "sample_single_ui2 = (new_ui2 sample_disk)\<lparr>
     num_points := 1, auto_interval := 10,
     r_values := [None], v_values := [None], flags := [False], row_widgets := [blank_row]\<rparr>"

text \<open>
  A point count of two typed into a session of four points while an Auto run is under
  way, with an interval of five milliseconds.
\<close>

definition sample_fewer_points_ui2 :: "minmax app" where
  "sample_fewer_points_ui2 = sample_readings_ui2\<lparr>
     num_points := 2, auto_interval := 5, auto_running := True, auto_job := Some 500\<rparr>"

text \<open>
  Two points under the default limits: the first measured and passed, the second not
  measured.
\<close>

definition sample_report_ui2 :: "minmax app" where
  "sample_report_ui2 = (new_ui2 sample_disk)\<lparr>
     num_points := 2,
     r_values := [Some (FVal 10.1), None],
     v_values := [Some (FVal 5.0), None],
     flags := [True, False],
     row_widgets := replicate 2 blank_row\<rparr>"

definition sample_report_uitest :: "settol app" where
  "sample_report_uitest = (new_uitest sample_disk)\<lparr>
     num_points := 2,
     r_values := [Some (FVal 10.1), None],
     v_values := [Some (FVal 5.0), None],
     flags := [True, False],
     row_widgets := replicate 2 blank_row\<rparr>"




text \<open>
  The same session of \<^verbatim>\<open>UI_test.py\<close> after a resistance tolerance of \<open>-0.5\<close> is typed into its
  entry, before Apply is pressed.
\<close>

definition sample_negative_tol_uitest :: "settol app" where
  "sample_negative_tol_uitest = sample_report_uitest\<lparr>
     limits := \<lparr>r_set = 10, r_tol = - 0.5, v_set = 5, v_tol = 0.1\<rparr>\<rparr>"

definition sample_env :: export_env where
  "sample_env = \<lparr>stamp = ''20260102_030405'', time_line = ''2026-01-02 03:04:05'',
     float_repr = (\<lambda>x. case map_of [(to_double 9.5, ''9.5''), (to_double 10.5, ''10.5''),
                                      (to_double 4.9, ''4.9''), (to_double 5.1, ''5.1''),
                                      (to_double 10, ''10.0''), (to_double 0.5, ''0.5''),
                                      (to_double 5, ''5.0''), (to_double 0.1, ''0.1'')]
                               (to_double x) of
                          Some t \<Rightarrow> t | None \<Rightarrow> ''?''),
     chosen = ''/home/user/out.txt''\<rparr>"

text \<open>
  The inputs of one measurement: the meter answers with the line of the docstring, and
  the draws are those of the near branch.
\<close>

definition sample_inputs :: inputs where
  "sample_inputs = \<lparr>rnd = sample_draws_near,
     port = Line (''+5.87263E-03,+3.09940E+00,+0'' @ [CHR 0x0D, CHR 0x0A]),
     exp = sample_env\<rparr>"

text \<open>An Auto run under way with its timer pending, and no serial handle.\<close>

definition sample_auto_uitest :: "settol app" where
  "sample_auto_uitest = sample_readings_uitest\<lparr>auto_running := True, auto_job := Some 500\<rparr>"

text \<open>
  Fresh sessions of three points, as \<open>_reset\<close> leaves them; the one of \<^verbatim>\<open>UI_test.py\<close> with a
  serial handle.
\<close>

definition sample_fresh_ui2 :: "minmax app" where
  "sample_fresh_ui2 = (init_arrays ((new_ui2 sample_disk)\<lparr>num_points := 3\<rparr>))\<lparr>
     row_widgets := replicate 3 \<lparr>lamp = COLOR_NEUTRAL, r_fg = COLOR_TEXT, v_fg = COLOR_TEXT\<rparr>\<rparr>"

definition sample_fresh_uitest :: "settol app" where
  "sample_fresh_uitest = (init_arrays ((new_uitest sample_disk)\<lparr>num_points := 3\<rparr>))\<lparr>
     ser := Some (''COM3'', 9600),
     row_widgets := replicate 3 \<lparr>lamp = COLOR_NEUTRAL, r_fg = COLOR_TEXT, v_fg = COLOR_TEXT\<rparr>\<rparr>"



text \<open>
  The row of point \<open>i\<close> as the specification gives it: the index counted from one, the
  two readings with six decimals and the verdict, separated by tabs; \<open>N/A\<close> in place of
  the verdict, with the two readings left empty, when a reading is missing.
\<close>

definition row_text :: "'l app \<Rightarrow> nat \<Rightarrow> string" where
  "row_text s i =
     (case (r_values s ! i, v_values s ! i) of
        (Some r, Some v) \<Rightarrow>
          str_nat (i + 1) @ TAB @ fmt6 r @ TAB @ fmt6 v @ TAB @ (if flags s ! i then ''PASS'' else ''NOT PASS'')
      | _ \<Rightarrow> str_nat (i + 1) @ TAB @ TAB @ TAB @ ''N/A'')"

text \<open>The fields \<open>_parse_meter_line\<close> works on, and what the specification calls numeric.\<close>

definition fields :: "string \<Rightarrow> string list" where
  "fields line = map strip (split_on CHR '','' (strip line))"

text \<open>
  The status as the specification words it: one leading plus sign is stripped, then the
  field is read as an integer, and a field that does not read is absent.
\<close>

definition status_leading_plus :: "string \<Rightarrow> int option" where
  "status_leading_plus p =
     (case py_int (case p of c # cs \<Rightarrow> (if c = CHR ''+'' then cs else p) | [] \<Rightarrow> p) of
        Inl e \<Rightarrow> None | Inr n \<Rightarrow> Some n)"

section \<open>Properties\<close>

subsection \<open>Floats of the samples\<close>

lemmas double_eval =
  to_double_def binade_def pow2_def round_half_even_def ilog2.simps Let_def

lemma double_values:
  "to_double 10 = 10" "to_double 5 = 5" "to_double 0.5 = 0.5"
  "to_double 9.5 = 9.5" "to_double 10.5 = 10.5"
  "to_double 0.1 = 3602879701896397 / 2 ^ 55"
  "to_double 4.9 = 2758454771764429 / 2 ^ 49"
  "to_double 5.1 = 2871044762448691 / 2 ^ 49"
  by (simp_all add: double_eval)

lemma default_bounds:
  "r_bounds \<lparr>r_set = 10, r_tol = 0.5, v_set = 5, v_tol = 0.1\<rparr> = (9.5, 10.5)"
  "v_bounds \<lparr>r_set = 10, r_tol = 0.5, v_set = 5, v_tol = 0.1\<rparr> = (to_double 4.9, to_double 5.1)"
  by (simp_all add: r_bounds_def v_bounds_def double_eval)

subsection \<open>The row loop\<close>

lemma refresh_row_view:
  assumes "rows_view a = rows_view b"
  shows "rows_view (state_of (refresh_row rb vb i a)) = rows_view (state_of (refresh_row rb vb i b))
         \<and> raised (refresh_row rb vb i a) = raised (refresh_row rb vb i b)"
  using assms by (simp add: refresh_row_def rows_view_def Let_def)

lemma refresh_loop_view:
  assumes "rows_view a = rows_view b"
  shows "rows_view (state_of (refresh_loop rb vb js a)) = rows_view (state_of (refresh_loop rb vb js b))
         \<and> raised (refresh_loop rb vb js a) = raised (refresh_loop rb vb js b)"
  using assms
proof (induction js arbitrary: a b)
  case Nil
  then show ?case by simp
next
  case (Cons i js)
  from refresh_row_view [OF Cons.prems, of rb vb i]
  have v: "rows_view (state_of (refresh_row rb vb i a)) = rows_view (state_of (refresh_row rb vb i b))"
    and r: "raised (refresh_row rb vb i a) = raised (refresh_row rb vb i b)"
    by simp_all
  show ?case
  proof (cases "refresh_row rb vb i a")
    case (Done a')
    with r obtain b' where b': "refresh_row rb vb i b = Done b'"
      by (cases "refresh_row rb vb i b") simp_all
    from v Done b' have "rows_view a' = rows_view b'" by simp
    from Cons.IH [OF this] Done b' show ?thesis by simp
  next
    case (Raised e a')
    with r obtain b' where b': "refresh_row rb vb i b = Raised e b'"
      by (cases "refresh_row rb vb i b") simp_all
    with v Raised show ?thesis by simp
  qed
qed

lemma ok_in_iff: "ok_in (lo, hi) x = in_range lo hi x"
proof (cases x)
  case None
  then show ?thesis by (simp add: ok_in_def in_range_def)
next
  case (Some y)
  then show ?thesis by (cases y) (simp_all add: ok_in_def in_range_def)
qed

lemma fold_update_length:
  "length (fold (\<lambda>i ys. ys[i := f i]) js xs) = length xs"
  by (induction js arbitrary: xs) simp_all

lemma fold_update_nth:
  "j < n \<Longrightarrow> n \<le> length xs \<Longrightarrow> fold (\<lambda>i ys. ys[i := f i]) [0 ..< n] xs ! j = f j"
proof (induction n)
  case 0
  then show ?case by simp
next
  case (Suc n)
  let ?ys = "fold (\<lambda>i ys. ys[i := f i]) [0 ..< n] xs"
  have len: "length ?ys = length xs" by (rule fold_update_length)
  show ?case
  proof (cases "j = n")
    case True
    with Suc.prems len show ?thesis by simp
  next
    case False
    with Suc.prems have "j < n" "n \<le> length xs" by simp_all
    from Suc.IH [OF this] False show ?thesis by simp
  qed
qed

text \<open>
  With every index of the loop inside the three lists, the loop ends normally and has
  written each visited flag and row from the readings, which it leaves alone.
\<close>

lemma refresh_loop_closed:
  assumes "\<forall>i \<in> set js. i < length (r_values s) \<and> i < length (v_values s) \<and> i < length (flags s)"
  shows "refresh_loop rb vb js s = Done (s\<lparr>
      flags := fold (\<lambda>i fl. fl[i := row_flag rb vb (r_values s ! i) (v_values s ! i)]) js (flags s),
      row_widgets := fold (\<lambda>i rw. rw[i := row_paint rb vb (r_values s ! i) (v_values s ! i)])
        js (row_widgets s)\<rparr>)"
  using assms
proof (induction js arbitrary: s)
  case Nil
  then show ?case by simp
next
  case (Cons i js)
  from Cons.prems have i: "i < length (r_values s)" "i < length (v_values s)" "i < length (flags s)"
    by simp_all
  let ?s1 = "s\<lparr>
      flags := (flags s)[i := row_flag rb vb (r_values s ! i) (v_values s ! i)],
      row_widgets := (row_widgets s)[i := row_paint rb vb (r_values s ! i) (v_values s ! i)]\<rparr>"
  from i have step: "refresh_row rb vb i s = Done ?s1"
    by (simp add: refresh_row_def)
  from Cons.prems
  have "\<forall>k \<in> set js. k < length (r_values ?s1) \<and> k < length (v_values ?s1) \<and> k < length (flags ?s1)"
    by simp
  from Cons.IH [OF this] step show ?case by simp
qed


lemma refresh_loop_all:
  assumes "n \<le> length (r_values s)" "n \<le> length (v_values s)" "n \<le> length (flags s)"
    "n \<le> length (row_widgets s)"
  shows "\<exists>s'. refresh_loop rb vb [0 ..< n] s = Done s' \<and>
           r_values s' = r_values s \<and> v_values s' = v_values s \<and>
           length (flags s') = length (flags s) \<and>
           length (row_widgets s') = length (row_widgets s) \<and>
           current_idx s' = current_idx s \<and> num_points s' = num_points s \<and>
           (\<forall>i < n. flags s' ! i = row_flag rb vb (r_values s ! i) (v_values s ! i) \<and>
                    row_widgets s' ! i = row_paint rb vb (r_values s ! i) (v_values s ! i))"
proof -
  from assms have "\<forall>i \<in> set [0 ..< n]. i < length (r_values s) \<and> i < length (v_values s) \<and> i < length (flags s)"
    by simp
  from refresh_loop_closed [OF this, of rb vb] assms show ?thesis
    by (simp add: fold_update_length fold_update_nth)
qed

lemma row_flag_iff:
  "row_flag (rlo, rhi) (vlo, vhi) r v = (in_range rlo rhi r \<and> in_range vlo vhi v)"
  by (auto simp add: row_flag_def ok_in_iff in_range_def split: option.splits pyfloat.splits)

lemma row_paint_r_fg:
  "(r_fg (row_paint (rlo, rhi) vb r v) = ''red'') = (r \<noteq> None \<and> \<not> in_range rlo rhi r)"
  by (simp add: row_paint_def Let_def ok_in_iff COLOR_TEXT_def)

lemma row_paint_v_fg:
  "(v_fg (row_paint rb (vlo, vhi) r v) = ''red'') = (v \<noteq> None \<and> \<not> in_range vlo vhi v)"
  by (simp add: row_paint_def Let_def ok_in_iff COLOR_TEXT_def)

lemma refresh_loop_rows:
  assumes "length (row_widgets s) \<le> length (r_values s)"
    "length (row_widgets s) \<le> length (v_values s)"
    "length (row_widgets s) \<le> length (flags s)"
  shows "\<exists>s'. refresh_loop (rlo, rhi) (vlo, vhi) [0 ..< length (row_widgets s)] s = Done s' \<and>
            r_values s' = r_values s \<and> v_values s' = v_values s \<and>
            (\<forall>i < length (row_widgets s).
               flags s' ! i = (in_range rlo rhi (r_values s ! i) \<and> in_range vlo vhi (v_values s ! i)) \<and>
               (r_fg (row_widgets s' ! i) = ''red'') =
                 (r_values s ! i \<noteq> None \<and> \<not> in_range rlo rhi (r_values s ! i)) \<and>
               (v_fg (row_widgets s' ! i) = ''red'') =
                 (v_values s ! i \<noteq> None \<and> \<not> in_range vlo vhi (v_values s ! i)))"
proof -
  let ?n = "length (row_widgets s)"
  have "?n \<le> ?n" by simp
  from refresh_loop_all [OF assms this, of "(rlo, rhi)" "(vlo, vhi)"]
  obtain s' where s': "refresh_loop (rlo, rhi) (vlo, vhi) [0 ..< ?n] s = Done s'"
    "r_values s' = r_values s" "v_values s' = v_values s"
    "\<forall>i < ?n. flags s' ! i = row_flag (rlo, rhi) (vlo, vhi) (r_values s ! i) (v_values s ! i) \<and>
       row_widgets s' ! i = row_paint (rlo, rhi) (vlo, vhi) (r_values s ! i) (v_values s ! i)"
    by blast
  show ?thesis
  proof (intro exI [of _ s'] conjI allI impI)
    fix i assume i: "i < ?n"
    with s'(4) have f: "flags s' ! i = row_flag (rlo, rhi) (vlo, vhi) (r_values s ! i) (v_values s ! i)"
      and w: "row_widgets s' ! i = row_paint (rlo, rhi) (vlo, vhi) (r_values s ! i) (v_values s ! i)"
      by simp_all
    from f show "flags s' ! i = (in_range rlo rhi (r_values s ! i) \<and> in_range vlo vhi (v_values s ! i))"
      by (simp only: row_flag_iff)
    from w show "(r_fg (row_widgets s' ! i) = ''red'') =
                 (r_values s ! i \<noteq> None \<and> \<not> in_range rlo rhi (r_values s ! i))"
      by (simp only: row_paint_r_fg)
    from w show "(v_fg (row_widgets s' ! i) = ''red'') =
                 (v_values s ! i \<noteq> None \<and> \<not> in_range vlo vhi (v_values s ! i))"
      by (simp only: row_paint_v_fg)
  qed (fact s')+
qed

lemma well_formed_lengths:
  assumes "well_formed s"
  shows "length (row_widgets s) \<le> length (r_values s)"
    "length (row_widgets s) \<le> length (v_values s)"
    "length (row_widgets s) \<le> length (flags s)"
  using assms by (simp_all add: well_formed_def)

text \<open>
  C1. In a session with one reading, one flag and one row per point, \<open>_refresh_rows\<close> of
  either file ends normally, leaves the readings alone, and for every point: the flag is
  true exactly when the resistance and the voltage are both present and each lies in its
  closed interval, ends included (so a point with one reading alone fails), the interval
  of \<^verbatim>\<open>UI_test.py\<close> being the two floats \<open>_r_bounds\<close> or \<open>_v_bounds\<close> computes; the resistance
  entry turns red exactly when a resistance is present and out of its interval, and the
  voltage entry exactly when a voltage is present and out of its own.
\<close>

theorem refresh_rows_pass_iff:
  assumes "well_formed a" and "well_formed b"
  shows "(\<exists>a'. refresh_rows_ui2 a = Done a' \<and>
            r_values a' = r_values a \<and> v_values a' = v_values a \<and>
            (\<forall>i < length (row_widgets a).
               flags a' ! i =
                 (in_range (r_min (limits a)) (r_max (limits a)) (r_values a ! i) \<and>
                  in_range (v_min (limits a)) (v_max (limits a)) (v_values a ! i)) \<and>
               (r_fg (row_widgets a' ! i) = ''red'') =
                 (r_values a ! i \<noteq> None \<and>
                  \<not> in_range (r_min (limits a)) (r_max (limits a)) (r_values a ! i)) \<and>
               (v_fg (row_widgets a' ! i) = ''red'') =
                 (v_values a ! i \<noteq> None \<and>
                  \<not> in_range (v_min (limits a)) (v_max (limits a)) (v_values a ! i)))) \<and>
         (\<exists>b'. refresh_rows_uitest b = Done b' \<and>
            r_values b' = r_values b \<and> v_values b' = v_values b \<and>
            (\<forall>i < length (row_widgets b).
               flags b' ! i =
                 (in_range (to_double (to_double (r_set (limits b)) - to_double (r_tol (limits b)))) (to_double (to_double (r_set (limits b)) + to_double (r_tol (limits b))))
                    (r_values b ! i) \<and>
                  in_range (to_double (to_double (v_set (limits b)) - to_double (v_tol (limits b)))) (to_double (to_double (v_set (limits b)) + to_double (v_tol (limits b))))
                    (v_values b ! i)) \<and>
               (r_fg (row_widgets b' ! i) = ''red'') =
                 (r_values b ! i \<noteq> None \<and>
                  \<not> in_range (to_double (to_double (r_set (limits b)) - to_double (r_tol (limits b)))) (to_double (to_double (r_set (limits b)) + to_double (r_tol (limits b))))
                    (r_values b ! i)) \<and>
               (v_fg (row_widgets b' ! i) = ''red'') =
                 (v_values b ! i \<noteq> None \<and>
                  \<not> in_range (to_double (to_double (v_set (limits b)) - to_double (v_tol (limits b)))) (to_double (to_double (v_set (limits b)) + to_double (v_tol (limits b))))
                    (v_values b ! i))))"
proof
  from refresh_loop_rows [OF well_formed_lengths [OF assms(1)]]
  show "\<exists>a'. refresh_rows_ui2 a = Done a' \<and>
            r_values a' = r_values a \<and> v_values a' = v_values a \<and>
            (\<forall>i < length (row_widgets a).
               flags a' ! i =
                 (in_range (r_min (limits a)) (r_max (limits a)) (r_values a ! i) \<and>
                  in_range (v_min (limits a)) (v_max (limits a)) (v_values a ! i)) \<and>
               (r_fg (row_widgets a' ! i) = ''red'') =
                 (r_values a ! i \<noteq> None \<and>
                  \<not> in_range (r_min (limits a)) (r_max (limits a)) (r_values a ! i)) \<and>
               (v_fg (row_widgets a' ! i) = ''red'') =
                 (v_values a ! i \<noteq> None \<and>
                  \<not> in_range (v_min (limits a)) (v_max (limits a)) (v_values a ! i)))"
    unfolding refresh_rows_ui2_def .
next
  from refresh_loop_rows [OF well_formed_lengths [OF assms(2)]]
  show "\<exists>b'. refresh_rows_uitest b = Done b' \<and>
            r_values b' = r_values b \<and> v_values b' = v_values b \<and>
            (\<forall>i < length (row_widgets b).
               flags b' ! i =
                 (in_range (to_double (to_double (r_set (limits b)) - to_double (r_tol (limits b)))) (to_double (to_double (r_set (limits b)) + to_double (r_tol (limits b))))
                    (r_values b ! i) \<and>
                  in_range (to_double (to_double (v_set (limits b)) - to_double (v_tol (limits b)))) (to_double (to_double (v_set (limits b)) + to_double (v_tol (limits b))))
                    (v_values b ! i)) \<and>
               (r_fg (row_widgets b' ! i) = ''red'') =
                 (r_values b ! i \<noteq> None \<and>
                  \<not> in_range (to_double (to_double (r_set (limits b)) - to_double (r_tol (limits b)))) (to_double (to_double (r_set (limits b)) + to_double (r_tol (limits b))))
                    (r_values b ! i)) \<and>
               (v_fg (row_widgets b' ! i) = ''red'') =
                 (v_values b ! i \<noteq> None \<and>
                  \<not> in_range (to_double (to_double (v_set (limits b)) - to_double (v_tol (limits b)))) (to_double (to_double (v_set (limits b)) + to_double (v_tol (limits b))))
                    (v_values b ! i)))"
    unfolding refresh_rows_uitest_def r_bounds_def v_bounds_def .
qed

lemma sample_ui2_refreshed:
  "refresh_rows_ui2 sample_readings_ui2 = Done (sample_readings_ui2\<lparr>
     flags := [True, True, False, False],
     row_widgets := [
       \<lparr>lamp = COLOR_GREEN, r_fg = COLOR_TEXT, v_fg = COLOR_TEXT\<rparr>,
       \<lparr>lamp = COLOR_GREEN, r_fg = COLOR_TEXT, v_fg = COLOR_TEXT\<rparr>,
       \<lparr>lamp = COLOR_RED, r_fg = ''red'', v_fg = COLOR_TEXT\<rparr>,
       \<lparr>lamp = COLOR_RED, r_fg = COLOR_TEXT, v_fg = COLOR_TEXT\<rparr>]\<rparr>)"
  by (simp add: refresh_rows_ui2_def sample_readings_ui2_def new_ui2_def init_arrays_def
      blank_row_def upt_rec [of 0] refresh_row_def row_flag_def row_paint_def ok_in_def numeral_eq_Suc)


theorem refresh_rows_pass_iff_witness:
  "well_formed sample_readings_ui2 \<and> well_formed sample_readings_uitest \<and>
   (\<exists>a'. refresh_rows_ui2 sample_readings_ui2 = Done a' \<and>
      flags a' ! 0 \<and> flags a' ! 1 \<and> \<not> flags a' ! 2 \<and> \<not> flags a' ! 3 \<and>
      r_fg (row_widgets a' ! 2) = ''red'' \<and> v_fg (row_widgets a' ! 2) \<noteq> ''red'' \<and>
      r_fg (row_widgets a' ! 3) \<noteq> ''red'' \<and> v_fg (row_widgets a' ! 3) \<noteq> ''red'') \<and>
   (\<exists>b'. refresh_rows_uitest sample_readings_uitest = Done b' \<and>
      flags b' ! 0 \<and> flags b' ! 1 \<and> \<not> flags b' ! 2 \<and> \<not> flags b' ! 3 \<and>
      r_fg (row_widgets b' ! 2) = ''red'' \<and> v_fg (row_widgets b' ! 2) \<noteq> ''red'' \<and>
      r_fg (row_widgets b' ! 3) \<noteq> ''red'' \<and> v_fg (row_widgets b' ! 3) \<noteq> ''red'')"
proof -
  have wa: "well_formed sample_readings_ui2"
    by (simp add: well_formed_def sample_readings_ui2_def new_ui2_def init_arrays_def)
  have wb: "well_formed sample_readings_uitest"
    by (simp add: well_formed_def sample_readings_uitest_def new_uitest_def init_arrays_def)
  note T = refresh_rows_pass_iff [OF wa wb]
  from T obtain a' where a': "refresh_rows_ui2 sample_readings_ui2 = Done a'"
    and fa: "\<And>i. i < length (row_widgets sample_readings_ui2) \<Longrightarrow>
       flags a' ! i =
         (in_range (r_min (limits sample_readings_ui2)) (r_max (limits sample_readings_ui2))
            (r_values sample_readings_ui2 ! i) \<and>
          in_range (v_min (limits sample_readings_ui2)) (v_max (limits sample_readings_ui2))
            (v_values sample_readings_ui2 ! i)) \<and>
       (r_fg (row_widgets a' ! i) = ''red'') =
         (r_values sample_readings_ui2 ! i \<noteq> None \<and>
          \<not> in_range (r_min (limits sample_readings_ui2)) (r_max (limits sample_readings_ui2))
            (r_values sample_readings_ui2 ! i)) \<and>
       (v_fg (row_widgets a' ! i) = ''red'') =
         (v_values sample_readings_ui2 ! i \<noteq> None \<and>
          \<not> in_range (v_min (limits sample_readings_ui2)) (v_max (limits sample_readings_ui2))
            (v_values sample_readings_ui2 ! i))"
    by blast
  from T obtain b' where b': "refresh_rows_uitest sample_readings_uitest = Done b'"
    and fb: "\<And>i. i < length (row_widgets sample_readings_uitest) \<Longrightarrow>
       flags b' ! i =
         (in_range (to_double (to_double (r_set (limits sample_readings_uitest)) - to_double (r_tol (limits sample_readings_uitest))))
            (to_double (to_double (r_set (limits sample_readings_uitest)) + to_double (r_tol (limits sample_readings_uitest))))
            (r_values sample_readings_uitest ! i) \<and>
          in_range (to_double (to_double (v_set (limits sample_readings_uitest)) - to_double (v_tol (limits sample_readings_uitest))))
            (to_double (to_double (v_set (limits sample_readings_uitest)) + to_double (v_tol (limits sample_readings_uitest))))
            (v_values sample_readings_uitest ! i)) \<and>
       (r_fg (row_widgets b' ! i) = ''red'') =
         (r_values sample_readings_uitest ! i \<noteq> None \<and>
          \<not> in_range (to_double (to_double (r_set (limits sample_readings_uitest)) - to_double (r_tol (limits sample_readings_uitest))))
            (to_double (to_double (r_set (limits sample_readings_uitest)) + to_double (r_tol (limits sample_readings_uitest))))
            (r_values sample_readings_uitest ! i)) \<and>
       (v_fg (row_widgets b' ! i) = ''red'') =
         (v_values sample_readings_uitest ! i \<noteq> None \<and>
          \<not> in_range (to_double (to_double (v_set (limits sample_readings_uitest)) - to_double (v_tol (limits sample_readings_uitest))))
            (to_double (to_double (v_set (limits sample_readings_uitest)) + to_double (v_tol (limits sample_readings_uitest))))
            (v_values sample_readings_uitest ! i))"
    by blast
  from fa [of 0] fa [of 1] fa [of 2] fa [of 3]
  have A: "flags a' ! 0 \<and> flags a' ! 1 \<and> \<not> flags a' ! 2 \<and> \<not> flags a' ! 3 \<and>
      r_fg (row_widgets a' ! 2) = ''red'' \<and> v_fg (row_widgets a' ! 2) \<noteq> ''red'' \<and>
      r_fg (row_widgets a' ! 3) \<noteq> ''red'' \<and> v_fg (row_widgets a' ! 3) \<noteq> ''red''"
    by (simp add: sample_readings_ui2_def new_ui2_def init_arrays_def in_range_def)
  from fb [of 0] fb [of 1] fb [of 2] fb [of 3]
  have B: "flags b' ! 0 \<and> flags b' ! 1 \<and> \<not> flags b' ! 2 \<and> \<not> flags b' ! 3 \<and>
      r_fg (row_widgets b' ! 2) = ''red'' \<and> v_fg (row_widgets b' ! 2) \<noteq> ''red'' \<and>
      r_fg (row_widgets b' ! 3) \<noteq> ''red'' \<and> v_fg (row_widgets b' ! 3) \<noteq> ''red''"
    by (simp add: sample_readings_uitest_def new_uitest_def init_arrays_def in_range_def
        double_eval)
  from wa wb a' b' A B show ?thesis by blast
qed

text \<open>
  C3, as amended. \<^verbatim>\<open>UI_test.py\<close> flags a point exactly when both readings lie in the closed
  intervals whose ends are the floats \<open>float(set) - float(tol)\<close> and
  \<open>float(set) + float(tol)\<close>, and \<^verbatim>\<open>UI_2.py\<close> exactly when both lie in the closed intervals
  between its minima and maxima. So when the explicit limits are the very floats the two
  derivations give, every pair of readings gets the same verdict, and \<open>_refresh_rows\<close> of
  the two files, run on the same readings, flags and rows, ends the same way with the
  same flags and rows. For the set point \<open>10\<close> and the tolerance \<open>0.5\<close> the derived floats
  are \<open>9.5\<close> and \<open>10.5\<close> themselves, so that pair and the limits \<open>9.5\<close> and \<open>10.5\<close> agree on
  every reading. No condition on the sign of the tolerance is needed.
\<close>

theorem set_tol_bounds_evaluation:
  "row_flag (r_bounds l) (v_bounds l) r v =
     (in_range (to_double (to_double (r_set l) - to_double (r_tol l)))
               (to_double (to_double (r_set l) + to_double (r_tol l))) r \<and>
      in_range (to_double (to_double (v_set l) - to_double (v_tol l)))
               (to_double (to_double (v_set l) + to_double (v_tol l))) v) \<and>
   row_flag (r_min m, r_max m) (v_min m, v_max m) r v =
     (in_range (r_min m) (r_max m) r \<and> in_range (v_min m) (v_max m) v) \<and>
   ((r_min (limits b), r_max (limits b)) = r_bounds (limits a) \<and>
    (v_min (limits b), v_max (limits b)) = v_bounds (limits a) \<and>
    rows_view a = rows_view b \<longrightarrow>
      row_flag (r_bounds (limits a)) (v_bounds (limits a)) r v =
        row_flag (r_min (limits b), r_max (limits b)) (v_min (limits b), v_max (limits b)) r v \<and>
      rows_view (state_of (refresh_rows_uitest a)) = rows_view (state_of (refresh_rows_ui2 b)) \<and>
      raised (refresh_rows_uitest a) = raised (refresh_rows_ui2 b)) \<and>
   r_bounds \<lparr>r_set = 10, r_tol = 0.5, v_set = vs, v_tol = vt\<rparr> = (9.5, 10.5) \<and>
   row_flag (r_bounds \<lparr>r_set = 10, r_tol = 0.5, v_set = vs, v_tol = vt\<rparr>) vb r v =
     (in_range 9.5 10.5 r \<and> in_range (fst vb) (snd vb) v)"
proof (intro conjI impI)
  show "row_flag (r_bounds l) (v_bounds l) r v =
     (in_range (to_double (to_double (r_set l) - to_double (r_tol l)))
               (to_double (to_double (r_set l) + to_double (r_tol l))) r \<and>
      in_range (to_double (to_double (v_set l) - to_double (v_tol l)))
               (to_double (to_double (v_set l) + to_double (v_tol l))) v)"
    by (simp only: r_bounds_def v_bounds_def row_flag_iff)
  show "row_flag (r_min m, r_max m) (v_min m, v_max m) r v =
     (in_range (r_min m) (r_max m) r \<and> in_range (v_min m) (v_max m) v)"
    by (rule row_flag_iff)
next
  assume h: "(r_min (limits b), r_max (limits b)) = r_bounds (limits a) \<and>
    (v_min (limits b), v_max (limits b)) = v_bounds (limits a) \<and>
    rows_view a = rows_view b"
  then have rb: "r_bounds (limits a) = (r_min (limits b), r_max (limits b))"
    and vb: "v_bounds (limits a) = (v_min (limits b), v_max (limits b))"
    and view: "rows_view a = rows_view b"
    by simp_all
  from view have len: "length (row_widgets a) = length (row_widgets b)"
    by (simp add: rows_view_def)
  show "row_flag (r_bounds (limits a)) (v_bounds (limits a)) r v =
        row_flag (r_min (limits b), r_max (limits b)) (v_min (limits b), v_max (limits b)) r v"
    by (simp only: rb vb)
  from refresh_loop_view [OF view] rb vb len
  show "rows_view (state_of (refresh_rows_uitest a)) = rows_view (state_of (refresh_rows_ui2 b))"
    by (simp add: refresh_rows_uitest_def refresh_rows_ui2_def)
  from refresh_loop_view [OF view] rb vb len
  show "raised (refresh_rows_uitest a) = raised (refresh_rows_ui2 b)"
    by (simp add: refresh_rows_uitest_def refresh_rows_ui2_def)
next
  show e: "r_bounds \<lparr>r_set = 10, r_tol = 0.5, v_set = vs, v_tol = vt\<rparr> = (9.5, 10.5)"
    by (simp add: r_bounds_def double_eval)
  show "row_flag (r_bounds \<lparr>r_set = 10, r_tol = 0.5, v_set = vs, v_tol = vt\<rparr>) vb r v =
     (in_range 9.5 10.5 r \<and> in_range (fst vb) (snd vb) v)"
    unfolding e by (cases vb) (simp only: row_flag_iff fst_conv snd_conv)
qed

lemma sample_float_limits_refreshed:
  "flags (state_of (refresh_rows_ui2 sample_float_limits_ui2)) = [True, True, False, False]"
proof -
  have u: "[0 ..< 4] = [0, Suc 0, Suc (Suc 0), Suc (Suc (Suc 0))]"
    by (simp add: numeral_eq_Suc upt_rec [of 0] upt_rec [of "Suc 0"] upt_rec [of "Suc (Suc 0)"]
        upt_rec [of "Suc (Suc (Suc 0))"] upt_rec [of "Suc (Suc (Suc (Suc 0)))"])
  have r: "\<And>x :: bool. replicate 4 x = [x, x, x, x]" "\<And>x :: row. replicate 4 x = [x, x, x, x]"
    by (simp_all add: numeral_eq_Suc)
  show ?thesis
    by (simp add: refresh_rows_ui2_def sample_float_limits_ui2_def sample_readings_ui2_def
        new_ui2_def init_arrays_def blank_row_def u r refresh_row_def row_flag_def
        ok_in_def double_eval)
qed

theorem set_tol_bounds_evaluation_witness:
  "(r_min (limits sample_float_limits_ui2), r_max (limits sample_float_limits_ui2)) =
     r_bounds (limits sample_readings_uitest) \<and>
   (v_min (limits sample_float_limits_ui2), v_max (limits sample_float_limits_ui2)) =
     v_bounds (limits sample_readings_uitest) \<and>
   rows_view sample_readings_uitest = rows_view sample_float_limits_ui2 \<and>
   limits sample_readings_uitest = \<lparr>r_set = 10, r_tol = 0.5, v_set = 5, v_tol = 0.1\<rparr> \<and>
   rows_view (state_of (refresh_rows_uitest sample_readings_uitest)) =
     rows_view (state_of (refresh_rows_ui2 sample_float_limits_ui2)) \<and>
   raised (refresh_rows_uitest sample_readings_uitest) = raised (refresh_rows_ui2 sample_float_limits_ui2) \<and>
   flags (state_of (refresh_rows_uitest sample_readings_uitest)) = [True, True, False, False]"
proof -
  have l: "limits sample_readings_uitest = \<lparr>r_set = 10, r_tol = 0.5, v_set = 5, v_tol = 0.1\<rparr>"
    by (simp add: sample_readings_uitest_def new_uitest_def init_arrays_def)
  have m: "limits sample_float_limits_ui2 =
      \<lparr>r_min = 9.5, r_max = 10.5, v_min = to_double 4.9, v_max = to_double 5.1\<rparr>"
    by (simp add: sample_float_limits_ui2_def)
  have h: "(r_min (limits sample_float_limits_ui2), r_max (limits sample_float_limits_ui2)) =
     r_bounds (limits sample_readings_uitest) \<and>
   (v_min (limits sample_float_limits_ui2), v_max (limits sample_float_limits_ui2)) =
     v_bounds (limits sample_readings_uitest) \<and>
   rows_view sample_readings_uitest = rows_view sample_float_limits_ui2"
    by (simp add: l m r_bounds_def v_bounds_def double_eval)
      (simp add: rows_view_def sample_float_limits_ui2_def sample_readings_ui2_def
        sample_readings_uitest_def new_ui2_def new_uitest_def init_arrays_def)
  from set_tol_bounds_evaluation [of _ _ _ _ sample_float_limits_ui2 sample_readings_uitest] h
  have e: "rows_view (state_of (refresh_rows_uitest sample_readings_uitest)) =
     rows_view (state_of (refresh_rows_ui2 sample_float_limits_ui2)) \<and>
   raised (refresh_rows_uitest sample_readings_uitest) = raised (refresh_rows_ui2 sample_float_limits_ui2)"
    by blast
  then have "flags (state_of (refresh_rows_uitest sample_readings_uitest)) =
      flags (state_of (refresh_rows_ui2 sample_float_limits_ui2))"
    by (simp add: rows_view_def)
  with sample_float_limits_refreshed h l e show ?thesis by simp
qed

text \<open>
  The claim as first worded takes the minimum and the maximum to be \<open>set - tol\<close> and
  \<open>set + tol\<close> as numbers. For the set point \<open>10.1\<close> and the tolerance \<open>0.2\<close> these are \<open>9.9\<close>
  and \<open>10.3\<close>, but the float sum that \<open>_r_bounds\<close> computes lies below \<open>10.3\<close>: a resistance
  of \<open>10.3\<close> fails in \<^verbatim>\<open>UI_test.py\<close> and passes in \<^verbatim>\<open>UI_2.py\<close> under the limits \<open>9.9\<close> and
  \<open>10.3\<close>.
\<close>

theorem set_tol_decimal_counterexample:
  "limits sample_tight_uitest = \<lparr>r_set = 10.1, r_tol = 0.2, v_set = 5, v_tol = 0.1\<rparr> \<and>
   limits sample_tight_ui2 = \<lparr>r_min = 10.1 - 0.2, r_max = 10.1 + 0.2, v_min = 5 - 0.1, v_max = 5 + 0.1\<rparr> \<and>
   rows_view sample_tight_uitest = rows_view sample_tight_ui2 \<and>
   r_values sample_tight_uitest = [Some (FVal 10.3)] \<and>
   snd (r_bounds (limits sample_tight_uitest)) = 5798384520239513 / 2 ^ 49 \<and>
   snd (r_bounds (limits sample_tight_uitest)) < 10.3 \<and>
   flags (state_of (refresh_rows_uitest sample_tight_uitest)) = [False] \<and>
   flags (state_of (refresh_rows_ui2 sample_tight_ui2)) = [True]"
  by (simp add: sample_tight_uitest_def sample_tight_ui2_def new_uitest_def new_ui2_def
      init_arrays_def rows_view_def refresh_rows_uitest_def refresh_rows_ui2_def blank_row_def
      refresh_row_def row_flag_def ok_in_def r_bounds_def v_bounds_def double_eval)

subsection \<open>The simulated reading\<close>


lemma abs_near:
  fixes h u :: real
  assumes "0 \<le> u" "u \<le> 1"
  shows "\<bar>0.6 * h * (2 * u - 1)\<bar> \<le> 0.6 * \<bar>h\<bar>"
proof -
  from assms have "\<bar>2 * u - 1\<bar> \<le> 1" by (simp add: abs_le_iff)
  then have "(0.6 * \<bar>h\<bar>) * \<bar>2 * u - 1\<bar> \<le> (0.6 * \<bar>h\<bar>) * 1"
    by (intro mult_left_mono) simp_all
  then show ?thesis by (simp add: abs_mult)
qed

lemma abs_far:
  fixes h u :: real
  assumes "0 \<le> u" "u \<le> 1"
  shows "\<bar>choice c * (h * (0.7 + 0.9 * u))\<bar> = \<bar>h\<bar> * (0.7 + 0.9 * u)"
    and "0.7 * \<bar>h\<bar> \<le> \<bar>h\<bar> * (0.7 + 0.9 * u)"
    and "\<bar>h\<bar> * (0.7 + 0.9 * u) \<le> 1.6 * \<bar>h\<bar>"
proof -
  from assms have pos: "0 \<le> 0.7 + 0.9 * u" by simp
  then show "\<bar>choice c * (h * (0.7 + 0.9 * u))\<bar> = \<bar>h\<bar> * (0.7 + 0.9 * u)"
    by (simp add: choice_def abs_mult)
  from assms have "\<bar>h\<bar> * 0.7 \<le> \<bar>h\<bar> * (0.7 + 0.9 * u)"
    by (intro mult_left_mono) simp_all
  then show "0.7 * \<bar>h\<bar> \<le> \<bar>h\<bar> * (0.7 + 0.9 * u)" by simp
  from assms have "\<bar>h\<bar> * (0.7 + 0.9 * u) \<le> \<bar>h\<bar> * 1.6"
    by (intro mult_left_mono) simp_all
  then show "\<bar>h\<bar> * (0.7 + 0.9 * u) \<le> 1.6 * \<bar>h\<bar>" by simp
qed

lemma uniform_near: "uniform (c - 0.6 * h) (c + 0.6 * h) u = c + 0.6 * h * (2 * u - 1)"
  by (simp add: uniform_def field_simps)

lemma uniform_far: "uniform (0.7 * h) (1.6 * h) u = h * (0.7 + 0.9 * u)"
  by (simp add: uniform_def field_simps)

lemma simulated_near:
  assumes "near_center d"
  shows "simulated (rlo, rhi) (vlo, vhi) d =
     (FVal ((rlo + rhi) / 2 + 0.6 * ((rhi - rlo) / 2) * (2 * r_unit d - 1)),
      FVal ((vlo + vhi) / 2 + 0.6 * ((vhi - vlo) / 2) * (2 * v_unit d - 1)))"
  using assms by (simp only: simulated_def Let_def uniform_near fst_conv snd_conv if_True)

lemma simulated_far:
  assumes "\<not> near_center d"
  shows "simulated (rlo, rhi) (vlo, vhi) d =
     (FVal ((rlo + rhi) / 2 + choice (r_side d) * (((rhi - rlo) / 2) * (0.7 + 0.9 * r_unit d))),
      FVal ((vlo + vhi) / 2 + choice (v_side d) * (((vhi - vlo) / 2) * (0.7 + 0.9 * v_unit d))))"
  using assms by (simp only: simulated_def Let_def uniform_far fst_conv snd_conv if_False)

text \<open>
  C9. The simulated reading as a function of the random numbers it draws. With the
  centre \<open>(min + max) / 2\<close> and the half-span \<open>(max - min) / 2\<close> of each axis, and \<open>u\<close> the
  result of \<open>random()\<close> inside \<open>random.uniform\<close>: when the first draw is below \<open>0.8\<close> each
  axis is \<open>centre + 0.6 * half-span * (2 * u - 1)\<close>, at most \<open>0.6\<close> half-spans from the centre;
  otherwise each axis is the centre plus or minus \<open>half-span * (0.7 + 0.9 * u)\<close>, between
  \<open>0.7\<close> and \<open>1.6\<close> half-spans from the centre, the side being the element
  \<open>random.choice\<close> picks. Of the first draws in \<open>[0, 1)\<close>, those in \<open>[0, 0.8)\<close> take the
  first branch and those in \<open>[0.8, 1)\<close> the second. This holds for all limits.
\<close>

theorem simulated_reading_split:
  assumes "0 \<le> r_unit d" "r_unit d \<le> 1" "0 \<le> v_unit d" "v_unit d \<le> 1"
  shows "(near_center d \<longrightarrow>
           (\<exists>r v. simulated (rlo, rhi) (vlo, vhi) d = (FVal r, FVal v) \<and>
              r = (rlo + rhi) / 2 + 0.6 * ((rhi - rlo) / 2) * (2 * r_unit d - 1) \<and>
              v = (vlo + vhi) / 2 + 0.6 * ((vhi - vlo) / 2) * (2 * v_unit d - 1) \<and>
              \<bar>r - (rlo + rhi) / 2\<bar> \<le> 0.6 * \<bar>(rhi - rlo) / 2\<bar> \<and>
              \<bar>v - (vlo + vhi) / 2\<bar> \<le> 0.6 * \<bar>(vhi - vlo) / 2\<bar>)) \<and>
         (\<not> near_center d \<longrightarrow>
           (\<exists>r v. simulated (rlo, rhi) (vlo, vhi) d = (FVal r, FVal v) \<and>
              r = (rlo + rhi) / 2 + choice (r_side d) * (((rhi - rlo) / 2) * (0.7 + 0.9 * r_unit d)) \<and>
              v = (vlo + vhi) / 2 + choice (v_side d) * (((vhi - vlo) / 2) * (0.7 + 0.9 * v_unit d)) \<and>
              0.7 * \<bar>(rhi - rlo) / 2\<bar> \<le> \<bar>r - (rlo + rhi) / 2\<bar> \<and>
              \<bar>r - (rlo + rhi) / 2\<bar> \<le> 1.6 * \<bar>(rhi - rlo) / 2\<bar> \<and>
              0.7 * \<bar>(vhi - vlo) / 2\<bar> \<le> \<bar>v - (vlo + vhi) / 2\<bar> \<and>
              \<bar>v - (vlo + vhi) / 2\<bar> \<le> 1.6 * \<bar>(vhi - vlo) / 2\<bar>)) \<and>
         {u. 0 \<le> u \<and> u < 1 \<and> near_center (d\<lparr>coin := u\<rparr>)} = {0 ..< 0.8} \<and>
         {u. 0 \<le> u \<and> u < 1 \<and> \<not> near_center (d\<lparr>coin := u\<rparr>)} = {0.8 ..< 1}"
proof (intro conjI impI)
  assume n: "near_center d"
  show "\<exists>r v. simulated (rlo, rhi) (vlo, vhi) d = (FVal r, FVal v) \<and>
              r = (rlo + rhi) / 2 + 0.6 * ((rhi - rlo) / 2) * (2 * r_unit d - 1) \<and>
              v = (vlo + vhi) / 2 + 0.6 * ((vhi - vlo) / 2) * (2 * v_unit d - 1) \<and>
              \<bar>r - (rlo + rhi) / 2\<bar> \<le> 0.6 * \<bar>(rhi - rlo) / 2\<bar> \<and>
              \<bar>v - (vlo + vhi) / 2\<bar> \<le> 0.6 * \<bar>(vhi - vlo) / 2\<bar>"
    using simulated_near [OF n, of rlo rhi vlo vhi]
      abs_near [OF assms(1,2), of "(rhi - rlo) / 2"] abs_near [OF assms(3,4), of "(vhi - vlo) / 2"]
    by simp
next
  assume f: "\<not> near_center d"
  show "\<exists>r v. simulated (rlo, rhi) (vlo, vhi) d = (FVal r, FVal v) \<and>
              r = (rlo + rhi) / 2 + choice (r_side d) * (((rhi - rlo) / 2) * (0.7 + 0.9 * r_unit d)) \<and>
              v = (vlo + vhi) / 2 + choice (v_side d) * (((vhi - vlo) / 2) * (0.7 + 0.9 * v_unit d)) \<and>
              0.7 * \<bar>(rhi - rlo) / 2\<bar> \<le> \<bar>r - (rlo + rhi) / 2\<bar> \<and>
              \<bar>r - (rlo + rhi) / 2\<bar> \<le> 1.6 * \<bar>(rhi - rlo) / 2\<bar> \<and>
              0.7 * \<bar>(vhi - vlo) / 2\<bar> \<le> \<bar>v - (vlo + vhi) / 2\<bar> \<and>
              \<bar>v - (vlo + vhi) / 2\<bar> \<le> 1.6 * \<bar>(vhi - vlo) / 2\<bar>"
    using simulated_far [OF f, of rlo rhi vlo vhi]
      abs_far(1) [OF assms(1,2), where c = "r_side d" and h = "(rhi - rlo) / 2"]
      abs_far(2,3) [OF assms(1,2), where h = "(rhi - rlo) / 2"]
      abs_far(1) [OF assms(3,4), where c = "v_side d" and h = "(vhi - vlo) / 2"]
      abs_far(2,3) [OF assms(3,4), where h = "(vhi - vlo) / 2"]
    by simp
next
  show "{u. 0 \<le> u \<and> u < 1 \<and> near_center (d\<lparr>coin := u\<rparr>)} = {0 ..< 0.8}"
    by (auto simp add: near_center_def)
next
  show "{u. 0 \<le> u \<and> u < 1 \<and> \<not> near_center (d\<lparr>coin := u\<rparr>)} = {0.8 ..< 1}"
    by (auto simp add: near_center_def)
qed


theorem simulated_reading_split_witness:
  "0 \<le> r_unit sample_draws_near \<and> r_unit sample_draws_near \<le> 1 \<and>
   0 \<le> v_unit sample_draws_near \<and> v_unit sample_draws_near \<le> 1 \<and>
   near_center sample_draws_near \<and>
   read_meter_ui2 (new_ui2 sample_disk) sample_draws_near = (FVal 9.85, FVal 5) \<and>
   \<bar>9.85 - (9.5 + 10.5) / 2\<bar> \<le> 0.6 * \<bar>(10.5 - 9.5) / 2 :: real\<bar> \<and>
   0 \<le> r_unit sample_draws_far \<and> r_unit sample_draws_far \<le> 1 \<and>
   0 \<le> v_unit sample_draws_far \<and> v_unit sample_draws_far \<le> 1 \<and>
   \<not> near_center sample_draws_far \<and>
   read_meter_ui2 (new_ui2 sample_disk) sample_draws_far = (FVal 10.4625, FVal 4.885) \<and>
   0.7 * \<bar>(10.5 - 9.5) / 2\<bar> \<le> \<bar>10.4625 - (9.5 + 10.5) / 2 :: real\<bar>"
proof -
  have hn: "0 \<le> r_unit sample_draws_near" "r_unit sample_draws_near \<le> 1"
    "0 \<le> v_unit sample_draws_near" "v_unit sample_draws_near \<le> 1"
    by (simp_all add: sample_draws_near_def)
  have hf: "0 \<le> r_unit sample_draws_far" "r_unit sample_draws_far \<le> 1"
    "0 \<le> v_unit sample_draws_far" "v_unit sample_draws_far \<le> 1"
    by (simp_all add: sample_draws_far_def)
  have n: "near_center sample_draws_near"
    by (simp add: near_center_def sample_draws_near_def)
  have f: "\<not> near_center sample_draws_far"
    by (simp add: near_center_def sample_draws_far_def)
  have lim: "read_meter_ui2 (new_ui2 sample_disk) d = simulated (9.5, 10.5) (4.9, 5.1) d" for d
    by (simp add: read_meter_ui2_def new_ui2_def init_arrays_def)
  from simulated_reading_split [OF hn, of "9.5" "10.5" "4.9" "5.1"] n
  obtain r v where "simulated (9.5, 10.5) (4.9, 5.1) sample_draws_near = (FVal r, FVal v)"
    and "r = (9.5 + 10.5) / 2 + 0.6 * ((10.5 - 9.5) / 2) * (2 * r_unit sample_draws_near - 1)"
    and "v = (4.9 + 5.1) / 2 + 0.6 * ((5.1 - 4.9) / 2) * (2 * v_unit sample_draws_near - 1)"
    and "\<bar>r - (9.5 + 10.5) / 2\<bar> \<le> 0.6 * \<bar>(10.5 - 9.5) / 2\<bar>"
    by blast
  then have near: "simulated (9.5, 10.5) (4.9, 5.1) sample_draws_near = (FVal 9.85, FVal 5)"
      "\<bar>9.85 - (9.5 + 10.5) / 2\<bar> \<le> 0.6 * \<bar>(10.5 - 9.5) / 2 :: real\<bar>"
    by (simp_all add: sample_draws_near_def)
  from simulated_reading_split [OF hf, of "9.5" "10.5" "4.9" "5.1"] f
  obtain r v where "simulated (9.5, 10.5) (4.9, 5.1) sample_draws_far = (FVal r, FVal v)"
    and "r = (9.5 + 10.5) / 2 + choice (r_side sample_draws_far) *
           (((10.5 - 9.5) / 2) * (0.7 + 0.9 * r_unit sample_draws_far))"
    and "v = (4.9 + 5.1) / 2 + choice (v_side sample_draws_far) *
           (((5.1 - 4.9) / 2) * (0.7 + 0.9 * v_unit sample_draws_far))"
    and "0.7 * \<bar>(10.5 - 9.5) / 2\<bar> \<le> \<bar>r - (9.5 + 10.5) / 2\<bar>"
    by blast
  then have far: "simulated (9.5, 10.5) (4.9, 5.1) sample_draws_far = (FVal 10.4625, FVal 4.885)"
      "0.7 * \<bar>(10.5 - 9.5) / 2\<bar> \<le> \<bar>10.4625 - (9.5 + 10.5) / 2 :: real\<bar>"
    by (simp_all add: sample_draws_far_def choice_def)
  from hn hf n f near far show ?thesis by (simp only: lim) simp
qed

subsection \<open>The response line\<close>

lemma py_float_cases:
  "py_float s = (if float_syntax s then Inr (projr (py_float s))
                 else Inl (ValueError ''could not convert string to float''))"
  by (simp add: py_float_def float_syntax_def Let_def split: prod.splits)

lemma parse_meter_line_cases:
  "parse_meter_line line =
     (if length (fields line) < 2 then Inl (ValueError (''bad format: '' @ strip line))
      else if \<not> float_syntax (fields line ! 0) \<or> \<not> float_syntax (fields line ! 1)
        then Inl (ValueError ''could not convert string to float'')
      else Inr (projr (py_float (fields line ! 0)), projr (py_float (fields line ! 1)),
                if 3 \<le> length (fields line) then status_of (fields line ! 2) else None))"
proof -
  have a: "py_float (fields line ! 0) =
      (if float_syntax (fields line ! 0) then Inr (projr (py_float (fields line ! 0)))
       else Inl (ValueError ''could not convert string to float''))"
    by (rule py_float_cases)
  have b: "py_float (fields line ! 1) =
      (if float_syntax (fields line ! 1) then Inr (projr (py_float (fields line ! 1)))
       else Inl (ValueError ''could not convert string to float''))"
    by (rule py_float_cases)
  show ?thesis
    unfolding parse_meter_line_def Let_def fields_def [symmetric]
    by (subst a, subst b) simp
qed

lemma example_line:
  "parse_meter_line ''+5.87263E-03,+3.09940E+00,+0'' = Inr (FVal 0.00587263, FVal 3.0994, Some 0)"
  by (simp add: parse_meter_line_def py_float_def py_int_def strip_def is_space_def take_sign_def
      spelled_def number_ok_def number_val_def cut_def mantissa_ok_def mantissa_val_def status_of_def
      exponent_ok_def exponent_val_def is_digit_def digit_val_def digits_val_def upper_of_def)


text \<open>
  C4, as amended. The example line of the docstring parses to \<open>0.00587263\<close> ohm,
  \<open>3.0994\<close> volt and status \<open>0\<close>, and \<open>abc\<close> is refused with a \<open>ValueError\<close>. A line
  with fewer than two comma-separated fields, or whose first or second field is not a
  float literal, is refused with a \<open>ValueError\<close>; every other line parses, and its status
  is the integer read from the third field after every plus sign in it is removed,
  absent when there is no third field or when it does not read as an integer.
\<close>

theorem parse_meter_line_fields:
  "parse_meter_line ''+5.87263E-03,+3.09940E+00,+0'' = Inr (FVal 0.00587263, FVal 3.0994, Some 0) \<and>
   (\<exists>m. parse_meter_line ''abc'' = Inl (ValueError m)) \<and>
   (length (fields line) < 2 \<or> \<not> float_syntax (fields line ! 0) \<or> \<not> float_syntax (fields line ! 1)
      \<longrightarrow> (\<exists>m. parse_meter_line line = Inl (ValueError m))) \<and>
   (2 \<le> length (fields line) \<and> float_syntax (fields line ! 0) \<and> float_syntax (fields line ! 1)
      \<longrightarrow> (\<exists>r v. parse_meter_line line =
             Inr (r, v,
               if 3 \<le> length (fields line)
               then (case py_int (filter (\<lambda>c. c \<noteq> CHR ''+'') (fields line ! 2)) of
                       Inl e \<Rightarrow> None | Inr n \<Rightarrow> Some n)
               else None)))"
proof (intro conjI impI)
  show "parse_meter_line ''+5.87263E-03,+3.09940E+00,+0'' = Inr (FVal 0.00587263, FVal 3.0994, Some 0)"
    by (rule example_line)
  show "\<exists>m. parse_meter_line ''abc'' = Inl (ValueError m)"
    by (simp add: parse_meter_line_def strip_def is_space_def)
next
  assume "length (fields line) < 2 \<or> \<not> float_syntax (fields line ! 0) \<or> \<not> float_syntax (fields line ! 1)"
  then show "\<exists>m. parse_meter_line line = Inl (ValueError m)"
    by (subst parse_meter_line_cases) auto
next
  assume "2 \<le> length (fields line) \<and> float_syntax (fields line ! 0) \<and> float_syntax (fields line ! 1)"
  then show "\<exists>r v. parse_meter_line line =
             Inr (r, v,
               if 3 \<le> length (fields line)
               then (case py_int (filter (\<lambda>c. c \<noteq> CHR ''+'') (fields line ! 2)) of
                       Inl e \<Rightarrow> None | Inr n \<Rightarrow> Some n)
               else None)"
    by (subst parse_meter_line_cases) (simp add: status_of_def)
qed

lemma fields_bad: "fields ''1.5,volts'' = [''1.5'', ''volts'']"
  by (simp add: fields_def strip_def is_space_def)

lemma fields_good: "fields ''0.5,2,5+'' = [''0.5'', ''2'', ''5+'']"
  by (simp add: fields_def strip_def is_space_def)

lemma float_syntax_samples:
  "\<not> float_syntax ''volts''" "float_syntax ''0.5''" "float_syntax ''2''"
  by (simp_all add: float_syntax_def strip_def is_space_def take_sign_def spelled_def number_ok_def
      cut_def mantissa_ok_def exponent_ok_def is_digit_def upper_of_def)

theorem parse_meter_line_fields_witness:
  "\<not> float_syntax (fields ''1.5,volts'' ! 1) \<and>
   (\<exists>m. parse_meter_line ''1.5,volts'' = Inl (ValueError m)) \<and>
   2 \<le> length (fields ''0.5,2,5+'') \<and>
   float_syntax (fields ''0.5,2,5+'' ! 0) \<and> float_syntax (fields ''0.5,2,5+'' ! 1) \<and>
   (\<exists>r v. parse_meter_line ''0.5,2,5+'' = Inr (r, v, Some 5))"
proof -
  have bad: "\<not> float_syntax (fields ''1.5,volts'' ! 1)"
    by (simp add: fields_bad float_syntax_samples)
  have good: "2 \<le> length (fields ''0.5,2,5+'') \<and>
      float_syntax (fields ''0.5,2,5+'' ! 0) \<and> float_syntax (fields ''0.5,2,5+'' ! 1)"
    by (simp add: fields_good float_syntax_samples)
  have st: "py_int (filter (\<lambda>c. c \<noteq> CHR ''+'') (fields ''0.5,2,5+'' ! 2)) = Inr 5"
    by (simp add: fields_good py_int_def strip_def is_space_def take_sign_def is_digit_def
        digits_val_def digit_val_def)
  from parse_meter_line_fields [of "''1.5,volts''"] bad
  have 1: "\<exists>m. parse_meter_line ''1.5,volts'' = Inl (ValueError m)" by blast
  from parse_meter_line_fields [of "''0.5,2,5+''"] good
  have "\<exists>r v. parse_meter_line ''0.5,2,5+'' =
             Inr (r, v,
               if 3 \<le> length (fields ''0.5,2,5+'')
               then (case py_int (filter (\<lambda>c. c \<noteq> CHR ''+'') (fields ''0.5,2,5+'' ! 2)) of
                       Inl e \<Rightarrow> None | Inr n \<Rightarrow> Some n)
               else None)" by blast
  then have 2: "\<exists>r v. parse_meter_line ''0.5,2,5+'' = Inr (r, v, Some 5)"
    by (simp only: st) (simp add: fields_good)
  from bad good 1 2 show ?thesis by blast
qed

text \<open>
  The claim as first worded strips one leading plus sign. On the line \<open>1,2,1+2\<close> that
  reading finds no integer in the third field, while the parser returns the status \<open>12\<close>.
\<close>

theorem parse_meter_line_status_counterexample:
  "parse_meter_line ''1,2,1+2'' = Inr (FVal 1, FVal 2, Some 12) \<and>
   fields ''1,2,1+2'' ! 2 = ''1+2'' \<and>
   status_leading_plus ''1+2'' = None"
  by (simp add: parse_meter_line_def py_float_def py_int_def strip_def is_space_def take_sign_def
      spelled_def number_ok_def number_val_def cut_def mantissa_ok_def mantissa_val_def status_of_def
      exponent_ok_def exponent_val_def is_digit_def digit_val_def digits_val_def upper_of_def
      fields_def status_leading_plus_def)

subsection \<open>The report\<close>


lemma is_digit_digit_char: "is_digit (digit_char d)"
proof -
  have "d mod 10 < length ''0123456789''" by simp
  then have "''0123456789'' ! (d mod 10) \<in> set ''0123456789''" by (rule nth_mem)
  then show ?thesis by (simp only: is_digit_def digit_char_def)
qed

lemma str_nat_digits: "str_nat n \<noteq> [] \<and> (\<forall>c \<in> set (str_nat n). is_digit c)"
proof (induction n rule: str_nat.induct)
  case (1 n)
  show ?case
  proof (cases "n < 10")
    case True
    then have "str_nat n = [digit_char n]" by (subst str_nat.simps) simp
    then show ?thesis by (simp add: is_digit_digit_char)
  next
    case False
    with 1 have ih: "str_nat (n div 10) \<noteq> [] \<and> (\<forall>c \<in> set (str_nat (n div 10)). is_digit c)"
      by simp
    have eq: "str_nat n = str_nat (n div 10) @ [digit_char (n mod 10)]"
      using False by (subst str_nat.simps) simp
    from ih show ?thesis by (simp add: eq is_digit_digit_char)
  qed
qed

lemma six_digits_shape: "length (six_digits k) = 6 \<and> (\<forall>c \<in> set (six_digits k). is_digit c)"
  by (simp add: six_digits_def is_digit_digit_char)

lemma fmt6_shape:
  "\<exists>ip fp. fmt6 (FVal x) = (if x < 0 then ''-'' else []) @ ip @ ''.'' @ fp \<and>
      ip \<noteq> [] \<and> (\<forall>c \<in> set ip. is_digit c) \<and> length fp = 6 \<and> (\<forall>c \<in> set fp. is_digit c)"
proof -
  let ?n = "round_half_even (\<bar>x\<bar> * 10 ^ 6)"
  have "fmt6 (FVal x) = (if x < 0 then ''-'' else []) @ str_nat (?n div 10 ^ 6) @ ''.'' @
      six_digits (?n mod 10 ^ 6)"
    by (simp add: Let_def)
  with str_nat_digits [of "?n div 10 ^ 6"] six_digits_shape [of "?n mod 10 ^ 6"]
  show ?thesis by blast
qed

lemma result_rows_closed:
  assumes "n \<le> length (r_values s)" "n \<le> length (v_values s)" "n \<le> length (flags s)"
  shows "result_rows s [0 ..< n] = Inr (map (\<lambda>i. projr (result_row s i)) [0 ..< n]) \<and>
         (\<forall>i < n. result_row s i = Inr
            (case (r_values s ! i, v_values s ! i) of
               (Some r, Some v) \<Rightarrow>
                 str_nat (i + 1) @ TAB @ fmt6 r @ TAB @ fmt6 v @ TAB @
                 (if flags s ! i then LABEL_OK else LABEL_NG)
             | _ \<Rightarrow> str_nat (i + 1) @ TAB @ TAB @ TAB @ ''N/A''))"
proof
  have row: "result_row s i = Inr
            (case (r_values s ! i, v_values s ! i) of
               (Some r, Some v) \<Rightarrow>
                 str_nat (i + 1) @ TAB @ fmt6 r @ TAB @ fmt6 v @ TAB @
                 (if flags s ! i then LABEL_OK else LABEL_NG)
             | _ \<Rightarrow> str_nat (i + 1) @ TAB @ TAB @ TAB @ ''N/A'')" if "i < n" for i
    using that assms by (simp add: result_row_def split: option.splits)
  then show "\<forall>i < n. result_row s i = Inr
            (case (r_values s ! i, v_values s ! i) of
               (Some r, Some v) \<Rightarrow>
                 str_nat (i + 1) @ TAB @ fmt6 r @ TAB @ fmt6 v @ TAB @
                 (if flags s ! i then LABEL_OK else LABEL_NG)
             | _ \<Rightarrow> str_nat (i + 1) @ TAB @ TAB @ TAB @ ''N/A'')"
    by blast
  have "\<forall>i \<in> set js. i < n \<Longrightarrow> result_rows s js = Inr (map (\<lambda>i. projr (result_row s i)) js)" for js
  proof (induction js)
    case Nil
    then show ?case by simp
  next
    case (Cons j js)
    then have "j < n" by simp
    from row [OF this] Cons show ?case by simp
  qed
  then show "result_rows s [0 ..< n] = Inr (map (\<lambda>i. projr (result_row s i)) [0 ..< n])"
    by simp
qed


lemma fmt6_samples: "fmt6 (FVal 10.1) = ''10.100000''" "fmt6 (FVal 5) = ''5.000000''"
  by (simp_all add: round_half_even_def six_digits_def digit_char_def str_nat.simps)

lemma sample_uitest_lines:
  "result_lines_uitest sample_env sample_report_uitest = Inr
     [''Model'' @ TAB @ ''-'',
      ''Time'' @ TAB @ ''2026-01-02 03:04:05'',
      [],
      ''R Set'' @ TAB @ ''10.0 m'' @ OHM @ TAB @ ''Tol '' @ PLUS_MINUS @ ''0.5 m'' @ OHM @ TAB @ ''(min=9.5, max=10.5)'',
      ''V Set'' @ TAB @ ''5.0 V'' @ TAB @ ''Tol '' @ PLUS_MINUS @ ''0.1 V'' @ TAB @ ''(min=4.9, max=5.1)'',
      [],
      ''Cell'' @ TAB @ ''R(m'' @ OHM @ '')'' @ TAB @ ''V(V)'' @ TAB @ ''Result'',
      ''1'' @ TAB @ ''10.100000'' @ TAB @ ''5.000000'' @ TAB @ ''PASS'',
      ''2'' @ TAB @ TAB @ TAB @ ''N/A'']"
  by (simp add: result_lines_uitest_def sample_report_uitest_def new_uitest_def init_arrays_def
      sample_env_def model_or_def strip_def r_bounds_def v_bounds_def result_row_def
      fmt6_samples str_nat.simps digit_char_def LABEL_OK_def upt_rec [of 0] numeral_2_eq_2
      double_eval del: fmt6.simps)


lemma result_row_text:
  assumes "i < length (r_values s)" "i < length (v_values s)" "i < length (flags s)"
  shows "result_row s i = Inr (row_text s i)"
  using assms
  by (simp add: result_row_def row_text_def LABEL_OK_def LABEL_NG_def split: option.splits)

lemma result_rows_text:
  assumes "n \<le> length (r_values s)" "n \<le> length (v_values s)" "n \<le> length (flags s)"
  shows "result_rows s [0 ..< n] = Inr (map (row_text s) [0 ..< n])"
proof -
  have "\<forall>i \<in> set js. i < n \<Longrightarrow> result_rows s js = Inr (map (row_text s) js)" for js
  proof (induction js)
    case Nil
    then show ?case by simp
  next
    case (Cons j js)
    then have "j < n" by simp
    with assms have "result_row s j = Inr (row_text s j)"
      by (intro result_row_text) simp_all
    with Cons show ?case by simp
  qed
  then show ?thesis by simp
qed

lemma well_formed_report:
  assumes "well_formed s"
  shows "result_rows s [0 ..< nat (num_points s)] = Inr (map (row_text s) [0 ..< nat (num_points s)])"
    and "list_all (\<lambda>rv. rv \<noteq> None) (r_values s) = (\<forall>i < nat (num_points s). r_values s ! i \<noteq> None)"
    and "list_all (\<lambda>f. f) (flags s) = (\<forall>i < nat (num_points s). flags s ! i)"
proof -
  from assms have l: "length (r_values s) = nat (num_points s)"
    "length (v_values s) = nat (num_points s)" "length (flags s) = nat (num_points s)"
    by (simp_all add: well_formed_def)
  then show "result_rows s [0 ..< nat (num_points s)] = Inr (map (row_text s) [0 ..< nat (num_points s)])"
    by (intro result_rows_text) simp_all
  from l show "list_all (\<lambda>rv. rv \<noteq> None) (r_values s) = (\<forall>i < nat (num_points s). r_values s ! i \<noteq> None)"
    by (simp add: list_all_length)
  from l show "list_all (\<lambda>f. f) (flags s) = (\<forall>i < nat (num_points s). flags s ! i)"
    by (simp add: list_all_length)
qed

text \<open>
  C8, as amended. In a session with one reading and one flag per point, the report of
  \<^verbatim>\<open>UI_2.py\<close> is seven header lines, one row per point in order, an empty line and the
  line \<open>Overall\<close>, which reads \<open>PASS\<close> exactly when every point has a resistance and every
  flag is set. A row is the index counted from one, the resistance and the voltage with
  six decimals and \<open>PASS\<close> or \<open>NOT PASS\<close>, separated by tabs, and ends in \<open>N/A\<close> with both
  readings left empty when one is missing. The report of \<^verbatim>\<open>UI_test.py\<close> has seven header
  lines and the same rows, and ends with the last row.
\<close>

theorem result_lines_rows:
  assumes "well_formed a" and "well_formed b"
  shows "(\<exists>head. length head = 7 \<and>
           result_lines_ui2 env a = Inr (head @ map (row_text a) [0 ..< nat (num_points a)] @
             [[], ''Overall'' @ TAB @
                  (if (\<forall>i < nat (num_points a). r_values a ! i \<noteq> None) \<and>
                      (\<forall>i < nat (num_points a). flags a ! i)
                   then ''PASS'' else ''NOT PASS'')])) \<and>
         (\<exists>head. length head = 7 \<and>
           result_lines_uitest env b = Inr (head @ map (row_text b) [0 ..< nat (num_points b)])) \<and>
         (\<forall>x. \<exists>ip fp. fmt6 (FVal x) = (if x < 0 then ''-'' else []) @ ip @ ''.'' @ fp \<and>
            ip \<noteq> [] \<and> (\<forall>c \<in> set ip. is_digit c) \<and> length fp = 6 \<and> (\<forall>c \<in> set fp. is_digit c))"
proof (intro conjI allI)
  show "\<exists>head. length head = 7 \<and>
           result_lines_ui2 env a = Inr (head @ map (row_text a) [0 ..< nat (num_points a)] @
             [[], ''Overall'' @ TAB @
                  (if (\<forall>i < nat (num_points a). r_values a ! i \<noteq> None) \<and>
                      (\<forall>i < nat (num_points a). flags a ! i)
                   then ''PASS'' else ''NOT PASS'')])"
    unfolding result_lines_ui2_def well_formed_report [OF assms(1)] LABEL_OK_def LABEL_NG_def
    by (rule exI [of _ "[''Model'' @ TAB @ model_or ''-'' a,
                ''Time'' @ TAB @ time_line env,
                [],
                ''Limits R'' @ TAB @ ''min='' @ float_repr env (r_min (limits a)) @ TAB @
                  ''max='' @ float_repr env (r_max (limits a)) @ ''  (Ohm)'',
                ''Limits V'' @ TAB @ ''min='' @ float_repr env (v_min (limits a)) @ TAB @
                  ''max='' @ float_repr env (v_max (limits a)) @ ''  (Volt)'',
                [],
                ''Point'' @ TAB @ ''R('' @ OHM @ '')'' @ TAB @ ''V(V)'' @ TAB @ ''Result'']"]) simp
  show "\<exists>head. length head = 7 \<and>
           result_lines_uitest env b = Inr (head @ map (row_text b) [0 ..< nat (num_points b)])"
    unfolding result_lines_uitest_def well_formed_report [OF assms(2)]
    by (rule exI [of _ "[''Model'' @ TAB @ model_or ''-'' b,
                ''Time'' @ TAB @ time_line env,
                [],
                ''R Set'' @ TAB @ float_repr env (r_set (limits b)) @ '' m'' @ OHM @ TAB @
                  ''Tol '' @ PLUS_MINUS @ float_repr env (r_tol (limits b)) @ '' m'' @ OHM @ TAB @
                  ''(min='' @ float_repr env (fst (r_bounds (limits b))) @
                  '', max='' @ float_repr env (snd (r_bounds (limits b))) @ '')'',
                ''V Set'' @ TAB @ float_repr env (v_set (limits b)) @ '' V'' @ TAB @
                  ''Tol '' @ PLUS_MINUS @ float_repr env (v_tol (limits b)) @ '' V'' @ TAB @
                  ''(min='' @ float_repr env (fst (v_bounds (limits b))) @
                  '', max='' @ float_repr env (snd (v_bounds (limits b))) @ '')'',
                [],
                ''Cell'' @ TAB @ ''R(m'' @ OHM @ '')'' @ TAB @ ''V(V)'' @ TAB @ ''Result'']"]) simp
  show "\<exists>ip fp. fmt6 (FVal x) = (if x < 0 then ''-'' else []) @ ip @ ''.'' @ fp \<and>
            ip \<noteq> [] \<and> (\<forall>c \<in> set ip. is_digit c) \<and> length fp = 6 \<and> (\<forall>c \<in> set fp. is_digit c)" for x
    by (rule fmt6_shape)
qed

lemma sample_report_well_formed:
  "well_formed sample_report_ui2" "well_formed sample_report_uitest"
  by (simp_all add: well_formed_def sample_report_ui2_def sample_report_uitest_def
      new_ui2_def new_uitest_def init_arrays_def)

lemma sample_rows:
  "map (row_text sample_report_ui2) [0 ..< nat (num_points sample_report_ui2)] =
     [''1'' @ TAB @ ''10.100000'' @ TAB @ ''5.000000'' @ TAB @ ''PASS'', ''2'' @ TAB @ TAB @ TAB @ ''N/A'']"
  by (simp add: sample_report_ui2_def new_ui2_def init_arrays_def row_text_def fmt6_samples
      str_nat.simps digit_char_def upt_rec [of 0] numeral_2_eq_2 del: fmt6.simps)

theorem result_lines_rows_witness:
  "well_formed sample_report_ui2 \<and> well_formed sample_report_uitest \<and>
   (\<exists>head. length head = 7 \<and>
      result_lines_ui2 sample_env sample_report_ui2 =
        Inr (head @ [''1'' @ TAB @ ''10.100000'' @ TAB @ ''5.000000'' @ TAB @ ''PASS'',
                     ''2'' @ TAB @ TAB @ TAB @ ''N/A'',
                     [],
                     ''Overall'' @ TAB @ ''NOT PASS'']))"
proof -
  have ov: "\<not> ((\<forall>i < nat (num_points sample_report_ui2). r_values sample_report_ui2 ! i \<noteq> None) \<and>
      (\<forall>i < nat (num_points sample_report_ui2). flags sample_report_ui2 ! i))"
    by (auto simp add: sample_report_ui2_def new_ui2_def init_arrays_def intro: exI [of _ 1])
  from result_lines_rows [OF sample_report_well_formed, of sample_env]
  obtain head where "length head = 7"
    and "result_lines_ui2 sample_env sample_report_ui2 =
      Inr (head @ map (row_text sample_report_ui2) [0 ..< nat (num_points sample_report_ui2)] @
             [[], ''Overall'' @ TAB @
                  (if (\<forall>i < nat (num_points sample_report_ui2). r_values sample_report_ui2 ! i \<noteq> None) \<and>
                      (\<forall>i < nat (num_points sample_report_ui2). flags sample_report_ui2 ! i)
                   then ''PASS'' else ''NOT PASS'')])"
    by blast
  with ov have "length head = 7 \<and> result_lines_ui2 sample_env sample_report_ui2 =
        Inr (head @ [''1'' @ TAB @ ''10.100000'' @ TAB @ ''5.000000'' @ TAB @ ''PASS'',
                     ''2'' @ TAB @ TAB @ TAB @ ''N/A'',
                     [],
                     ''Overall'' @ TAB @ ''NOT PASS''])"
    by (simp only: sample_rows if_False) simp
  with sample_report_well_formed show ?thesis by blast
qed

text \<open>
  The claim as first worded has every narrative report end with the line \<open>Overall\<close>. The
  report of \<^verbatim>\<open>UI_test.py\<close> for the session of the example ends with the row of the second
  point.
\<close>

theorem result_lines_uitest_overall_counterexample:
  "result_lines_uitest sample_env sample_report_uitest = Inr
     [''Model'' @ TAB @ ''-'',
      ''Time'' @ TAB @ ''2026-01-02 03:04:05'',
      [],
      ''R Set'' @ TAB @ ''10.0 m'' @ OHM @ TAB @ ''Tol '' @ PLUS_MINUS @ ''0.5 m'' @ OHM @ TAB @ ''(min=9.5, max=10.5)'',
      ''V Set'' @ TAB @ ''5.0 V'' @ TAB @ ''Tol '' @ PLUS_MINUS @ ''0.1 V'' @ TAB @ ''(min=4.9, max=5.1)'',
      [],
      ''Cell'' @ TAB @ ''R(m'' @ OHM @ '')'' @ TAB @ ''V(V)'' @ TAB @ ''Result'',
      ''1'' @ TAB @ ''10.100000'' @ TAB @ ''5.000000'' @ TAB @ ''PASS'',
      ''2'' @ TAB @ TAB @ TAB @ ''N/A''] \<and>
   last (projr (result_lines_uitest sample_env sample_report_uitest)) = ''2'' @ TAB @ TAB @ TAB @ ''N/A'' \<and>
   ''Overall'' @ TAB @ ''NOT PASS'' \<notin> set (projr (result_lines_uitest sample_env sample_report_uitest))"
  by (simp add: sample_uitest_lines TAB_def OHM_def PLUS_MINUS_def)

subsection \<open>Applying the settings\<close>


lemma refresh_loop_shape:
  assumes "n \<le> length (r_values s)" "n \<le> length (v_values s)" "n \<le> length (flags s)"
  shows "\<exists>F R. refresh_loop rb vb [0 ..< n] s = Done (s\<lparr>flags := F, row_widgets := R\<rparr>) \<and>
           length F = length (flags s) \<and> length R = length (row_widgets s)"
proof -
  from assms have "\<forall>i \<in> set [0 ..< n]. i < length (r_values s) \<and> i < length (v_values s) \<and> i < length (flags s)"
    by simp
  from refresh_loop_closed [OF this, of rb vb] show ?thesis
    by (intro exI conjI) (assumption, rule fold_update_length, rule fold_update_length)
qed

lemma refresh_rows_ui2_shape:
  assumes "well_formed s"
  shows "\<exists>F R. refresh_rows_ui2 s = Done (s\<lparr>flags := F, row_widgets := R\<rparr>) \<and>
           length F = length (flags s) \<and> length R = length (row_widgets s)"
  unfolding refresh_rows_ui2_def
  by (rule refresh_loop_shape) (rule well_formed_lengths [OF assms])+

lemma refresh_rows_uitest_shape:
  assumes "well_formed s"
  shows "\<exists>F R. refresh_rows_uitest s = Done (s\<lparr>flags := F, row_widgets := R\<rparr>) \<and>
           length F = length (flags s) \<and> length R = length (row_widgets s)"
  unfolding refresh_rows_uitest_def
  by (rule refresh_loop_shape) (rule well_formed_lengths [OF assms])+

lemma rebuild_ui2:
  assumes pos: "0 < num_points a" and ne: "num_points a \<noteq> int (length (r_values a))"
  shows "\<exists>t. apply_settings_ui2 a = Done t \<and>
           num_points t = num_points a \<and> limits t = limits a \<and>
           auto_interval t = max 10 (auto_interval a) \<and>
           r_values t = replicate (nat (num_points a)) None \<and>
           v_values t = replicate (nat (num_points a)) None \<and>
           flags t = replicate (nat (num_points a)) False \<and>
           length (row_widgets t) = nat (num_points a) \<and>
           current_idx t = 0 \<and> \<not> auto_running t \<and> auto_job t = None \<and>
           gui t = gui (auto_stop a) @ [ShowInfo ''Apply'' ''Settings applied.'']"
proof -
  define n where "n = nat (num_points a)"
  define s0 where "s0 = init_arrays (auto_stop (a\<lparr>auto_interval := max 10 (auto_interval a)\<rparr>))"
  define s1 where "s1 = s0\<lparr>row_widgets := replicate n blank_row\<rparr>"
  define rb where "rb = (r_min (limits s1), r_max (limits s1))"
  define vb where "vb = (v_min (limits s1), v_max (limits s1))"
  from pos have n: "0 < n" by (simp add: n_def)
  have f0: "r_values s0 = replicate n None" "v_values s0 = replicate n None"
    "flags s0 = replicate n False" "current_idx s0 = 0" "num_points s0 = num_points a"
    "limits s0 = limits a" "auto_interval s0 = max 10 (auto_interval a)"
    "\<not> auto_running s0" "auto_job s0 = None" "gui s0 = gui (auto_stop a)"
    by (simp_all add: s0_def n_def init_arrays_def auto_stop_def Let_def split: option.splits)
  have f1: "r_values s1 = replicate n None" "v_values s1 = replicate n None"
    "flags s1 = replicate n False" "current_idx s1 = 0" "num_points s1 = num_points a"
    "limits s1 = limits a" "auto_interval s1 = max 10 (auto_interval a)"
    "\<not> auto_running s1" "auto_job s1 = None" "gui s1 = gui (auto_stop a)"
    "row_widgets s1 = replicate n blank_row"
    by (simp_all add: s1_def f0)
  have le: "n \<le> length (r_values s1)" "n \<le> length (v_values s1)" "n \<le> length (flags s1)"
    "n \<le> length (row_widgets s1)"
    by (simp_all add: f1)
  from refresh_loop_shape [OF le(1-3), of rb vb] obtain F R
    where r: "refresh_loop rb vb [0 ..< n] s1 = Done (s1\<lparr>flags := F, row_widgets := R\<rparr>)"
      and lF: "length F = n" and lR: "length R = n"
    by (auto simp add: f1)
  from refresh_loop_all [OF le, of rb vb] r
  have "\<forall>i < n. F ! i = row_flag rb vb (r_values s1 ! i) (v_values s1 ! i)"
    by auto
  then have "\<forall>i < n. F ! i = False"
    by (simp add: f1 row_flag_def)
  with lF have F: "F = replicate n False"
    by (intro nth_equalityI) simp_all
  define t where "t = s1\<lparr>flags := F, row_widgets := R,
     gui := gui s1 @ [ShowInfo ''Apply'' ''Settings applied.'']\<rparr>"
  have u0: "update_big_box s0 = Done s0"
    using n by (simp add: update_big_box_def f0)
  have u1: "update_big_box (s1\<lparr>flags := F, row_widgets := R\<rparr>) = Done (s1\<lparr>flags := F, row_widgets := R\<rparr>)"
    using n by (simp add: update_big_box_def f1)
  have rr: "refresh_rows_ui2 s1 = Done (s1\<lparr>flags := F, row_widgets := R\<rparr>)"
    using r by (simp add: refresh_rows_ui2_def rb_def vb_def f1)
  have b: "build_main_ui2 s0 = Done (s1\<lparr>flags := F, row_widgets := R\<rparr>)"
    using n u0 rr u1 by (simp add: build_main_ui2_def f0 s1_def [symmetric] n_def [symmetric])
  from ne pos have "apply_settings_ui2 a = Done t"
    by (simp add: apply_settings_ui2_def Let_def s0_def [symmetric] b t_def)
  moreover have "num_points t = num_points a \<and> limits t = limits a \<and>
           auto_interval t = max 10 (auto_interval a) \<and>
           r_values t = replicate n None \<and> v_values t = replicate n None \<and>
           flags t = replicate n False \<and> length (row_widgets t) = n \<and>
           current_idx t = 0 \<and> \<not> auto_running t \<and> auto_job t = None \<and>
           gui t = gui (auto_stop a) @ [ShowInfo ''Apply'' ''Settings applied.'']"
    by (simp add: t_def f1 F lR)
  ultimately show ?thesis unfolding n_def by blast
qed


text \<open>
  C7, as amended. \<open>_apply_settings\<close> of \<^verbatim>\<open>UI_test.py\<close> refuses a point count that is not
  positive, an interval below ten and a negative tolerance: it shows the error and
  returns at once, and the call itself changes no reading, flag, row or cursor. The
  values it refused are not put back: they stay in the variables behind the entries, no
  copy of the earlier values is kept, and the next \<open>_refresh_rows\<close> evaluates the readings
  against the bounds derived from them. \<open>_apply_settings\<close> of \<^verbatim>\<open>UI_2.py\<close> refuses only a
  point count that is not positive, in the same way. It accepts every other setting,
  raises the interval to at least ten and reports that the settings are applied: when
  the point count equals the number of readings it keeps the readings and recomputes
  the flags and the rows under the limits as typed, and when the point count differs it
  stops the Auto run and starts over with empty readings, the cursor on the first point.
\<close>

theorem apply_settings_rejects:
  "(num_points b \<le> 0 \<or> auto_interval b < 10 \<or> r_tol (limits b) < 0 \<or> v_tol (limits b) < 0 \<longrightarrow>
      apply_settings_uitest b = Done (b\<lparr>gui := gui b @ [ShowError ''Invalid'' ''Settings error'']\<rparr>) \<and>
      refresh_rows_uitest (state_of (apply_settings_uitest b)) =
        refresh_loop (r_bounds (limits b)) (v_bounds (limits b)) [0 ..< length (row_widgets b)]
          (b\<lparr>gui := gui b @ [ShowError ''Invalid'' ''Settings error'']\<rparr>)) \<and>
   (num_points a \<le> 0 \<longrightarrow>
      apply_settings_ui2 a = Done (a\<lparr>gui := gui a @ [ShowError ''Invalid'' ''Settings error'']\<rparr>)) \<and>
   (well_formed a \<longrightarrow>
      (\<exists>F R. apply_settings_ui2 a = Done (a\<lparr>
          auto_interval := max 10 (auto_interval a), flags := F, row_widgets := R,
          gui := gui a @ [ShowInfo ''Apply'' ''Settings applied.'']\<rparr>))) \<and>
   (0 < num_points a \<and> num_points a \<noteq> int (length (r_values a)) \<longrightarrow>
      (\<exists>t. apply_settings_ui2 a = Done t \<and>
           num_points t = num_points a \<and> limits t = limits a \<and>
           auto_interval t = max 10 (auto_interval a) \<and>
           r_values t = replicate (nat (num_points a)) None \<and>
           v_values t = replicate (nat (num_points a)) None \<and>
           flags t = replicate (nat (num_points a)) False \<and>
           length (row_widgets t) = nat (num_points a) \<and>
           current_idx t = 0 \<and> \<not> auto_running t \<and> auto_job t = None \<and>
           gui t = gui (auto_stop a) @ [ShowInfo ''Apply'' ''Settings applied.'']))"
proof (intro conjI impI)
  assume "num_points b \<le> 0 \<or> auto_interval b < 10 \<or> r_tol (limits b) < 0 \<or> v_tol (limits b) < 0"
  then show e: "apply_settings_uitest b = Done (b\<lparr>gui := gui b @ [ShowError ''Invalid'' ''Settings error'']\<rparr>)"
    by (auto simp add: apply_settings_uitest_def)
  show "refresh_rows_uitest (state_of (apply_settings_uitest b)) =
        refresh_loop (r_bounds (limits b)) (v_bounds (limits b)) [0 ..< length (row_widgets b)]
          (b\<lparr>gui := gui b @ [ShowError ''Invalid'' ''Settings error'']\<rparr>)"
    by (simp add: e refresh_rows_uitest_def)
next
  assume "num_points a \<le> 0"
  then show "apply_settings_ui2 a = Done (a\<lparr>gui := gui a @ [ShowError ''Invalid'' ''Settings error'']\<rparr>)"
    by (simp add: apply_settings_ui2_def)
next
  assume wf: "well_formed a"
  let ?a1 = "a\<lparr>auto_interval := max 10 (auto_interval a)\<rparr>"
  from wf have wf1: "well_formed ?a1" by (simp add: well_formed_def)
  from wf have pos: "0 < num_points a" and same: "num_points a = int (length (r_values a))"
    and idx: "current_idx a < length (r_values a)" "current_idx a < length (v_values a)"
    by (simp_all add: well_formed_def)
  from refresh_rows_ui2_shape [OF wf1] obtain F R
    where r: "refresh_rows_ui2 ?a1 = Done (?a1\<lparr>flags := F, row_widgets := R\<rparr>)" by blast
  from idx have u: "update_big_box (?a1\<lparr>flags := F, row_widgets := R\<rparr>) = Done (?a1\<lparr>flags := F, row_widgets := R\<rparr>)"
    by (simp add: update_big_box_def)
  from pos same r u
  have "apply_settings_ui2 a = Done (a\<lparr>
          auto_interval := max 10 (auto_interval a), flags := F, row_widgets := R,
          gui := gui a @ [ShowInfo ''Apply'' ''Settings applied.'']\<rparr>)"
    by (simp add: apply_settings_ui2_def Let_def)
  then show "\<exists>F R. apply_settings_ui2 a = Done (a\<lparr>
          auto_interval := max 10 (auto_interval a), flags := F, row_widgets := R,
          gui := gui a @ [ShowInfo ''Apply'' ''Settings applied.'']\<rparr>)"
    by blast
next
  assume "0 < num_points a \<and> num_points a \<noteq> int (length (r_values a))"
  then have "0 < num_points a" "num_points a \<noteq> int (length (r_values a))" by simp_all
  then show "\<exists>t. apply_settings_ui2 a = Done t \<and>
           num_points t = num_points a \<and> limits t = limits a \<and>
           auto_interval t = max 10 (auto_interval a) \<and>
           r_values t = replicate (nat (num_points a)) None \<and>
           v_values t = replicate (nat (num_points a)) None \<and>
           flags t = replicate (nat (num_points a)) False \<and>
           length (row_widgets t) = nat (num_points a) \<and>
           current_idx t = 0 \<and> \<not> auto_running t \<and> auto_job t = None \<and>
           gui t = gui (auto_stop a) @ [ShowInfo ''Apply'' ''Settings applied.'']"
    by (rule rebuild_ui2)
qed

theorem apply_settings_rejects_witness:
  "auto_interval sample_settings_uitest < 10 \<and>
   apply_settings_uitest sample_settings_uitest =
     Done (sample_settings_uitest\<lparr>gui := [ShowError ''Invalid'' ''Settings error'']\<rparr>) \<and>
   num_points sample_no_points_ui2 \<le> 0 \<and>
   apply_settings_ui2 sample_no_points_ui2 =
     Done (sample_no_points_ui2\<lparr>gui := [ShowError ''Invalid'' ''Settings error'']\<rparr>) \<and>
   well_formed sample_readings_ui2 \<and>
   (\<exists>F R. apply_settings_ui2 sample_readings_ui2 =
      Done (sample_readings_ui2\<lparr>auto_interval := 500, flags := F, row_widgets := R,
              gui := [ShowInfo ''Apply'' ''Settings applied.'']\<rparr>)) \<and>
   0 < num_points sample_fewer_points_ui2 \<and>
   num_points sample_fewer_points_ui2 \<noteq> int (length (r_values sample_fewer_points_ui2)) \<and>
   (\<exists>t. apply_settings_ui2 sample_fewer_points_ui2 = Done t \<and>
        auto_interval t = 10 \<and> r_values t = [None, None] \<and> v_values t = [None, None] \<and>
        flags t = [False, False] \<and> length (row_widgets t) = 2 \<and> current_idx t = 0 \<and>
        \<not> auto_running t \<and> auto_job t = None \<and>
        gui t = [AfterCancel 500, ShowInfo ''Apply'' ''Settings applied.''])"
proof -
  have 1: "auto_interval sample_settings_uitest < 10"
    by (simp add: sample_settings_uitest_def)
  have 2: "num_points sample_no_points_ui2 \<le> 0"
    by (simp add: sample_no_points_ui2_def)
  have 3: "well_formed sample_readings_ui2"
    by (simp add: well_formed_def sample_readings_ui2_def new_ui2_def init_arrays_def)
  have 4: "0 < num_points sample_fewer_points_ui2 \<and>
      num_points sample_fewer_points_ui2 \<noteq> int (length (r_values sample_fewer_points_ui2))"
    by (simp add: sample_fewer_points_ui2_def sample_readings_ui2_def new_ui2_def init_arrays_def)
  have g: "gui sample_settings_uitest = []" "gui sample_no_points_ui2 = []"
    "gui sample_readings_ui2 = []" "auto_interval sample_readings_ui2 = 500"
    by (simp_all add: sample_settings_uitest_def sample_no_points_ui2_def sample_readings_ui2_def
        sample_readings_uitest_def new_ui2_def new_uitest_def init_arrays_def)
  have h: "num_points sample_fewer_points_ui2 = 2" "auto_interval sample_fewer_points_ui2 = 5"
    "gui (auto_stop sample_fewer_points_ui2) = [AfterCancel 500]"
    by (simp_all add: sample_fewer_points_ui2_def sample_readings_ui2_def new_ui2_def
        init_arrays_def auto_stop_def)
  from apply_settings_rejects [of sample_settings_uitest sample_no_points_ui2] 1 2
  have A: "apply_settings_uitest sample_settings_uitest =
     Done (sample_settings_uitest\<lparr>gui := [ShowError ''Invalid'' ''Settings error'']\<rparr>) \<and>
     apply_settings_ui2 sample_no_points_ui2 =
     Done (sample_no_points_ui2\<lparr>gui := [ShowError ''Invalid'' ''Settings error'']\<rparr>)"
    by (simp add: g)
  from apply_settings_rejects [of sample_settings_uitest sample_readings_ui2] 3
  have B: "\<exists>F R. apply_settings_ui2 sample_readings_ui2 =
      Done (sample_readings_ui2\<lparr>auto_interval := 500, flags := F, row_widgets := R,
              gui := [ShowInfo ''Apply'' ''Settings applied.'']\<rparr>)"
    by (simp add: g)
  from apply_settings_rejects [of sample_settings_uitest sample_fewer_points_ui2] 4
  obtain t where "apply_settings_ui2 sample_fewer_points_ui2 = Done t"
    "auto_interval t = max 10 (auto_interval sample_fewer_points_ui2)"
    "r_values t = replicate (nat (num_points sample_fewer_points_ui2)) None"
    "v_values t = replicate (nat (num_points sample_fewer_points_ui2)) None"
    "flags t = replicate (nat (num_points sample_fewer_points_ui2)) False"
    "length (row_widgets t) = nat (num_points sample_fewer_points_ui2)"
    "current_idx t = 0" "\<not> auto_running t" "auto_job t = None"
    "gui t = gui (auto_stop sample_fewer_points_ui2) @ [ShowInfo ''Apply'' ''Settings applied.'']"
    by blast
  then have C: "\<exists>t. apply_settings_ui2 sample_fewer_points_ui2 = Done t \<and>
        auto_interval t = 10 \<and> r_values t = [None, None] \<and> v_values t = [None, None] \<and>
        flags t = [False, False] \<and> length (row_widgets t) = 2 \<and> current_idx t = 0 \<and>
        \<not> auto_running t \<and> auto_job t = None \<and>
        gui t = [AfterCancel 500, ShowInfo ''Apply'' ''Settings applied.'']"
    by (simp add: h numeral_2_eq_2)
  from 1 2 3 4 A B C show ?thesis by simp
qed

text \<open>
  The claim as first worded has every such setting refused and the earlier settings in
  effect afterwards. \<^verbatim>\<open>UI_2.py\<close> takes a resistance minimum of eleven above a maximum of
  ten together with an interval of five: nothing is raised, the interval becomes ten,
  every flag is recomputed under the new limits, and the only message is that the
  settings are applied. \<^verbatim>\<open>UI_test.py\<close> refuses a resistance tolerance of \<open>-0.5\<close> typed over
  \<open>0.5\<close>, but the tolerance stays \<open>-0.5\<close>: the bounds derived after the refusal are \<open>10.5\<close> and
  \<open>9.5\<close>, and the next \<open>_refresh_rows\<close> fails the reading of \<open>10.1\<close> that passes under the
  earlier tolerance.
\<close>

theorem apply_settings_counterexample:
  "r_max (limits sample_settings_ui2) < r_min (limits sample_settings_ui2) \<and>
   auto_interval sample_settings_ui2 < 10 \<and>
   raised (apply_settings_ui2 sample_settings_ui2) = None \<and>
   auto_interval (state_of (apply_settings_ui2 sample_settings_ui2)) = 10 \<and>
   limits (state_of (apply_settings_ui2 sample_settings_ui2)) =
     \<lparr>r_min = 11, r_max = 10, v_min = 4.9, v_max = 5.1\<rparr> \<and>
   flags (state_of (apply_settings_ui2 sample_settings_ui2)) = [False, False, False, False] \<and>
   gui (state_of (apply_settings_ui2 sample_settings_ui2)) = [ShowInfo ''Apply'' ''Settings applied.''] \<and>
   sample_negative_tol_uitest =
     sample_report_uitest\<lparr>limits := \<lparr>r_set = 10, r_tol = - 0.5, v_set = 5, v_tol = 0.1\<rparr>\<rparr> \<and>
   limits sample_report_uitest = \<lparr>r_set = 10, r_tol = 0.5, v_set = 5, v_tol = 0.1\<rparr> \<and>
   flags (state_of (refresh_rows_uitest sample_report_uitest)) = [True, False] \<and>
   apply_settings_uitest sample_negative_tol_uitest =
     Done (sample_negative_tol_uitest\<lparr>gui := [ShowError ''Invalid'' ''Settings error'']\<rparr>) \<and>
   limits (state_of (apply_settings_uitest sample_negative_tol_uitest)) =
     \<lparr>r_set = 10, r_tol = - 0.5, v_set = 5, v_tol = 0.1\<rparr> \<and>
   r_bounds (limits (state_of (apply_settings_uitest sample_negative_tol_uitest))) = (10.5, 9.5) \<and>
   flags (state_of (refresh_rows_uitest (state_of (apply_settings_uitest sample_negative_tol_uitest)))) =
     [False, False]"
proof -
  have a: "r_max (limits sample_settings_ui2) < r_min (limits sample_settings_ui2) \<and>
   auto_interval sample_settings_ui2 < 10 \<and>
   raised (apply_settings_ui2 sample_settings_ui2) = None \<and>
   auto_interval (state_of (apply_settings_ui2 sample_settings_ui2)) = 10 \<and>
   limits (state_of (apply_settings_ui2 sample_settings_ui2)) =
     \<lparr>r_min = 11, r_max = 10, v_min = 4.9, v_max = 5.1\<rparr> \<and>
   flags (state_of (apply_settings_ui2 sample_settings_ui2)) = [False, False, False, False] \<and>
   gui (state_of (apply_settings_ui2 sample_settings_ui2)) = [ShowInfo ''Apply'' ''Settings applied.'']"
    by (simp add: apply_settings_ui2_def sample_settings_ui2_def sample_readings_ui2_def new_ui2_def
      init_arrays_def refresh_rows_ui2_def blank_row_def upt_rec [of 0] refresh_row_def
      row_flag_def row_paint_def ok_in_def update_big_box_def numeral_eq_Suc)
  have u: "[0 ..< 2] = [0, Suc 0]"
    by (simp add: numeral_2_eq_2 upt_rec [of 0] upt_rec [of "Suc 0"] upt_rec [of "Suc (Suc 0)"])
  have r: "replicate 2 blank_row = [blank_row, blank_row]"
    by (simp add: numeral_2_eq_2)
  have b: "sample_negative_tol_uitest =
     sample_report_uitest\<lparr>limits := \<lparr>r_set = 10, r_tol = - 0.5, v_set = 5, v_tol = 0.1\<rparr>\<rparr> \<and>
   limits sample_report_uitest = \<lparr>r_set = 10, r_tol = 0.5, v_set = 5, v_tol = 0.1\<rparr>"
    by (simp add: sample_negative_tol_uitest_def sample_report_uitest_def new_uitest_def init_arrays_def)
  have c: "flags (state_of (refresh_rows_uitest sample_report_uitest)) = [True, False]"
    by (simp add: refresh_rows_uitest_def sample_report_uitest_def new_uitest_def init_arrays_def
        u r refresh_row_def row_flag_def ok_in_def r_bounds_def v_bounds_def double_eval)
  have d: "apply_settings_uitest sample_negative_tol_uitest =
     Done (sample_negative_tol_uitest\<lparr>gui := [ShowError ''Invalid'' ''Settings error'']\<rparr>)"
    by (simp add: apply_settings_uitest_def sample_negative_tol_uitest_def sample_report_uitest_def
        new_uitest_def init_arrays_def)
  have e: "limits (state_of (apply_settings_uitest sample_negative_tol_uitest)) =
     \<lparr>r_set = 10, r_tol = - 0.5, v_set = 5, v_tol = 0.1\<rparr>"
    unfolding d state_of.simps by (simp add: sample_negative_tol_uitest_def)
  have f: "r_bounds (limits (state_of (apply_settings_uitest sample_negative_tol_uitest))) = (10.5, 9.5)"
    unfolding e by (simp add: r_bounds_def double_eval)
  have g: "flags (state_of (refresh_rows_uitest (state_of (apply_settings_uitest sample_negative_tol_uitest)))) =
     [False, False]"
    unfolding d state_of.simps
    by (simp add: refresh_rows_uitest_def sample_negative_tol_uitest_def sample_report_uitest_def
        new_uitest_def init_arrays_def
        u r refresh_row_def row_flag_def ok_in_def r_bounds_def v_bounds_def double_eval)
  from a b c d e f g show ?thesis by blast
qed

subsection \<open>Measuring without a connection\<close>


text \<open>
  C2. With no serial handle, \<open>_measure_one\<close> of \<^verbatim>\<open>UI_test.py\<close> raises the not-connected
  signal and returns: the readings, the flags and the cursor are as before, whatever the
  meter or the random numbers would have given, so no simulated reading takes the place
  of the missing connection. Called from the Auto loop it also stops the loop: the
  running flag is cleared, the pending timer is cancelled, and the tick that made the
  call schedules no other.
\<close>

theorem not_connected_refused:
  assumes "ser s = None"
  shows "measure_one_uitest from_auto inp s =
           Done (if from_auto then auto_stop (s\<lparr>gui := gui s @ [NotConnected]\<rparr>)
                 else s\<lparr>gui := gui s @ [NotConnected]\<rparr>) \<and>
         r_values (state_of (measure_one_uitest from_auto inp s)) = r_values s \<and>
         v_values (state_of (measure_one_uitest from_auto inp s)) = v_values s \<and>
         flags (state_of (measure_one_uitest from_auto inp s)) = flags s \<and>
         current_idx (state_of (measure_one_uitest from_auto inp s)) = current_idx s \<and>
         NotConnected \<in> set (gui (state_of (measure_one_uitest from_auto inp s))) \<and>
         (from_auto \<longrightarrow>
            \<not> auto_running (state_of (measure_one_uitest from_auto inp s)) \<and>
            auto_job (state_of (measure_one_uitest from_auto inp s)) = None) \<and>
         (auto_running s \<longrightarrow>
            tick_auto_uitest inp s = Done (auto_stop (s\<lparr>gui := gui s @ [NotConnected]\<rparr>)) \<and>
            \<not> auto_running (state_of (tick_auto_uitest inp s)) \<and>
            auto_job (state_of (tick_auto_uitest inp s)) = None \<and>
            (\<forall>d. AfterTick d \<in> set (gui (state_of (tick_auto_uitest inp s))) \<longrightarrow>
                 AfterTick d \<in> set (gui s)))"
proof -
  have m: "measure_one_uitest fa inp s =
           Done (if fa then auto_stop (s\<lparr>gui := gui s @ [NotConnected]\<rparr>)
                 else s\<lparr>gui := gui s @ [NotConnected]\<rparr>)" for fa
    using assms by (simp add: measure_one_uitest_def ensure_connected_def)
  have st: "r_values (auto_stop t) = r_values t" "v_values (auto_stop t) = v_values t"
    "flags (auto_stop t) = flags t" "current_idx (auto_stop t) = current_idx t"
    "\<not> auto_running (auto_stop t)" "auto_job (auto_stop t) = None"
    "set (gui (auto_stop t)) \<subseteq> set (gui t) \<union> range AfterCancel" for t :: "settol app"
    by (auto simp add: auto_stop_def split: option.splits)
  have tick: "tick_auto_uitest inp s = Done (auto_stop (s\<lparr>gui := gui s @ [NotConnected]\<rparr>))"
    if "auto_running s"
    using that by (simp add: tick_auto_uitest_def m schedule_tick_def st)
  have n: "NotConnected \<in> set (gui (auto_stop (s\<lparr>gui := gui s @ [NotConnected]\<rparr>)))"
    by (simp add: auto_stop_def split: option.splits)
  have a: "AfterTick d \<in> set (gui (auto_stop (s\<lparr>gui := gui s @ [NotConnected]\<rparr>))) \<Longrightarrow>
      AfterTick d \<in> set (gui s)" for d
    by (simp add: auto_stop_def split: option.splits)
  show ?thesis
    using tick a n by (simp add: m st)
qed

theorem not_connected_refused_witness:
  "ser sample_auto_uitest = None \<and> auto_running sample_auto_uitest \<and>
   measure_one_uitest False sample_inputs sample_auto_uitest =
     Done (sample_auto_uitest\<lparr>gui := [NotConnected]\<rparr>) \<and>
   tick_auto_uitest sample_inputs sample_auto_uitest =
     Done (sample_auto_uitest\<lparr>auto_running := False, auto_job := None,
             gui := [NotConnected, AfterCancel 500]\<rparr>)"
proof -
  have h: "ser sample_auto_uitest = None" "auto_running sample_auto_uitest"
    by (simp_all add: sample_auto_uitest_def sample_readings_uitest_def new_uitest_def init_arrays_def)
  have g: "gui sample_auto_uitest = []" "auto_job sample_auto_uitest = Some 500"
    by (simp_all add: sample_auto_uitest_def sample_readings_uitest_def new_uitest_def init_arrays_def)
  from not_connected_refused [OF h(1), of False sample_inputs] h(2) g
    not_connected_refused [OF h(1), of True sample_inputs]
  show ?thesis by (simp add: h auto_stop_def)
qed

subsection \<open>The cursor\<close>


lemma store_reading_well_formed:
  assumes "well_formed s"
  shows "store_reading rv s =
           Done (s\<lparr>r_values := (r_values s)[current_idx s := Some (fst rv)],
                   v_values := (v_values s)[current_idx s := Some (snd rv)]\<rparr>)"
    and "well_formed (s\<lparr>r_values := (r_values s)[current_idx s := Some (fst rv)],
                   v_values := (v_values s)[current_idx s := Some (snd rv)]\<rparr>)"
  using assms by (simp_all add: store_reading_def well_formed_def Let_def)

lemma update_big_box_well_formed:
  assumes "well_formed s"
  shows "update_big_box s = Done s"
  using assms by (simp add: update_big_box_def well_formed_def)

lemma well_formed_flags_rows:
  assumes "well_formed s" "length F = length (flags s)" "length R = length (row_widgets s)"
  shows "well_formed (s\<lparr>flags := F, row_widgets := R\<rparr>)"
  using assms by (simp add: well_formed_def)

lemma measure_one_ui2_manual:
  assumes wf: "well_formed s"
  shows "\<exists>s'. measure_one_ui2 False inp s = Done s' \<and> well_formed s' \<and>
           limits s' = limits s \<and> num_points s' = num_points s \<and>
           current_idx s' = min (current_idx s + 1) (nat (num_points s) - 1) \<and>
           r_values s' = (r_values s)[current_idx s := Some (fst (read_meter_ui2 s (rnd inp)))] \<and>
           v_values s' = (v_values s)[current_idx s := Some (snd (read_meter_ui2 s (rnd inp)))]"
proof -
  let ?rv = "read_meter_ui2 s (rnd inp)"
  let ?s1 = "s\<lparr>r_values := (r_values s)[current_idx s := Some (fst ?rv)],
                v_values := (v_values s)[current_idx s := Some (snd ?rv)]\<rparr>"
  note st = store_reading_well_formed [OF wf, of ?rv]
  from refresh_rows_ui2_shape [OF st(2)] obtain F R
    where r: "refresh_rows_ui2 ?s1 = Done (?s1\<lparr>flags := F, row_widgets := R\<rparr>)"
      and len: "length F = length (flags ?s1)" "length R = length (row_widgets ?s1)"
    by blast
  let ?s2 = "?s1\<lparr>flags := F, row_widgets := R\<rparr>"
  have wf2: "well_formed ?s2" by (rule well_formed_flags_rows [OF st(2) len])
  note u = update_big_box_well_formed [OF wf2]
  from wf2 have n: "0 < num_points s" "current_idx s < nat (num_points s)"
    "length R = nat (num_points s)"
    by (simp_all add: well_formed_def)
  show ?thesis
  proof (cases "int (current_idx s) < num_points s - 1")
    case True
    let ?s3 = "?s2\<lparr>current_idx := Suc (current_idx s)\<rparr>"
    from True n have c: "Suc (current_idx s) < nat (num_points s)" by linarith
    with n have p: "point_combo_current ?s3 = Done ?s3"
      by (simp add: point_combo_current_def)
    from True have m: "measure_one_ui2 False inp s = Done ?s3"
      by (simp add: measure_one_ui2_def st(1) r u p)
    from wf2 c have "well_formed ?s3" by (simp add: well_formed_def)
    moreover from c have "current_idx ?s3 = min (current_idx s + 1) (nat (num_points s) - 1)"
      by simp
    ultimately show ?thesis using m by simp
  next
    case False
    let ?s3 = "?s2\<lparr>gui := gui s @ [ShowInfo ''Done'' ''Measured all points.'']\<rparr>"
    from False have m: "measure_one_ui2 False inp s = Done ?s3"
      by (simp add: measure_one_ui2_def st(1) r u)
    from wf2 have "well_formed ?s3" by (simp add: well_formed_def)
    moreover from False n have "current_idx ?s3 = min (current_idx s + 1) (nat (num_points s) - 1)"
      by simp
    ultimately show ?thesis using m by simp
  qed
qed


lemma measure_one_uitest_manual:
  assumes wf: "well_formed s" and conn: "ser s \<noteq> None"
  shows "\<exists>s'. measure_one_uitest False inp s = Done s' \<and> well_formed s' \<and>
           limits s' = limits s \<and> ser s' = ser s \<and> num_points s' = num_points s \<and>
           current_idx s' = min (current_idx s + 1) (nat (num_points s) - 1) \<and>
           r_values s' = (r_values s)[current_idx s := Some (fst (read_meter_uitest s (port inp) (rnd inp)))] \<and>
           v_values s' = (v_values s)[current_idx s := Some (snd (read_meter_uitest s (port inp) (rnd inp)))]"
proof -
  let ?rv = "read_meter_uitest s (port inp) (rnd inp)"
  let ?s1 = "s\<lparr>r_values := (r_values s)[current_idx s := Some (fst ?rv)],
                v_values := (v_values s)[current_idx s := Some (snd ?rv)]\<rparr>"
  from conn have e: "ensure_connected s = (True, s)" by (simp add: ensure_connected_def)
  note st = store_reading_well_formed [OF wf, of ?rv]
  from refresh_rows_uitest_shape [OF st(2)] obtain F R
    where r: "refresh_rows_uitest ?s1 = Done (?s1\<lparr>flags := F, row_widgets := R\<rparr>)"
      and len: "length F = length (flags ?s1)" "length R = length (row_widgets ?s1)"
    by blast
  let ?s2 = "?s1\<lparr>flags := F, row_widgets := R\<rparr>"
  have wf2: "well_formed ?s2" by (rule well_formed_flags_rows [OF st(2) len])
  note u = update_big_box_well_formed [OF wf2]
  from wf2 have n: "0 < num_points s" "current_idx s < nat (num_points s)"
    "length R = nat (num_points s)"
    by (simp_all add: well_formed_def)
  show ?thesis
  proof (cases "num_points s - 1 \<le> int (current_idx s)")
    case False
    let ?s3 = "?s2\<lparr>current_idx := Suc (current_idx s),
                 gui := gui s @ (if mode s = ''manual'' then [NextCellPopup] else [])\<rparr>"
    from False n have c: "Suc (current_idx s) < nat (num_points s)" by linarith
    with n have p: "point_combo_current ?s3 = Done ?s3"
      by (simp add: point_combo_current_def)
    from False have m: "measure_one_uitest False inp s = Done ?s3"
      by (simp add: measure_one_uitest_def e st(1) r u p)
    from wf2 c have "well_formed ?s3" by (simp add: well_formed_def)
    moreover from c have "current_idx ?s3 = min (current_idx s + 1) (nat (num_points s) - 1)"
      by simp
    ultimately show ?thesis using m by simp
  next
    case True
    let ?s3 = "?s2\<lparr>gui := gui s @ [ShowInfo ''Done'' ''Measured all cells.'']\<rparr>"
    from True have m: "measure_one_uitest False inp s = Done ?s3"
      by (simp add: measure_one_uitest_def e st(1) r u)
    from wf2 have "well_formed ?s3" by (simp add: well_formed_def)
    moreover from True n have "current_idx ?s3 = min (current_idx s + 1) (nat (num_points s) - 1)"
      by simp
    ultimately show ?thesis using m by simp
  qed
qed

lemma replicate_update_next:
  assumes "length xs < n"
  shows "(xs @ replicate (n - length xs) x)[length xs := y] = (xs @ [y]) @ replicate (n - Suc (length xs)) x"
proof -
  from assms obtain m where m: "n - length xs = Suc m" by (cases "n - length xs") simp_all
  then have "n - Suc (length xs) = m" by simp
  with m show ?thesis by (simp add: list_update_append)
qed

text \<open>
  A run of calls of a step that stores its reading at the cursor and moves the cursor
  on by one, up to the last point.
\<close>

lemma run_of_steps:
  fixes step :: "inputs \<Rightarrow> 'l app \<Rightarrow> 'l app outcome"
  assumes step: "\<And>inp s. P s \<Longrightarrow> \<exists>s'. step inp s = Done s' \<and> P s' \<and>
             num_points s' = num_points s \<and>
             current_idx s' = min (current_idx s + 1) (nat (num_points s) - 1) \<and>
             r_values s' = (r_values s)[current_idx s := Some (fst (rd inp))] \<and>
             v_values s' = (v_values s)[current_idx s := Some (snd (rd inp))]"
    and start: "P s0" "current_idx s0 = 0"
      "r_values s0 = replicate (nat (num_points s0)) None"
      "v_values s0 = replicate (nat (num_points s0)) None"
  shows "\<exists>s'. foldl (\<lambda>out inp. and_then out (step inp)) (Done s0) inps = Done s' \<and> P s' \<and>
           num_points s' = num_points s0 \<and>
           current_idx s' = min (length inps) (nat (num_points s0) - 1) \<and>
           (length inps \<le> nat (num_points s0) \<longrightarrow>
              r_values s' = map (\<lambda>inp. Some (fst (rd inp))) inps @
                              replicate (nat (num_points s0) - length inps) None \<and>
              v_values s' = map (\<lambda>inp. Some (snd (rd inp))) inps @
                              replicate (nat (num_points s0) - length inps) None)"
proof (induction inps rule: rev_induct)
  case Nil
  from start show ?case by simp
next
  case (snoc inp inps)
  let ?n = "nat (num_points s0)"
  from snoc obtain s1 where s1: "foldl (\<lambda>out inp. and_then out (step inp)) (Done s0) inps = Done s1"
    "P s1" "num_points s1 = num_points s0" "current_idx s1 = min (length inps) (?n - 1)"
    and vals: "length inps \<le> ?n \<Longrightarrow>
       r_values s1 = map (\<lambda>inp. Some (fst (rd inp))) inps @ replicate (?n - length inps) None \<and>
       v_values s1 = map (\<lambda>inp. Some (snd (rd inp))) inps @ replicate (?n - length inps) None"
    by blast
  from step [OF s1(2), of inp] obtain s2 where s2: "step inp s1 = Done s2" "P s2"
    "num_points s2 = num_points s1"
    "current_idx s2 = min (current_idx s1 + 1) (nat (num_points s1) - 1)"
    "r_values s2 = (r_values s1)[current_idx s1 := Some (fst (rd inp))]"
    "v_values s2 = (v_values s1)[current_idx s1 := Some (snd (rd inp))]"
    by blast
  have run: "foldl (\<lambda>out inp. and_then out (step inp)) (Done s0) (inps @ [inp]) = Done s2"
    by (simp add: s1(1) s2(1))
  have cur: "current_idx s2 = min (length (inps @ [inp])) (?n - 1)"
    by (simp add: s2(4) s1(3,4) min_def)
  have v: "r_values s2 = map (\<lambda>inp. Some (fst (rd inp))) (inps @ [inp]) @
                              replicate (?n - length (inps @ [inp])) None \<and>
           v_values s2 = map (\<lambda>inp. Some (snd (rd inp))) (inps @ [inp]) @
                              replicate (?n - length (inps @ [inp])) None"
    if le: "length (inps @ [inp]) \<le> ?n"
  proof -
    from le have lt: "length inps < ?n" by simp
    then have c: "current_idx s1 = length inps" by (simp add: s1(4))
    from lt vals have r: "r_values s1 = map (\<lambda>inp. Some (fst (rd inp))) inps @ replicate (?n - length inps) None"
      and w: "v_values s1 = map (\<lambda>inp. Some (snd (rd inp))) inps @ replicate (?n - length inps) None"
      by simp_all
    from lt have l1: "length (map (\<lambda>inp. Some (fst (rd inp))) inps) < ?n"
      and l2: "length (map (\<lambda>inp. Some (snd (rd inp))) inps) < ?n" by simp_all
    from replicate_update_next [OF l1, of None "Some (fst (rd inp))"]
      replicate_update_next [OF l2, of None "Some (snd (rd inp))"]
    show ?thesis by (simp add: s2(5,6) c r w)
  qed
  have np: "num_points s2 = num_points s0" by (simp add: s2(3) s1(3))
  show ?case
  proof (intro exI [of _ s2] conjI impI)
    assume le: "length (inps @ [inp]) \<le> ?n"
    from v [OF le] show "r_values s2 = map (\<lambda>inp. Some (fst (rd inp))) (inps @ [inp]) @
                              replicate (?n - length (inps @ [inp])) None" ..
    from v [OF le] show "v_values s2 = map (\<lambda>inp. Some (snd (rd inp))) (inps @ [inp]) @
                              replicate (?n - length (inps @ [inp])) None" ..
  qed (fact run s2(2) np cur)+
qed


text \<open>
  C5. From a fresh session (one reading, flag and row per point, every reading absent,
  the cursor on the first point), any number of manual calls of \<open>_measure_one\<close> ends
  normally, in \<^verbatim>\<open>UI_test.py\<close> with a serial handle present. After \<open>k\<close> calls the cursor is
  \<open>min k (n - 1)\<close>, so it stays on the last point however many calls follow; and as long
  as \<open>k \<le> n\<close> the first \<open>k\<close> points hold the readings of the calls in their order and the
  other points are still absent.
\<close>

theorem cursor_holds_at_last_point:
  assumes "well_formed a" and "current_idx a = 0"
    and "r_values a = replicate (nat (num_points a)) None"
    and "v_values a = replicate (nat (num_points a)) None"
    and "well_formed b" and "ser b \<noteq> None" and "current_idx b = 0"
    and "r_values b = replicate (nat (num_points b)) None"
    and "v_values b = replicate (nat (num_points b)) None"
  shows "(\<exists>a'. measure_many_ui2 inps a = Done a' \<and>
            current_idx a' = min (length inps) (nat (num_points a) - 1) \<and>
            (length inps \<le> nat (num_points a) \<longrightarrow>
               r_values a' = map (\<lambda>inp. Some (fst (read_meter_ui2 a (rnd inp)))) inps @
                               replicate (nat (num_points a) - length inps) None \<and>
               v_values a' = map (\<lambda>inp. Some (snd (read_meter_ui2 a (rnd inp)))) inps @
                               replicate (nat (num_points a) - length inps) None)) \<and>
         (\<exists>b'. measure_many_uitest inps b = Done b' \<and>
            current_idx b' = min (length inps) (nat (num_points b) - 1) \<and>
            (length inps \<le> nat (num_points b) \<longrightarrow>
               r_values b' = map (\<lambda>inp. Some (fst (read_meter_uitest b (port inp) (rnd inp)))) inps @
                               replicate (nat (num_points b) - length inps) None \<and>
               v_values b' = map (\<lambda>inp. Some (snd (read_meter_uitest b (port inp) (rnd inp)))) inps @
                               replicate (nat (num_points b) - length inps) None))"
proof
  let ?P = "\<lambda>s. well_formed s \<and> limits s = limits a"
  have step: "\<exists>s'. measure_one_ui2 False inp s = Done s' \<and> ?P s' \<and>
             num_points s' = num_points s \<and>
             current_idx s' = min (current_idx s + 1) (nat (num_points s) - 1) \<and>
             r_values s' = (r_values s)[current_idx s := Some (fst (read_meter_ui2 a (rnd inp)))] \<and>
             v_values s' = (v_values s)[current_idx s := Some (snd (read_meter_ui2 a (rnd inp)))]"
    if "?P s" for inp s
  proof -
    from that have wf: "well_formed s" and l: "limits s = limits a" by simp_all
    have rd: "read_meter_ui2 s (rnd inp) = read_meter_ui2 a (rnd inp)"
      by (simp only: read_meter_ui2_def l)
    from measure_one_ui2_manual [OF wf, of inp] l show ?thesis
      by (simp only: rd) auto
  qed
  from assms(1) have p0: "?P a" by simp
  from run_of_steps [where P = ?P and step = "measure_one_ui2 False"
      and rd = "\<lambda>inp. read_meter_ui2 a (rnd inp)", OF step p0 assms(2,3,4), of inps]
  show "\<exists>a'. measure_many_ui2 inps a = Done a' \<and>
            current_idx a' = min (length inps) (nat (num_points a) - 1) \<and>
            (length inps \<le> nat (num_points a) \<longrightarrow>
               r_values a' = map (\<lambda>inp. Some (fst (read_meter_ui2 a (rnd inp)))) inps @
                               replicate (nat (num_points a) - length inps) None \<and>
               v_values a' = map (\<lambda>inp. Some (snd (read_meter_ui2 a (rnd inp)))) inps @
                               replicate (nat (num_points a) - length inps) None)"
    unfolding measure_many_ui2_def by blast
next
  let ?P = "\<lambda>s. well_formed s \<and> limits s = limits b \<and> ser s = ser b"
  have step: "\<exists>s'. measure_one_uitest False inp s = Done s' \<and> ?P s' \<and>
             num_points s' = num_points s \<and>
             current_idx s' = min (current_idx s + 1) (nat (num_points s) - 1) \<and>
             r_values s' = (r_values s)[current_idx s :=
                 Some (fst (read_meter_uitest b (port inp) (rnd inp)))] \<and>
             v_values s' = (v_values s)[current_idx s :=
                 Some (snd (read_meter_uitest b (port inp) (rnd inp)))]"
    if "?P s" for inp s
  proof -
    from that have wf: "well_formed s" and l: "limits s = limits b" and c: "ser s = ser b"
      by simp_all
    from c assms(6) have conn: "ser s \<noteq> None" by simp
    have rd: "read_meter_uitest s (port inp) (rnd inp) = read_meter_uitest b (port inp) (rnd inp)"
      by (simp only: read_meter_uitest_def query_fetc_once_def l c)
    from measure_one_uitest_manual [OF wf conn, of inp] l c show ?thesis
      by (simp only: rd) auto
  qed
  from assms(5) have p0: "?P b" by simp
  from run_of_steps [where P = ?P and step = "measure_one_uitest False"
      and rd = "\<lambda>inp. read_meter_uitest b (port inp) (rnd inp)", OF step p0 assms(7,8,9), of inps]
  show "\<exists>b'. measure_many_uitest inps b = Done b' \<and>
            current_idx b' = min (length inps) (nat (num_points b) - 1) \<and>
            (length inps \<le> nat (num_points b) \<longrightarrow>
               r_values b' = map (\<lambda>inp. Some (fst (read_meter_uitest b (port inp) (rnd inp)))) inps @
                               replicate (nat (num_points b) - length inps) None \<and>
               v_values b' = map (\<lambda>inp. Some (snd (read_meter_uitest b (port inp) (rnd inp)))) inps @
                               replicate (nat (num_points b) - length inps) None)"
    unfolding measure_many_uitest_def by blast
qed


lemma sample_fresh_facts:
  "well_formed sample_fresh_ui2" "current_idx sample_fresh_ui2 = 0"
  "r_values sample_fresh_ui2 = replicate (nat (num_points sample_fresh_ui2)) None"
  "v_values sample_fresh_ui2 = replicate (nat (num_points sample_fresh_ui2)) None"
  "well_formed sample_fresh_uitest" "ser sample_fresh_uitest \<noteq> None"
  "current_idx sample_fresh_uitest = 0"
  "r_values sample_fresh_uitest = replicate (nat (num_points sample_fresh_uitest)) None"
  "v_values sample_fresh_uitest = replicate (nat (num_points sample_fresh_uitest)) None"
  by (simp_all add: well_formed_def sample_fresh_ui2_def sample_fresh_uitest_def new_ui2_def
      new_uitest_def init_arrays_def)

lemma sample_reading_ui2:
  "read_meter_ui2 sample_fresh_ui2 (rnd sample_inputs) = (FVal 9.85, FVal 5)"
  by (simp add: read_meter_ui2_def sample_fresh_ui2_def new_ui2_def init_arrays_def sample_inputs_def
      sample_draws_near_def simulated_def near_center_def uniform_def)

lemma sample_reading_uitest:
  "read_meter_uitest sample_fresh_uitest (port sample_inputs) (rnd sample_inputs) =
     (FVal 5.87263, FVal 3.0994)"
  by (simp add: read_meter_uitest_def query_fetc_once_def sample_fresh_uitest_def new_uitest_def
      init_arrays_def sample_inputs_def
      parse_meter_line_def py_float_def py_int_def strip_def is_space_def take_sign_def
      spelled_def number_ok_def number_val_def cut_def mantissa_ok_def mantissa_val_def status_of_def
      exponent_ok_def exponent_val_def is_digit_def digit_val_def digits_val_def upper_of_def)

theorem cursor_holds_at_last_point_witness:
  "well_formed sample_fresh_ui2 \<and> current_idx sample_fresh_ui2 = 0 \<and>
   r_values sample_fresh_ui2 = [None, None, None] \<and> v_values sample_fresh_ui2 = [None, None, None] \<and>
   well_formed sample_fresh_uitest \<and> ser sample_fresh_uitest \<noteq> None \<and>
   current_idx sample_fresh_uitest = 0 \<and>
   r_values sample_fresh_uitest = [None, None, None] \<and>
   v_values sample_fresh_uitest = [None, None, None] \<and>
   (\<exists>a'. measure_many_ui2 [sample_inputs, sample_inputs] sample_fresh_ui2 = Done a' \<and>
      current_idx a' = 2 \<and>
      r_values a' = [Some (FVal 9.85), Some (FVal 9.85), None] \<and>
      v_values a' = [Some (FVal 5), Some (FVal 5), None]) \<and>
   (\<exists>a'. measure_many_ui2 (replicate 5 sample_inputs) sample_fresh_ui2 = Done a' \<and>
      current_idx a' = 2) \<and>
   (\<exists>b'. measure_many_uitest [sample_inputs, sample_inputs, sample_inputs] sample_fresh_uitest = Done b' \<and>
      current_idx b' = 2 \<and>
      r_values b' = [Some (FVal 5.87263), Some (FVal 5.87263), Some (FVal 5.87263)] \<and>
      v_values b' = [Some (FVal 3.0994), Some (FVal 3.0994), Some (FVal 3.0994)]) \<and>
   (\<exists>b'. measure_many_uitest (replicate 5 sample_inputs) sample_fresh_uitest = Done b' \<and>
      current_idx b' = 2)"
proof -
  have n: "nat (num_points sample_fresh_ui2) = 3" "nat (num_points sample_fresh_uitest) = 3"
    by (simp_all add: sample_fresh_ui2_def sample_fresh_uitest_def new_ui2_def new_uitest_def
        init_arrays_def)
  note T = cursor_holds_at_last_point [OF sample_fresh_facts]
  from T [of "[sample_inputs, sample_inputs]"]
  have 1: "\<exists>a'. measure_many_ui2 [sample_inputs, sample_inputs] sample_fresh_ui2 = Done a' \<and>
      current_idx a' = 2 \<and>
      r_values a' = [Some (FVal 9.85), Some (FVal 9.85), None] \<and>
      v_values a' = [Some (FVal 5), Some (FVal 5), None]"
    by (simp add: n sample_reading_ui2 numeral_eq_Suc)
  from T [of "replicate 5 sample_inputs"]
  have 2: "\<exists>a'. measure_many_ui2 (replicate 5 sample_inputs) sample_fresh_ui2 = Done a' \<and>
      current_idx a' = 2"
    by (simp add: n)
  from T [of "[sample_inputs, sample_inputs, sample_inputs]"]
  have 3: "\<exists>b'. measure_many_uitest [sample_inputs, sample_inputs, sample_inputs] sample_fresh_uitest = Done b' \<and>
      current_idx b' = 2 \<and>
      r_values b' = [Some (FVal 5.87263), Some (FVal 5.87263), Some (FVal 5.87263)] \<and>
      v_values b' = [Some (FVal 3.0994), Some (FVal 3.0994), Some (FVal 3.0994)]"
    by (simp add: n sample_reading_uitest numeral_2_eq_2)
  from T [of "replicate 5 sample_inputs"]
  have 4: "\<exists>b'. measure_many_uitest (replicate 5 sample_inputs) sample_fresh_uitest = Done b' \<and>
      current_idx b' = 2"
    by (simp add: n)
  from sample_fresh_facts n 1 2 3 4 show ?thesis by (simp add: numeral_eq_Suc)
qed

subsection \<open>The Auto run on a single point\<close>

lemma write_report_frame:
  "\<exists>d g. write_report name lines saved failed s = s\<lparr>disk := d, gui := gui s @ g\<rparr> \<and>
         (g = saved \<or> g = [ShowError ''Export'' failed])"
proof (cases "open_w (disk s) name")
  case (Inl e)
  then have "write_report name lines saved failed s =
      s\<lparr>disk := disk s, gui := gui s @ [ShowError ''Export'' failed]\<rparr>"
    by (simp add: write_report_def)
  then show ?thesis by blast
next
  case (Inr d1)
  show ?thesis
  proof (cases lines)
    case (Inl e)
    with Inr have "write_report name lines saved failed s =
        s\<lparr>disk := d1, gui := gui s @ [ShowError ''Export'' failed]\<rparr>"
      by (simp add: write_report_def)
    then show ?thesis by blast
  next
    case (Inr ls)
    with \<open>open_w (disk s) name = Inr d1\<close>
    have "write_report name lines saved failed s =
        s\<lparr>disk := write_text d1 name (join_lines ls), gui := gui s @ saved\<rparr>"
      by (simp add: write_report_def)
    then show ?thesis by blast
  qed
qed

lemma export_snapshot_ui2_frame:
  "\<exists>d g. state_of (export_snapshot_ui2 env s) = s\<lparr>disk := d, gui := gui s @ g\<rparr> \<and>
         List.map_filter tick_delay g = [] \<and>
         (raised (export_snapshot_ui2 env s) \<noteq> None \<longrightarrow> g = [])"
proof (cases "makedirs (disk s) (export_folder s)")
  case (Inl e)
  then have "state_of (export_snapshot_ui2 env s) = s\<lparr>disk := disk s, gui := gui s @ []\<rparr>"
    by (simp add: export_snapshot_ui2_def)
  then show ?thesis by (intro exI [of _ "disk s"] exI [of _ "[]"]) (simp add: map_filter_simps)
next
  case (Inr d1)
  let ?name = "path_join (export_folder s) (export_name env s)"
  from write_report_frame [of ?name "result_lines_ui2 env s"
      "[ShowInfo ''Export'' (''Saved:'' @ NL @ ?name)]" "''Auto export failed''" "s\<lparr>disk := d1\<rparr>"]
  obtain d g where w: "write_report ?name (result_lines_ui2 env s)
      [ShowInfo ''Export'' (''Saved:'' @ NL @ ?name)] ''Auto export failed'' (s\<lparr>disk := d1\<rparr>) =
      s\<lparr>disk := d, gui := gui s @ g\<rparr>"
    and g: "g = [ShowInfo ''Export'' (''Saved:'' @ NL @ ?name)] \<or> g = [ShowError ''Export'' ''Auto export failed'']"
    by auto
  from Inr w have "state_of (export_snapshot_ui2 env s) = s\<lparr>disk := d, gui := gui s @ g\<rparr>"
    and "raised (export_snapshot_ui2 env s) = None"
    by (simp_all add: export_snapshot_ui2_def Let_def)
  moreover from g have "List.map_filter tick_delay g = []"
    by (auto simp add: map_filter_simps)
  ultimately show ?thesis by auto
qed

lemma measure_one_ui2_auto_last:
  assumes wf: "well_formed s" and lst: "\<not> int (current_idx s) < num_points s - 1"
  shows "\<exists>F R d g. state_of (measure_one_ui2 True inp s) =
           s\<lparr>r_values := (r_values s)[current_idx s := Some (fst (read_meter_ui2 s (rnd inp)))],
              v_values := (v_values s)[current_idx s := Some (snd (read_meter_ui2 s (rnd inp)))],
              flags := F, row_widgets := R, auto_running := False, auto_job := None,
              disk := d, gui := gui s @ g\<rparr> \<and>
           List.map_filter tick_delay g = [] \<and>
           (raised (measure_one_ui2 True inp s) = None \<longrightarrow>
              g \<noteq> [] \<and> last g = AfterInfo 0 ''Auto'' ''Auto measurement finished.'') \<and>
           (\<not> auto_export s \<longrightarrow> raised (measure_one_ui2 True inp s) = None)"
proof -
  let ?rv = "read_meter_ui2 s (rnd inp)"
  let ?s1 = "s\<lparr>r_values := (r_values s)[current_idx s := Some (fst ?rv)],
                v_values := (v_values s)[current_idx s := Some (snd ?rv)]\<rparr>"
  note st = store_reading_well_formed [OF wf, of ?rv]
  from refresh_rows_ui2_shape [OF st(2)] obtain F R
    where r: "refresh_rows_ui2 ?s1 = Done (?s1\<lparr>flags := F, row_widgets := R\<rparr>)"
      and len: "length F = length (flags ?s1)" "length R = length (row_widgets ?s1)"
    by blast
  let ?s2 = "?s1\<lparr>flags := F, row_widgets := R\<rparr>"
  have wf2: "well_formed ?s2" by (rule well_formed_flags_rows [OF st(2) len])
  note u = update_big_box_well_formed [OF wf2]
  define s3 where "s3 = auto_stop ?s2"
  define c where "c = (case auto_job s of None \<Rightarrow> [] | Some j \<Rightarrow> [AfterCancel j])"
  have s3: "s3 = ?s2\<lparr>auto_running := False, auto_job := None, gui := gui s @ c\<rparr>"
    by (simp add: s3_def c_def auto_stop_def split: option.splits)
  have c: "List.map_filter tick_delay c = []"
    by (simp add: c_def map_filter_simps split: option.splits)
  have ae: "auto_export ?s2 = auto_export s" by simp
  from lst have m: "measure_one_ui2 True inp s =
      and_then (if auto_export s then export_snapshot_ui2 (exp inp) s3 else Done s3)
        (\<lambda>s. Done (s\<lparr>gui := gui s @ [AfterInfo 0 ''Auto'' ''Auto measurement finished.'']\<rparr>))"
    by (simp add: measure_one_ui2_def st(1) r u s3_def)
  show ?thesis
  proof (cases "auto_export s")
    case False
    with m have e: "measure_one_ui2 True inp s =
        Done (s3\<lparr>gui := gui s3 @ [AfterInfo 0 ''Auto'' ''Auto measurement finished.'']\<rparr>)"
      by simp
    have "state_of (measure_one_ui2 True inp s) =
           s\<lparr>r_values := (r_values s)[current_idx s := Some (fst ?rv)],
              v_values := (v_values s)[current_idx s := Some (snd ?rv)],
              flags := F, row_widgets := R, auto_running := False, auto_job := None,
              disk := disk s, gui := gui s @ (c @ [AfterInfo 0 ''Auto'' ''Auto measurement finished.''])\<rparr>"
      by (simp add: e s3)
    moreover have "List.map_filter tick_delay (c @ [AfterInfo 0 ''Auto'' ''Auto measurement finished.'']) = []"
      using c by (simp add: map_filter_def)
    moreover have "raised (measure_one_ui2 True inp s) = None" by (simp add: e)
    ultimately show ?thesis
      by (intro exI [of _ F] exI [of _ R] exI [of _ "disk s"]
          exI [of _ "c @ [AfterInfo 0 ''Auto'' ''Auto measurement finished.'']"]) simp
  next
    case True
    from export_snapshot_ui2_frame [of "exp inp" s3] obtain d g
      where x: "state_of (export_snapshot_ui2 (exp inp) s3) = s3\<lparr>disk := d, gui := gui s3 @ g\<rparr>"
        and g: "List.map_filter tick_delay g = []"
        and gr: "raised (export_snapshot_ui2 (exp inp) s3) \<noteq> None \<longrightarrow> g = []"
      by blast
    show ?thesis
    proof (cases "export_snapshot_ui2 (exp inp) s3")
      case (Done s4)
      with x have s4: "s4 = s3\<lparr>disk := d, gui := gui s3 @ g\<rparr>" by simp
      from m True Done have e: "measure_one_ui2 True inp s =
          Done (s4\<lparr>gui := gui s4 @ [AfterInfo 0 ''Auto'' ''Auto measurement finished.'']\<rparr>)"
        by simp
      have "state_of (measure_one_ui2 True inp s) =
           s\<lparr>r_values := (r_values s)[current_idx s := Some (fst ?rv)],
              v_values := (v_values s)[current_idx s := Some (snd ?rv)],
              flags := F, row_widgets := R, auto_running := False, auto_job := None,
              disk := d, gui := gui s @ (c @ g @ [AfterInfo 0 ''Auto'' ''Auto measurement finished.''])\<rparr>"
        by (simp add: e s4 s3)
      moreover have "List.map_filter tick_delay (c @ g @ [AfterInfo 0 ''Auto'' ''Auto measurement finished.'']) = []"
        using c g by (simp add: map_filter_def)
      moreover have "raised (measure_one_ui2 True inp s) = None" by (simp add: e)
      ultimately show ?thesis using True
        by (intro exI [of _ F] exI [of _ R] exI [of _ d]
            exI [of _ "c @ g @ [AfterInfo 0 ''Auto'' ''Auto measurement finished.'']"]) simp
    next
      case (Raised err s4)
      with x gr have s4: "s4 = s3\<lparr>disk := d, gui := gui s3 @ g\<rparr>" and g0: "g = []" by simp_all
      from m True Raised have e: "measure_one_ui2 True inp s = Raised err s4"
        by simp
      have "state_of (measure_one_ui2 True inp s) =
           s\<lparr>r_values := (r_values s)[current_idx s := Some (fst ?rv)],
              v_values := (v_values s)[current_idx s := Some (snd ?rv)],
              flags := F, row_widgets := R, auto_running := False, auto_job := None,
              disk := d, gui := gui s @ c\<rparr>"
        by (simp add: e s4 s3 g0)
      moreover have "raised (measure_one_ui2 True inp s) \<noteq> None" by (simp add: e)
      ultimately show ?thesis using True c
        by (intro exI [of _ F] exI [of _ R] exI [of _ d] exI [of _ c]) auto
    qed
  qed
qed


text \<open>
  C6. In a session of \<^verbatim>\<open>UI_2.py\<close> with a single point, one reading, flag and row for it and
  no Auto run under way, \<open>_auto_start\<close> takes one reading and stores it at the only point,
  and leaves the Auto run stopped: the running flag is cleared, no timer is pending, and
  no tick has been asked for, whatever the interval. When no exception leaves the call
  the last thing it does is to announce that the Auto measurement is finished, and
  without automatic export no exception leaves it. A tick that fires when no Auto run is
  under way, after this start or at any other time, returns with the session as it is.
\<close>

theorem auto_single_point_finishes:
  assumes "well_formed s" and "num_points s = 1" and "\<not> auto_running s"
  shows "r_values (state_of (auto_start_ui2 inp s)) = [Some (fst (read_meter_ui2 s (rnd inp)))] \<and>
         v_values (state_of (auto_start_ui2 inp s)) = [Some (snd (read_meter_ui2 s (rnd inp)))] \<and>
         current_idx (state_of (auto_start_ui2 inp s)) = 0 \<and>
         \<not> auto_running (state_of (auto_start_ui2 inp s)) \<and>
         auto_job (state_of (auto_start_ui2 inp s)) = None \<and>
         ticks_scheduled (state_of (auto_start_ui2 inp s)) = ticks_scheduled s \<and>
         (raised (auto_start_ui2 inp s) = None \<longrightarrow>
            last (gui (state_of (auto_start_ui2 inp s))) =
              AfterInfo 0 ''Auto'' ''Auto measurement finished.'') \<and>
         (\<not> auto_export s \<longrightarrow> raised (auto_start_ui2 inp s) = None) \<and>
         tick_auto_ui2 inp' (state_of (auto_start_ui2 inp s)) = Done (state_of (auto_start_ui2 inp s)) \<and>
         (\<not> auto_running u \<longrightarrow> tick_auto_ui2 inp' u = Done u)"
proof -
  let ?s1 = "s\<lparr>auto_running := True\<rparr>"
  let ?rv = "read_meter_ui2 s (rnd inp)"
  from assms(1) have wf1: "well_formed ?s1" by (simp add: well_formed_def)
  from assms(1,2) have i: "current_idx s = 0" and l: "length (r_values s) = 1" "length (v_values s) = 1"
    by (simp_all add: well_formed_def)
  from l obtain r0 v0 where rv: "r_values s = [r0]" "v_values s = [v0]"
    by (auto simp add: length_Suc_conv)
  from assms(2) i have lst: "\<not> int (current_idx ?s1) < num_points ?s1 - 1" by simp
  have rd: "read_meter_ui2 ?s1 (rnd inp) = ?rv" by (simp add: read_meter_ui2_def)
  have "\<exists>F R d g. state_of (measure_one_ui2 True inp ?s1) =
           s\<lparr>r_values := [Some (fst ?rv)], v_values := [Some (snd ?rv)],
              flags := F, row_widgets := R, auto_running := False, auto_job := None,
              disk := d, gui := gui s @ g\<rparr> \<and>
           List.map_filter tick_delay g = [] \<and>
           (raised (measure_one_ui2 True inp ?s1) = None \<longrightarrow>
              g \<noteq> [] \<and> last g = AfterInfo 0 ''Auto'' ''Auto measurement finished.'') \<and>
           (\<not> auto_export s \<longrightarrow> raised (measure_one_ui2 True inp ?s1) = None)"
    using measure_one_ui2_auto_last [OF wf1 lst, of inp] by (simp add: rd i rv)
  then obtain F R d g
    where m: "state_of (measure_one_ui2 True inp ?s1) =
           s\<lparr>r_values := [Some (fst ?rv)], v_values := [Some (snd ?rv)],
              flags := F, row_widgets := R, auto_running := False, auto_job := None,
              disk := d, gui := gui s @ g\<rparr>"
      and g: "List.map_filter tick_delay g = []"
      and fin: "raised (measure_one_ui2 True inp ?s1) = None \<longrightarrow>
              g \<noteq> [] \<and> last g = AfterInfo 0 ''Auto'' ''Auto measurement finished.''"
      and ok: "\<not> auto_export s \<longrightarrow> raised (measure_one_ui2 True inp ?s1) = None"
    by (elim exE conjE)
  define t where "t = s\<lparr>r_values := [Some (fst ?rv)], v_values := [Some (snd ?rv)],
              flags := F, row_widgets := R, auto_running := False, auto_job := None,
              disk := d, gui := gui s @ g\<rparr>"
  have sch: "schedule_tick t = Done t" by (simp add: schedule_tick_def t_def)
  have a: "state_of (auto_start_ui2 inp s) = t \<and>
      raised (auto_start_ui2 inp s) = raised (measure_one_ui2 True inp ?s1)"
  proof (cases "measure_one_ui2 True inp ?s1")
    case (Done x)
    with m have "x = t" by (simp add: t_def)
    with Done assms(3) sch show ?thesis
      by (simp add: auto_start_ui2_def tick_auto_ui2_def)
  next
    case (Raised e x)
    with m have "x = t" by (simp add: t_def)
    with Raised assms(3) show ?thesis
      by (simp add: auto_start_ui2_def tick_auto_ui2_def)
  qed
  have nt: "\<not> auto_running t" by (simp add: t_def)
  have tk: "ticks_scheduled t = ticks_scheduled s"
    using g by (simp add: ticks_scheduled_def t_def map_filter_def)
  have f: "raised (auto_start_ui2 inp s) = None \<longrightarrow>
      last (gui t) = AfterInfo 0 ''Auto'' ''Auto measurement finished.''"
    using fin a by (simp add: t_def)
  have "\<not> auto_running u \<longrightarrow> tick_auto_ui2 inp' u = Done u"
    by (simp add: tick_auto_ui2_def)
  moreover have "tick_auto_ui2 inp' t = Done t"
    using nt by (simp add: tick_auto_ui2_def)
  moreover have "r_values t = [Some (fst ?rv)]" "v_values t = [Some (snd ?rv)]" "current_idx t = 0"
    "auto_job t = None"
    by (simp_all add: t_def i)
  ultimately show ?thesis using a nt tk f ok by simp
qed

theorem auto_single_point_finishes_witness:
  "well_formed sample_single_ui2 \<and> num_points sample_single_ui2 = 1 \<and>
   auto_interval sample_single_ui2 = 10 \<and> \<not> auto_running sample_single_ui2 \<and>
   r_values (state_of (auto_start_ui2 sample_inputs sample_single_ui2)) = [Some (FVal 9.85)] \<and>
   v_values (state_of (auto_start_ui2 sample_inputs sample_single_ui2)) = [Some (FVal 5)] \<and>
   \<not> auto_running (state_of (auto_start_ui2 sample_inputs sample_single_ui2)) \<and>
   auto_job (state_of (auto_start_ui2 sample_inputs sample_single_ui2)) = None \<and>
   ticks_scheduled (state_of (auto_start_ui2 sample_inputs sample_single_ui2)) = [] \<and>
   raised (auto_start_ui2 sample_inputs sample_single_ui2) = None \<and>
   last (gui (state_of (auto_start_ui2 sample_inputs sample_single_ui2))) =
     AfterInfo 0 ''Auto'' ''Auto measurement finished.'' \<and>
   tick_auto_ui2 sample_inputs (state_of (auto_start_ui2 sample_inputs sample_single_ui2)) =
     Done (state_of (auto_start_ui2 sample_inputs sample_single_ui2))"
proof -
  have 1: "well_formed sample_single_ui2"
    by (simp add: well_formed_def sample_single_ui2_def new_ui2_def init_arrays_def)
  have 2: "num_points sample_single_ui2 = 1" "\<not> auto_running sample_single_ui2"
    "auto_interval sample_single_ui2 = 10" "\<not> auto_export sample_single_ui2"
    "ticks_scheduled sample_single_ui2 = []"
    by (simp_all add: sample_single_ui2_def new_ui2_def init_arrays_def ticks_scheduled_def
        map_filter_simps)
  have 3: "read_meter_ui2 sample_single_ui2 (rnd sample_inputs) = (FVal 9.85, FVal 5)"
    by (simp add: read_meter_ui2_def sample_single_ui2_def new_ui2_def init_arrays_def
        sample_inputs_def sample_draws_near_def simulated_def near_center_def uniform_def Let_def)
  from auto_single_point_finishes [OF 1 2(1) 2(2), of sample_inputs sample_inputs] 1 2
  show ?thesis by (simp add: 3)
qed

subsection \<open>Exporting\<close>






lemma is_file_files: "files d' = files d \<Longrightarrow> is_file d' p = is_file d p"
  by (simp add: is_file_def)







lemma is_dir_dirs: "dirs d' = dirs d \<Longrightarrow> is_dir d' p = is_dir d p"
  by (simp add: is_dir_def)










end
